theory Spec2Isabelle
  imports Main "HOL-Library.Char_ord"
begin

section \<open>JavaScript values\<close>

text \<open>
  The values that flow through the manifest updaters.  A table of the TOML library carries
  its \<open>_type\<close> symbol and its \<open>_declared\<close> flag; its entries are kept in insertion order.
  \<open>JTagged\<close> is the \<open>TaggedValue\<close> interface of \<open>toml-edit.ts\<close>; \<open>JKeyValue\<close> is the
  \<open>{key, value}\<close> object that an assignment returns; \<open>JBoxed\<close> is a \<open>Number\<close> object
  (the library boxes integers until they are stored).  Offsets are numbers of the source,
  hence integers here.
\<close>

datatype tomltype = TABLE | INLINE_TABLE

text \<open>
  The built-in objects that a property read reaches by inheritance: the prototype objects
  and their methods.  A method is known by its name, such as \<open>Object.prototype.toString\<close>;
  the constructors are \<open>Object\<close>, \<open>Array\<close>, \<open>String\<close>, \<open>Number\<close> and \<open>Boolean\<close>.
\<close>

datatype builtin =
    ObjectPrototype | ArrayPrototype | StringPrototype | NumberPrototype | BooleanPrototype
  | FunctionPrototype
  | BuiltinFunction string

datatype jv =
    JUndefined
  | JNull
  | JString string
  | JNumber int
  | JBoolean bool
  | JBoxed int
  | JArray "jv list"
  | JTable (ttype: tomltype) (declared: bool) (entries: "(string \<times> jv) list")
  | JKeyValue jv jv
  | JTagged (prev_comma: "int option") (assign_start: int) (tstart: int) (tend: int) (tvalue: jv)
  | JBuiltin builtin

datatype jstype = TUndefined | TObject | TString | TNumber | TBoolean | TFunction

fun typeof :: "jv \<Rightarrow> jstype" where
  "typeof JUndefined = TUndefined"
| "typeof (JString s) = TString"
| "typeof (JNumber n) = TNumber"
| "typeof (JBoolean b) = TBoolean"
| "typeof (JBuiltin FunctionPrototype) = TFunction"
| "typeof (JBuiltin (BuiltinFunction f)) = TFunction"
| "typeof v = TObject"

text \<open>Truthiness, as \<open>if (x)\<close>, \<open>!x\<close> and \<open>x || y\<close> read a value.\<close>

fun truthy :: "jv \<Rightarrow> bool" where
  "truthy JUndefined = False"
| "truthy JNull = False"
| "truthy (JString s) = (s \<noteq> [])"
| "truthy (JNumber n) = (n \<noteq> 0)"
| "truthy (JBoolean b) = b"
| "truthy v = True"

text \<open>A key of a path: \<open>(string | number)[]\<close>.\<close>

datatype pathkey = KStr string | KNum nat

fun digit_of :: "nat \<Rightarrow> char" where
  "digit_of n = (''0123456789'' ! (n mod 10))"

fun string_of_nat :: "nat \<Rightarrow> string" where
  "string_of_nat n = (if n < 10 then [digit_of n] else string_of_nat (n div 10) @ [digit_of n])"

declare string_of_nat.simps [simp del]

fun key_string :: "pathkey \<Rightarrow> string" where
  "key_string (KStr s) = s"
| "key_string (KNum n) = string_of_nat n"

text \<open>
  A canonical array index: the decimal numeral of a number below \<open>2^32 - 1\<close>, with no
  leading zero.  Such property names index arrays and strings, and an object enumerates
  them first, in ascending order.
\<close>

fun digit_val :: "char \<Rightarrow> nat option" where
  "digit_val c =
     (if CHR ''0'' \<le> c \<and> c \<le> CHR ''9'' then Some (of_char c - of_char CHR ''0'') else None)"

fun nat_of_digits :: "nat \<Rightarrow> string \<Rightarrow> nat option" where
  "nat_of_digits acc [] = Some acc"
| "nat_of_digits acc (c # cs) =
     (case digit_val c of None \<Rightarrow> None | Some d \<Rightarrow> nat_of_digits (10 * acc + d) cs)"

definition array_index_of :: "string \<Rightarrow> nat option" where
  "array_index_of s =
     (if s = [] \<or> (hd s = CHR ''0'' \<and> length s > 1) then None
      else case nat_of_digits 0 s of
             None \<Rightarrow> None
           | Some n \<Rightarrow> if n < 4294967295 then Some n else None)"

text \<open>
  The names of the properties of \<open>Object.prototype\<close>; all are methods but \<open>__proto__\<close>, an
  accessor that gives the prototype of the object it is read from.  The methods of the other
  prototypes are those of ECMAScript 2023.
\<close>

definition Object_prototype_keys :: "string list" where
  "Object_prototype_keys =
     [''constructor'', ''__defineGetter__'', ''__defineSetter__'', ''hasOwnProperty'',
      ''__lookupGetter__'', ''__lookupSetter__'', ''isPrototypeOf'', ''propertyIsEnumerable'',
      ''toString'', ''valueOf'', ''__proto__'', ''toLocaleString'']"

definition Array_prototype_methods :: "string list" where
  "Array_prototype_methods =
     [''constructor'', ''at'', ''concat'', ''copyWithin'', ''fill'', ''find'', ''findIndex'',
      ''findLast'', ''findLastIndex'', ''lastIndexOf'', ''pop'', ''push'', ''reverse'', ''shift'',
      ''unshift'', ''slice'', ''sort'', ''splice'', ''includes'', ''indexOf'', ''join'', ''keys'',
      ''entries'', ''values'', ''forEach'', ''filter'', ''flat'', ''flatMap'', ''map'', ''every'',
      ''some'', ''reduce'', ''reduceRight'', ''toLocaleString'', ''toString'', ''toReversed'',
      ''toSorted'', ''toSpliced'', ''with'']"

definition String_prototype_methods :: "string list" where
  "String_prototype_methods =
     [''constructor'', ''anchor'', ''at'', ''big'', ''blink'', ''bold'', ''charAt'', ''charCodeAt'',
      ''codePointAt'', ''concat'', ''endsWith'', ''fontcolor'', ''fontsize'', ''fixed'',
      ''includes'', ''indexOf'', ''italics'', ''lastIndexOf'', ''link'', ''localeCompare'',
      ''match'', ''matchAll'', ''normalize'', ''padEnd'', ''padStart'', ''repeat'', ''replace'',
      ''replaceAll'', ''search'', ''slice'', ''small'', ''split'', ''strike'', ''sub'', ''substr'',
      ''substring'', ''sup'', ''startsWith'', ''toString'', ''trim'', ''trimStart'', ''trimLeft'',
      ''trimEnd'', ''trimRight'', ''toLocaleLowerCase'', ''toLocaleUpperCase'', ''toLowerCase'',
      ''toUpperCase'', ''valueOf'']"

definition Number_prototype_methods :: "string list" where
  "Number_prototype_methods =
     [''constructor'', ''toExponential'', ''toFixed'', ''toPrecision'', ''toString'', ''valueOf'',
      ''toLocaleString'']"

definition Boolean_prototype_methods :: "string list" where
  "Boolean_prototype_methods = [''constructor'', ''toString'', ''valueOf'']"

fun builtin_name :: "builtin \<Rightarrow> string" where
  "builtin_name ObjectPrototype = ''Object.prototype''"
| "builtin_name ArrayPrototype = ''Array.prototype''"
| "builtin_name StringPrototype = ''String.prototype''"
| "builtin_name NumberPrototype = ''Number.prototype''"
| "builtin_name BooleanPrototype = ''Boolean.prototype''"
| "builtin_name FunctionPrototype = ''Function.prototype''"
| "builtin_name (BuiltinFunction f) = f"

fun prototype_methods :: "builtin \<Rightarrow> string list" where
  "prototype_methods ObjectPrototype = removeAll ''__proto__'' Object_prototype_keys"
| "prototype_methods ArrayPrototype = Array_prototype_methods"
| "prototype_methods StringPrototype = String_prototype_methods"
| "prototype_methods NumberPrototype = Number_prototype_methods"
| "prototype_methods BooleanPrototype = Boolean_prototype_methods"
| "prototype_methods b = []"

text \<open>The method \<open>m\<close> of a prototype; its \<open>constructor\<close> is the constructor function.\<close>

definition method_of :: "builtin \<Rightarrow> string \<Rightarrow> jv" where
  "method_of b m =
     JBuiltin (BuiltinFunction
       (if m = ''constructor'' then take (length (builtin_name b) - length ''.prototype'') (builtin_name b)
        else builtin_name b @ ''.'' @ m))"

text \<open>The own properties of a value that have a string key.\<close>

fun own_get :: "jv \<Rightarrow> string \<Rightarrow> jv option" where
  "own_get (JTable ty d es) k = map_of es k"
| "own_get (JArray xs) k =
     (case array_index_of k of
        Some i \<Rightarrow> if i < length xs then Some (xs ! i) else None
      | None \<Rightarrow> if k = ''length'' then Some (JNumber (int (length xs))) else None)"
| "own_get (JString s) k =
     (case array_index_of k of
        Some i \<Rightarrow> if i < length s then Some (JString [s ! i]) else None
      | None \<Rightarrow> if k = ''length'' then Some (JNumber (int (length s))) else None)"
| "own_get (JKeyValue ks v) k =
     (if k = ''key'' then Some ks else if k = ''value'' then Some v else None)"
| "own_get (JTagged pc a s e v) k =
     (if k = ''prev_comma'' then Some (case pc of None \<Rightarrow> JUndefined | Some c \<Rightarrow> JNumber c)
      else if k = ''assign_start'' then Some (JNumber a)
      else if k = ''start'' then Some (JNumber s)
      else if k = ''end'' then Some (JNumber e)
      else if k = ''value'' then Some v
      else None)"
| "own_get (JBuiltin b) k =
     (if (b = ArrayPrototype \<or> b = StringPrototype) \<and> k = ''length'' then Some (JNumber 0)
      else if k \<in> set (prototype_methods b) then Some (method_of b k)
      else None)"
| "own_get v k = None"

text \<open>The prototype of a value; for a primitive, that of the object it is wrapped in.\<close>

fun prototype_of :: "jv \<Rightarrow> jv" where
  "prototype_of (JArray xs) = JBuiltin ArrayPrototype"
| "prototype_of (JString s) = JBuiltin StringPrototype"
| "prototype_of (JNumber n) = JBuiltin NumberPrototype"
| "prototype_of (JBoxed n) = JBuiltin NumberPrototype"
| "prototype_of (JBoolean b) = JBuiltin BooleanPrototype"
| "prototype_of (JBuiltin ObjectPrototype) = JNull"
| "prototype_of (JBuiltin (BuiltinFunction f)) = JBuiltin FunctionPrototype"
| "prototype_of JUndefined = JNull"
| "prototype_of JNull = JNull"
| "prototype_of v = JBuiltin ObjectPrototype"

text \<open>
  Property read \<open>obj[key]\<close>: the own property, else the one that the chain of prototypes
  gives; \<open>__proto__\<close>, when no object of the chain owns it, is the accessor of
  \<open>Object.prototype\<close>.  Two limits.  A read from \<open>undefined\<close> or \<open>null\<close> throws: the functions
  below test for these before they read.  The properties of a function are not modelled, and
  the read gives \<open>undefined\<close>: the source reads of a function only \<open>path\<close> and \<open>version\<close>,
  which no built-in function has, and the walk of \<open>replaceTomlValue\<close> stops at a function.
\<close>

definition js_get :: "jv \<Rightarrow> pathkey \<Rightarrow> jv" where
  "js_get v k =
     (if typeof v = TFunction then JUndefined
      else case own_get v (key_string k) of
        Some x \<Rightarrow> x
      | None \<Rightarrow>
          if v = JUndefined \<or> v = JNull then JUndefined
          else if key_string k = ''__proto__'' then prototype_of v
          else (case own_get (prototype_of v) (key_string k) of
                  Some x \<Rightarrow> x
                | None \<Rightarrow>
                    (case own_get (prototype_of (prototype_of v)) (key_string k) of
                       Some x \<Rightarrow> x
                     | None \<Rightarrow> JUndefined)))"

text \<open>
  The order in which \<open>Object.keys\<close> and \<open>for ... in\<close> enumerate own string keys: the
  canonical array indices first, ascending, then the other keys in insertion order.
\<close>

definition js_key_order :: "string list \<Rightarrow> string list" where
  "js_key_order ks =
     sort_key (\<lambda>k. the (array_index_of k)) (filter (\<lambda>k. array_index_of k \<noteq> None) ks)
     @ filter (\<lambda>k. array_index_of k = None) ks"

fun object_keys :: "jv \<Rightarrow> string list" where
  "object_keys (JTable ty d es) = js_key_order (map fst es)"
| "object_keys (JArray xs) = map string_of_nat [0 ..< length xs]"
| "object_keys (JString s) = map string_of_nat [0 ..< length s]"
| "object_keys (JKeyValue ks v) = [''key'', ''value'']"
| "object_keys (JTagged pc a s e v) = [''prev_comma'', ''assign_start'', ''start'', ''end'', ''value'']"
| "object_keys v = []"

text \<open>\<open>String.prototype.slice\<close>: a negative offset counts from the end, and both are clamped.\<close>

definition js_index :: "int \<Rightarrow> nat \<Rightarrow> nat" where
  "js_index i n = (if i < 0 then nat (max 0 (int n + i)) else min (nat i) n)"

definition slice :: "string \<Rightarrow> int \<Rightarrow> int \<Rightarrow> string" where
  "slice s a b = take (js_index b (length s) - js_index a (length s)) (drop (js_index a (length s)) s)"

definition slice_from :: "string \<Rightarrow> int \<Rightarrow> string" where
  "slice_from s a = drop (js_index a (length s)) s"

section \<open>Errors and outcomes\<close>

text \<open>
  Every \<open>throw\<close> of the source is a value.  \<open>TomlError\<close> and \<open>ParserError\<close> are the
  library's; the three errors of the path walk and \<open>InvalidAfterReplace\<close> are the
  \<open>Error\<close>s of \<open>replaceTomlValue\<close>, named after their messages:
  \<^item> \<open>PartialPathNotTable p\<close>: \<^verbatim>\<open>partial path does not lead to table: p\<close>
  \<^item> \<open>PathNotFound p\<close>: \<^verbatim>\<open>path not found in object: p\<close>
  \<^item> \<open>NotTagged p\<close>: \<^verbatim>\<open>value at path p is not tagged\<close>
  \<^item> \<open>InvalidAfterReplace e\<close>: \<^verbatim>\<open>After replacing value, result is not valid TOML: e\<close>
  \<open>ChainAfterBase64\<close> is what the constructor of \<open>CompositeUpdater\<close> throws
  (\<^verbatim>\<open>Cannot chain updaters after an updater that returns base64 content\<close>).
  \<open>Unsupported\<close> marks a construct of TOML that the model of the library below leaves out.
  An outcome is \<open>None\<close> when a call does not return.
\<close>

datatype error =
    TomlError string
  | ParserError string
  | Unsupported string
  | TypeError string
  | PartialPathNotTable "pathkey list"
  | PathNotFound "pathkey list"
  | NotTagged "pathkey list"
  | InvalidAfterReplace error
  | NoVersions
  | NotPackageManifest
  | ChainAfterBase64
  | FileNotFoundError string

type_synonym 'a outcome = "(error + 'a) option"

definition returns :: "'a \<Rightarrow> 'a outcome" where
  "returns x = Some (Inr x)"

definition throws :: "error \<Rightarrow> 'a outcome" where
  "throws e = Some (Inl e)"

definition and_then :: "'a outcome \<Rightarrow> ('a \<Rightarrow> 'b outcome) \<Rightarrow> 'b outcome" where
  "and_then m f = (case m of None \<Rightarrow> None | Some (Inl e) \<Rightarrow> Some (Inl e) | Some (Inr x) \<Rightarrow> f x)"

section \<open>The parser of the TOML library\<close>

text \<open>
  Modelled from the spec: the span-tagging parser of \<open>toml-edit.ts\<close> is a subclass of the
  parser of the library \<^verbatim>\<open>@iarna/toml\<close> (\<^verbatim>\<open>lib/parser.js\<close>, \<^verbatim>\<open>lib/toml-parser.js\<close>), which is
  not under \<^verbatim>\<open>src/\<close>.  This section is that base class, a state machine that reads one
  code point at a time, for the part of TOML that the manifests below use: table headers,
  bare and double-quoted keys, dotted keys, basic strings without escapes, inline tables,
  comments and whitespace.  Every other construct (numbers, booleans, dates, arrays,
  literal and multi-line strings, escapes, arrays of tables) ends in \<open>Unsupported\<close>.
  The line and column counters, which only decorate error messages, are left out.

  A state function of the library ends in a tail call of \<open>next\<close>, \<open>goto\<close>, \<open>call\<close>,
  \<open>callNow\<close>, \<open>return\<close> or \<open>returnNow\<close>.  Here it returns the parser it leaves behind
  and a flag: \<open>again\<close> when the library runs the next state function at once, on the
  same character (\<open>goto\<close>, \<open>callNow\<close>, \<open>returnNow\<close>), \<open>advance\<close> when control goes back
  to the loop of \<open>parse\<close>, which reads the next character.
\<close>

datatype cp = Ch char | ParserEND | NoChar

datatype pfn =
    ParseStart | ParseWhitespaceToEOL | ParseComment
  | ParseAssignStatement | RecordAssignStatement
  | ParseAssign | RecordAssignKeyword | ParseAssignKeywordPreDot | ParseAssignKeywordPostDot
  | ParseAssignEqual | ParseAssignPreValue | RecordAssignValue
  | ParseTableOrList | ParseTable | ParseTableNext | ParseTableMore
  | ParseValue | RecordValue
  | ParseKeyword | ParseBareKey
  | ParseDoubleString | ParseBasicString | ParseMultiStringMaybe
  | ParseInlineTable | RecordInlineTableValue | ParseInlineTableNext

text \<open>
  \<open>class State\<close>, with the three fields that \<open>TaggedTOMLParser\<close> adds to it
  (\<open>__TAGGED_START\<close>, \<open>__TAGGED_ASSIGN_START\<close>, \<open>__TAGGED_PREV_COMMA\<close>; \<open>None\<close> is
  \<open>undefined\<close>).
\<close>

record pstate =
  parser :: pfn
  buf :: string
  returned :: jv
  resultTable :: jv
  tagged_start :: "int option"
  tagged_assign_start :: "int option"
  tagged_prev_comma :: "int option"

text \<open>
  \<open>class Parser\<close>.  \<open>is_tagged\<close> is the class of the object: \<open>TaggedTOMLParser\<close> or the
  plain \<open>TOMLParser\<close>.  \<open>ctx\<close> is a reference to a table inside \<open>obj\<close>: the path of keys
  that leads to it.  The stack has its top first.  The text \<open>_buf\<close> is only ever read at
  the offset \<open>ii\<close>, which only ever grows by one: the parser keeps \<open>ahead\<close>, the part of
  \<open>_buf\<close> that follows the offset \<open>ii\<close>.
\<close>

record parser_obj =
  is_tagged :: bool
  pos :: int
  ii :: int
  char :: cp
  ahead :: string
  obj :: jv
  ctx :: "string list"
  stack :: "pstate list"
  state :: pstate

type_synonym step = "error + (parser_obj \<times> bool)"

definition new_State :: "pfn \<Rightarrow> pstate" where
  "new_State fn = \<lparr> parser = fn, buf = [], returned = JNull, resultTable = JNull,
     tagged_start = None, tagged_assign_start = None, tagged_prev_comma = None \<rparr>"

definition Table :: jv where
  "Table = JTable TABLE False []"

definition InlineTable :: jv where
  "InlineTable = JTable INLINE_TABLE False []"

definition new_Parser :: "bool \<Rightarrow> parser_obj" where
  "new_Parser tagged = \<lparr> is_tagged = tagged, pos = 0, ii = 0, char = NoChar, ahead = [],
     obj = Table, ctx = [], stack = [], state = new_State ParseStart \<rparr>"

subsection \<open>Characters\<close>

definition CTRL_I :: char where "CTRL_I = CHR 0x09"
definition CTRL_J :: char where "CTRL_J = CHR 0x0A"
definition CTRL_M :: char where "CTRL_M = CHR 0x0D"
definition CTRL_CHAR_BOUNDARY :: char where "CTRL_CHAR_BOUNDARY = CHR 0x1F"
definition CHAR_SP :: char where "CHAR_SP = CHR 0x20"
definition CHAR_QUOT :: char where "CHAR_QUOT = CHR 0x22"
definition CHAR_NUM :: char where "CHAR_NUM = CHR 0x23"
definition CHAR_APOS :: char where "CHAR_APOS = CHR 0x27"
definition CHAR_COMMA :: char where "CHAR_COMMA = CHR 0x2C"
definition CHAR_HYPHEN :: char where "CHAR_HYPHEN = CHR 0x2D"
definition CHAR_PERIOD :: char where "CHAR_PERIOD = CHR 0x2E"
definition CHAR_EQUALS :: char where "CHAR_EQUALS = CHR 0x3D"
definition CHAR_LSQB :: char where "CHAR_LSQB = CHR 0x5B"
definition CHAR_BSOL :: char where "CHAR_BSOL = CHR 0x5C"
definition CHAR_RSQB :: char where "CHAR_RSQB = CHR 0x5D"
definition CHAR_LOWBAR :: char where "CHAR_LOWBAR = CHR 0x5F"
definition CHAR_LCUB :: char where "CHAR_LCUB = CHR 0x7B"
definition CHAR_RCUB :: char where "CHAR_RCUB = CHR 0x7D"
definition CHAR_DEL :: char where "CHAR_DEL = CHR 0x7F"

fun isAlphaNumHyphen :: "cp \<Rightarrow> bool" where
  "isAlphaNumHyphen (Ch c) =
     ((CHR ''A'' \<le> c \<and> c \<le> CHR ''Z'') \<or> (CHR ''a'' \<le> c \<and> c \<le> CHR ''z'')
      \<or> (CHR ''0'' \<le> c \<and> c \<le> CHR ''9'') \<or> c = CHAR_LOWBAR \<or> c = CHAR_HYPHEN)"
| "isAlphaNumHyphen x = False"

fun isAlphaNumQuoteHyphen :: "cp \<Rightarrow> bool" where
  "isAlphaNumQuoteHyphen (Ch c) =
     ((CHR ''A'' \<le> c \<and> c \<le> CHR ''Z'') \<or> (CHR ''a'' \<le> c \<and> c \<le> CHR ''z'')
      \<or> (CHR ''0'' \<le> c \<and> c \<le> CHR ''9'') \<or> c = CHAR_APOS \<or> c = CHAR_QUOT
      \<or> c = CHAR_LOWBAR \<or> c = CHAR_HYPHEN)"
| "isAlphaNumQuoteHyphen x = False"

fun isControlChar :: "cp \<Rightarrow> bool" where
  "isControlChar (Ch c) = (c = CHAR_DEL \<or> (c \<le> CTRL_CHAR_BOUNDARY \<and> c \<noteq> CTRL_I))"
| "isControlChar x = False"

definition atEndOfLine :: "parser_obj \<Rightarrow> bool" where
  "atEndOfLine p = (char p = ParserEND \<or> char p = Ch CTRL_J \<or> char p = Ch CTRL_M)"

subsection \<open>The methods of \<open>Parser\<close>, and the two that \<open>TaggedTOMLParser\<close> overrides\<close>

text \<open>
  \<open>nextChar\<close>: \<open>++this.ii; this.char = this._buf.codePointAt(this.ii); ++this.pos;
  return this.haveBuffer()\<close>, where \<open>haveBuffer\<close> is \<open>this.ii < this._buf.length\<close>.  The
  second component is the value returned.
\<close>

definition nextChar :: "parser_obj \<Rightarrow> parser_obj \<times> bool" where
  "nextChar p =
     (case ahead p of
        [] \<Rightarrow> (p\<lparr> ii := ii p + 1, char := NoChar, pos := pos p + 1 \<rparr>, False)
      | c # cs \<Rightarrow> (p\<lparr> ii := ii p + 1, char := Ch c, ahead := cs, pos := pos p + 1 \<rparr>, True))"

definition Parser_next :: "pfn \<Rightarrow> parser_obj \<Rightarrow> parser_obj" where
  "Parser_next fn p = p\<lparr> state := (state p)\<lparr> parser := fn \<rparr> \<rparr>"

definition Parser_call :: "pfn \<Rightarrow> pfn option \<Rightarrow> parser_obj \<Rightarrow> parser_obj" where
  "Parser_call fn returnWith p =
     (let p1 = (case returnWith of None \<Rightarrow> p | Some r \<Rightarrow> Parser_next r p)
      in p1\<lparr> stack := state p1 # stack p1, state := new_State fn \<rparr>)"

text \<open>\<open>value === undefined\<close> stands for a call without argument: the buffer is returned.\<close>

definition Parser_return :: "jv \<Rightarrow> parser_obj \<Rightarrow> error + parser_obj" where
  "Parser_return v p =
     (case stack p of
        [] \<Rightarrow> Inl (ParserError ''Stack underflow'')
      | frame # rest \<Rightarrow>
          Inr (p\<lparr> stack := rest,
                  state := frame\<lparr> returned := (if v = JUndefined then JString (buf (state p)) else v) \<rparr> \<rparr>))"

text \<open>
  \<open>TaggedTOMLParser.call\<close> (lines 310-318 of \<open>toml-edit.ts\<close>): the new state inherits the
  comma and the assignment start of the calling state.
\<close>

definition TaggedTOMLParser_call :: "pfn \<Rightarrow> pfn option \<Rightarrow> parser_obj \<Rightarrow> parser_obj" where
  "TaggedTOMLParser_call fn returnWith p =
     (let prevState = state p;
          p1 = Parser_call fn returnWith p
      in p1\<lparr> state := (state p1)\<lparr> tagged_prev_comma := tagged_prev_comma prevState,
                                    tagged_assign_start := tagged_assign_start prevState \<rparr> \<rparr>)"

text \<open>
  \<open>TaggedTOMLParser.return\<close> (lines 320-340): the value is tagged when both offsets of the
  state that returns are truthy, that is, recorded and not \<open>0\<close>.
\<close>

definition offset_truthy :: "int option \<Rightarrow> bool" where
  "offset_truthy x = (case x of None \<Rightarrow> False | Some n \<Rightarrow> n \<noteq> 0)"

definition TaggedTOMLParser_return :: "jv \<Rightarrow> parser_obj \<Rightarrow> error + parser_obj" where
  "TaggedTOMLParser_return v p =
     (let prevState = state p in
      case Parser_return v p of
        Inl e \<Rightarrow> Inl e
      | Inr p1 \<Rightarrow>
          if offset_truthy (tagged_assign_start prevState) \<and> offset_truthy (tagged_start prevState)
          then Inr (p1\<lparr> state := (state p1)\<lparr> returned :=
                 JTagged (tagged_prev_comma prevState) (the (tagged_assign_start prevState))
                   (the (tagged_start prevState)) (pos p1) (returned (state p1)) \<rparr> \<rparr>)
          else Inr p1)"

text \<open>The method a call of \<open>this.call\<close> or \<open>this.return\<close> reaches, by the class of the object.\<close>

definition call :: "pfn \<Rightarrow> pfn option \<Rightarrow> parser_obj \<Rightarrow> parser_obj" where
  "call fn returnWith p =
     (if is_tagged p then TaggedTOMLParser_call fn returnWith p else Parser_call fn returnWith p)"

definition return_value :: "jv \<Rightarrow> parser_obj \<Rightarrow> error + parser_obj" where
  "return_value v p =
     (if is_tagged p then TaggedTOMLParser_return v p else Parser_return v p)"

definition advance :: "parser_obj \<Rightarrow> step" where
  "advance p = Inr (p, False)"

definition again :: "parser_obj \<Rightarrow> step" where
  "again p = Inr (p, True)"

definition goto :: "pfn \<Rightarrow> parser_obj \<Rightarrow> step" where
  "goto fn p = again (Parser_next fn p)"

definition callNow :: "pfn \<Rightarrow> pfn option \<Rightarrow> parser_obj \<Rightarrow> step" where
  "callNow fn returnWith p = again (call fn returnWith p)"

definition return_advance :: "jv \<Rightarrow> parser_obj \<Rightarrow> step" where
  "return_advance v p = (case return_value v p of Inl e \<Rightarrow> Inl e | Inr p1 \<Rightarrow> advance p1)"

definition returnNow :: "jv \<Rightarrow> parser_obj \<Rightarrow> step" where
  "returnNow v p = (case return_value v p of Inl e \<Rightarrow> Inl e | Inr p1 \<Rightarrow> again p1)"

text \<open>
  \<open>consume\<close> appends \<open>this._buf[this.ii]\<close> to the buffer of the state; past the end of the
  text that is \<open>undefined\<close>, which the concatenation turns into a string.
\<close>

definition consume :: "parser_obj \<Rightarrow> error + parser_obj" where
  "consume p =
     (case char p of
        ParserEND \<Rightarrow> Inl (ParserError ''Unexpected end-of-buffer'')
      | Ch c \<Rightarrow> Inr (p\<lparr> state := (state p)\<lparr> buf := buf (state p) @ [c] \<rparr> \<rparr>)
      | NoChar \<Rightarrow> Inr (p\<lparr> state := (state p)\<lparr> buf := buf (state p) @ ''undefined'' \<rparr> \<rparr>))"

subsection \<open>Tables\<close>

definition hasKey :: "jv \<Rightarrow> string \<Rightarrow> bool" where
  "hasKey t k = (k \<in> set (object_keys t))"

fun isTable :: "jv \<Rightarrow> bool" where
  "isTable (JTable TABLE d es) = True"
| "isTable v = False"

fun is_declared :: "jv \<Rightarrow> bool" where
  "is_declared (JTable ty d es) = d"
| "is_declared v = False"

fun set_declared :: "jv \<Rightarrow> jv" where
  "set_declared (JTable ty d es) = JTable ty True es"
| "set_declared v = v"

fun alist_put :: "string \<Rightarrow> jv \<Rightarrow> (string \<times> jv) list \<Rightarrow> (string \<times> jv) list" where
  "alist_put k v [] = [(k, v)]"
| "alist_put k v (e # es) = (if fst e = k then (k, v) # es else e # alist_put k v es)"

text \<open>\<open>t[k] = v\<close> on a table.\<close>

fun set_key :: "jv \<Rightarrow> string \<Rightarrow> jv \<Rightarrow> jv" where
  "set_key (JTable ty d es) k v = JTable ty d (alist_put k v es)"
| "set_key t k v = t"

text \<open>
  A read \<open>t[k]\<close> that follows a call of \<open>hasKey(t, k)\<close>: for a key \<open>__proto__\<close> that the
  table does not own, \<open>hasKey\<close> has defined the property, with the value \<open>undefined\<close>.
\<close>

definition get_checked :: "jv \<Rightarrow> string \<Rightarrow> jv" where
  "get_checked t k = (if k = ''__proto__'' \<and> \<not> hasKey t k then JUndefined else js_get t (KStr k))"

fun is_builtin :: "jv \<Rightarrow> bool" where
  "is_builtin (JBuiltin b) = True"
| "is_builtin v = False"

text \<open>The table that a reference such as \<open>ctx\<close> points to, and a write through the reference.\<close>

fun get_at :: "jv \<Rightarrow> string list \<Rightarrow> jv" where
  "get_at t [] = t"
| "get_at t (k # ks) = get_at (js_get t (KStr k)) ks"

fun put_at :: "jv \<Rightarrow> string list \<Rightarrow> jv \<Rightarrow> jv" where
  "put_at t [] v = v"
| "put_at t (k # ks) v = set_key t k (put_at (js_get t (KStr k)) ks v)"

text \<open>Integers and floats are unboxed when they are stored.\<close>

fun unbox :: "jv \<Rightarrow> jv" where
  "unbox (JBoxed n) = JNumber n"
| "unbox v = v"

text \<open>
  The body that \<open>recordAssignStatement\<close> and \<open>recordInlineTableValue\<close> share: walk the
  dotted key \<open>kws\<close> down from \<open>target\<close>, creating the tables that are missing, and store
  the value under \<open>finalKey\<close>.  The result is \<open>target\<close> after the writes.  A key that
  names a method of \<open>Object.prototype\<close> would lead the library into that function object:
  the model stops there.
\<close>

fun assign_keys :: "jv \<Rightarrow> string list \<Rightarrow> string \<Rightarrow> jv \<Rightarrow> error + jv" where
  "assign_keys target [] finalKey v =
     (if hasKey target finalKey then Inl (TomlError ''Can't redefine existing key'')
      else Inr (set_key target finalKey (unbox v)))"
| "assign_keys target (kw # kws) finalKey v =
     (let sub = get_checked target kw in
      if hasKey target kw \<and> (\<not> isTable sub \<or> is_declared sub)
      then Inl (TomlError ''Can't redefine existing key'')
      else if is_builtin sub then Inl (Unsupported ''key that names a built-in property'')
      else case assign_keys (if truthy sub then sub else Table) kws finalKey v of
             Inl e \<Rightarrow> Inl e
           | Inr sub' \<Rightarrow> Inr (set_key target kw sub'))"

fun string_keys :: "jv list \<Rightarrow> string list option" where
  "string_keys [] = Some []"
| "string_keys (JString k # ks) = (case string_keys ks of None \<Rightarrow> None | Some r \<Rightarrow> Some (k # r))"
| "string_keys (v # ks) = None"

text \<open>
  \<open>kv.key.pop()\<close> and the loop over the rest of \<open>kv.key\<close>.  The keys of an assignment are
  strings and there is at least one; a state that holds anything else is not one the
  machine builds, and the model stops on it.
\<close>

definition record_assign :: "jv \<Rightarrow> jv \<Rightarrow> error + jv" where
  "record_assign target kv =
     (case kv of
        JKeyValue (JArray ks) v \<Rightarrow>
          (case string_keys ks of
             None \<Rightarrow> Inl (Unsupported ''key that is not a string'')
           | Some keys \<Rightarrow>
               if keys = [] then Inl (Unsupported ''assignment without key'')
               else assign_keys target (butlast keys) (last keys) v)
      | _ \<Rightarrow> Inl (Unsupported ''assignment that is not a key and a value''))"

subsection \<open>The state functions of \<open>TOMLParser\<close>\<close>

definition parseStart :: "parser_obj \<Rightarrow> step" where
  "parseStart p =
     (if char p = ParserEND then advance p
      else if char p = Ch CHAR_LSQB then advance (call ParseTableOrList None p)
      else if char p = Ch CHAR_NUM then advance (call ParseComment None p)
      else if char p = Ch CTRL_J \<or> char p = Ch CHAR_SP \<or> char p = Ch CTRL_I \<or> char p = Ch CTRL_M
        then advance p
      else if isAlphaNumQuoteHyphen (char p) then callNow ParseAssignStatement None p
      else Inl (TomlError ''Unknown character''))"

definition parseWhitespaceToEOL :: "parser_obj \<Rightarrow> step" where
  "parseWhitespaceToEOL p =
     (if char p = Ch CHAR_SP \<or> char p = Ch CTRL_I \<or> char p = Ch CTRL_M then advance p
      else if char p = Ch CHAR_NUM then goto ParseComment p
      else if char p = ParserEND \<or> char p = Ch CTRL_J then return_advance JUndefined p
      else Inl (TomlError
        ''Unexpected character, expected only whitespace or comments till end of line''))"

definition parseAssignStatement :: "parser_obj \<Rightarrow> step" where
  "parseAssignStatement p = callNow ParseAssign (Some RecordAssignStatement) p"

definition recordAssignStatement :: "parser_obj \<Rightarrow> step" where
  "recordAssignStatement p =
     (case record_assign (get_at (obj p) (ctx p)) (returned (state p)) of
        Inl e \<Rightarrow> Inl e
      | Inr t \<Rightarrow> goto ParseWhitespaceToEOL (p\<lparr> obj := put_at (obj p) (ctx p) t \<rparr>))"

definition TOMLParser_parseAssign :: "parser_obj \<Rightarrow> step" where
  "TOMLParser_parseAssign p = callNow ParseKeyword (Some RecordAssignKeyword) p"

definition recordAssignKeyword :: "parser_obj \<Rightarrow> step" where
  "recordAssignKeyword p =
     (let key = returned (state p) in
      case resultTable (state p) of
        JArray ks \<Rightarrow>
          goto ParseAssignKeywordPreDot (p\<lparr> state := (state p)\<lparr> resultTable := JArray (ks @ [key]) \<rparr> \<rparr>)
      | t \<Rightarrow>
          if truthy t then Inl (Unsupported ''key list that is not an array'')
          else goto ParseAssignKeywordPreDot (p\<lparr> state := (state p)\<lparr> resultTable := JArray [key] \<rparr> \<rparr>))"

definition parseAssignKeywordPreDot :: "parser_obj \<Rightarrow> step" where
  "parseAssignKeywordPreDot p =
     (if char p = Ch CHAR_PERIOD then advance (Parser_next ParseAssignKeywordPostDot p)
      else if char p \<noteq> Ch CHAR_SP \<and> char p \<noteq> Ch CTRL_I then goto ParseAssignEqual p
      else advance p)"

definition parseAssignKeywordPostDot :: "parser_obj \<Rightarrow> step" where
  "parseAssignKeywordPostDot p =
     (if char p \<noteq> Ch CHAR_SP \<and> char p \<noteq> Ch CTRL_I
      then callNow ParseKeyword (Some RecordAssignKeyword) p
      else advance p)"

definition parseAssignEqual :: "parser_obj \<Rightarrow> step" where
  \<open>parseAssignEqual p =
     (if char p = Ch CHAR_EQUALS then advance (Parser_next ParseAssignPreValue p)
      else Inl (TomlError ''Invalid character, expected "="''))\<close>

definition parseAssignPreValue :: "parser_obj \<Rightarrow> step" where
  "parseAssignPreValue p =
     (if char p = Ch CHAR_SP \<or> char p = Ch CTRL_I then advance p
      else callNow ParseValue (Some RecordAssignValue) p)"

definition recordAssignValue :: "parser_obj \<Rightarrow> step" where
  "recordAssignValue p = returnNow (JKeyValue (resultTable (state p)) (returned (state p))) p"

text \<open>\<open>do { ... } while (this.nextChar())\<close>: the comment runs to the end of the line.\<close>

function parseComment :: "parser_obj \<Rightarrow> step" where
  "parseComment p =
     (if char p = ParserEND \<or> char p = Ch CTRL_J then return_advance JUndefined p
      else let n = nextChar p in if snd n then parseComment (fst n) else advance (fst n))"
  by pat_completeness auto
termination
  by (relation "measure (\<lambda>p. length (ahead p))")
     (auto simp: nextChar_def split: list.splits)

definition parseTableOrList :: "parser_obj \<Rightarrow> step" where
  "parseTableOrList p =
     (if char p = Ch CHAR_LSQB then Inl (Unsupported ''array of tables'')
      else goto ParseTable p)"

definition parseTable :: "parser_obj \<Rightarrow> step" where
  "parseTable p = goto ParseTableNext (p\<lparr> ctx := [] \<rparr>)"

definition parseTableNext :: "parser_obj \<Rightarrow> step" where
  "parseTableNext p =
     (if char p = Ch CHAR_SP \<or> char p = Ch CTRL_I then advance p
      else callNow ParseKeyword (Some ParseTableMore) p)"

definition parseTableMore :: "parser_obj \<Rightarrow> step" where
  "parseTableMore p =
     (if char p = Ch CHAR_SP \<or> char p = Ch CTRL_I then advance p
      else case returned (state p) of
        JString keyword \<Rightarrow>
          (let c = get_at (obj p) (ctx p); sub = get_checked c keyword in
           if char p = Ch CHAR_RSQB then
             (if hasKey c keyword \<and> (\<not> isTable sub \<or> is_declared sub)
              then Inl (TomlError ''Can't redefine existing key'')
              else if is_builtin sub then Inl (Unsupported ''key that names a built-in property'')
              else advance (Parser_next ParseWhitespaceToEOL
                     (p\<lparr> obj := put_at (obj p) (ctx p @ [keyword])
                                  (set_declared (if truthy sub then sub else Table)),
                         ctx := ctx p @ [keyword] \<rparr>)))
           else if char p = Ch CHAR_PERIOD then
             (if \<not> hasKey c keyword
              then advance (Parser_next ParseTableNext
                     (p\<lparr> obj := put_at (obj p) (ctx p @ [keyword]) Table, ctx := ctx p @ [keyword] \<rparr>))
              else if isTable sub
              then advance (Parser_next ParseTableNext (p\<lparr> ctx := ctx p @ [keyword] \<rparr>))
              else Inl (TomlError ''Can't redefine existing key''))
           else Inl (TomlError ''Unexpected character, expected whitespace, . or ]''))
      | v \<Rightarrow> Inl (Unsupported ''key that is not a string''))"

definition TOMLParser_parseValue :: "parser_obj \<Rightarrow> step" where
  "TOMLParser_parseValue p =
     (if char p = ParserEND then Inl (TomlError ''Key without value'')
      else if char p = Ch CHAR_QUOT then advance (Parser_next ParseDoubleString p)
      else if char p = Ch CHAR_APOS then Inl (Unsupported ''literal string'')
      else if char p = Ch CHAR_HYPHEN \<or> char p = Ch (CHR ''+'') then Inl (Unsupported ''number'')
      else if char p = Ch (CHR ''i'') \<or> char p = Ch (CHR ''n'') then Inl (Unsupported ''inf or nan'')
      else if (case char p of Ch c \<Rightarrow> CHR ''0'' \<le> c \<and> c \<le> CHR ''9'' | _ \<Rightarrow> False)
        then Inl (Unsupported ''number or date'')
      else if char p = Ch (CHR ''t'') \<or> char p = Ch (CHR ''f'') then Inl (Unsupported ''boolean'')
      else if char p = Ch CHAR_LSQB then Inl (Unsupported ''inline array'')
      else if char p = Ch CHAR_LCUB then advance (call ParseInlineTable (Some RecordValue) p)
      else Inl (TomlError
        ''Unexpected character, expecting string, number, datetime, boolean, inline array or inline table''))"

definition recordValue :: "parser_obj \<Rightarrow> step" where
  "recordValue p = returnNow (returned (state p)) p"

definition parseKeyword :: "parser_obj \<Rightarrow> step" where
  "parseKeyword p =
     (if char p = Ch CHAR_QUOT then advance (Parser_next ParseBasicString p)
      else if char p = Ch CHAR_APOS then Inl (Unsupported ''literal string'')
      else goto ParseBareKey p)"

function parseBareKey :: "parser_obj \<Rightarrow> step" where
  "parseBareKey p =
     (if char p = ParserEND then Inl (TomlError ''Key ended without value'')
      else if isAlphaNumHyphen (char p) then
        (case consume p of
           Inl e \<Rightarrow> Inl e
         | Inr p1 \<Rightarrow> let n = nextChar p1 in if snd n then parseBareKey (fst n) else advance (fst n))
      else if buf (state p) = [] then Inl (TomlError ''Empty bare keys are not allowed'')
      else returnNow JUndefined p)"
  by pat_completeness auto
termination
  by (relation "measure (\<lambda>p. length (ahead p))")
     (auto simp: nextChar_def consume_def split: cp.splits list.splits)

definition parseDoubleString :: "parser_obj \<Rightarrow> step" where
  "parseDoubleString p =
     (if char p = Ch CHAR_QUOT then advance (Parser_next ParseMultiStringMaybe p)
      else goto ParseBasicString p)"

function parseBasicString :: "parser_obj \<Rightarrow> step" where
  "parseBasicString p =
     (if char p = Ch CHAR_BSOL then Inl (Unsupported ''escape sequence'')
      else if char p = Ch CHAR_QUOT then return_advance JUndefined p
      else if atEndOfLine p then Inl (TomlError ''Unterminated string'')
      else if isControlChar (char p)
        then Inl (TomlError ''Control characters (codes < 0x1f and 0x7f) are not allowed in strings'')
      else case consume p of
             Inl e \<Rightarrow> Inl e
           | Inr p1 \<Rightarrow> let n = nextChar p1 in if snd n then parseBasicString (fst n) else advance (fst n))"
  by pat_completeness auto
termination
  by (relation "measure (\<lambda>p. length (ahead p))")
     (auto simp: nextChar_def consume_def split: cp.splits list.splits)

definition parseMultiStringMaybe :: "parser_obj \<Rightarrow> step" where
  "parseMultiStringMaybe p =
     (if char p = Ch CHAR_QUOT then Inl (Unsupported ''multi-line string'')
      else returnNow JUndefined p)"

definition parseInlineTable :: "parser_obj \<Rightarrow> step" where
  "parseInlineTable p =
     (if char p = Ch CHAR_SP \<or> char p = Ch CTRL_I then advance p
      else if char p = ParserEND \<or> char p = Ch CHAR_NUM \<or> char p = Ch CTRL_J \<or> char p = Ch CTRL_M
        then Inl (TomlError ''Unterminated inline array'')
      else if char p = Ch CHAR_RCUB
        then return_advance
               (if truthy (resultTable (state p)) then resultTable (state p) else InlineTable) p
      else callNow ParseAssign (Some RecordInlineTableValue)
             (if truthy (resultTable (state p)) then p
              else p\<lparr> state := (state p)\<lparr> resultTable := InlineTable \<rparr> \<rparr>))"

definition recordInlineTableValue :: "parser_obj \<Rightarrow> step" where
  "recordInlineTableValue p =
     (case record_assign (resultTable (state p)) (returned (state p)) of
        Inl e \<Rightarrow> Inl e
      | Inr t \<Rightarrow> goto ParseInlineTableNext (p\<lparr> state := (state p)\<lparr> resultTable := t \<rparr> \<rparr>))"

definition TOMLParser_parseInlineTableNext :: "parser_obj \<Rightarrow> step" where
  "TOMLParser_parseInlineTableNext p =
     (if char p = Ch CHAR_SP \<or> char p = Ch CTRL_I then advance p
      else if char p = ParserEND \<or> char p = Ch CHAR_NUM \<or> char p = Ch CTRL_J \<or> char p = Ch CTRL_M
        then Inl (TomlError ''Unterminated inline array'')
      else if char p = Ch CHAR_COMMA then advance (Parser_next ParseInlineTable p)
      else if char p = Ch CHAR_RCUB then goto ParseInlineTable p
      else Inl (TomlError ''Invalid character, expected whitespace, comma (,) or close bracket (])''))"

section \<open>The span-tagging parser\<close>

text \<open>
  \<open>class TaggedTOMLParser extends TOMLParser\<close> (lines 282-341 of \<open>toml-edit.ts\<close>).  Its
  \<open>call\<close> and \<open>return\<close> are above.  \<open>this.pos - 1\<close> is the offset of the character in
  \<open>this.char\<close>.
\<close>

definition TaggedTOMLParser_parseAssign :: "parser_obj \<Rightarrow> step" where
  "TaggedTOMLParser_parseAssign p =
     TOMLParser_parseAssign (p\<lparr> state := (state p)\<lparr> tagged_assign_start := Some (pos p - 1) \<rparr> \<rparr>)"

definition TaggedTOMLParser_parseValue :: "parser_obj \<Rightarrow> step" where
  "TaggedTOMLParser_parseValue p =
     TOMLParser_parseValue (p\<lparr> state := (state p)\<lparr> tagged_start := Some (pos p - 1) \<rparr> \<rparr>)"

definition TaggedTOMLParser_parseInlineTableNext :: "parser_obj \<Rightarrow> step" where
  "TaggedTOMLParser_parseInlineTableNext p =
     TOMLParser_parseInlineTableNext
       (if char p = Ch CHAR_COMMA
        then p\<lparr> state := (state p)\<lparr> tagged_prev_comma := Some (pos p - 1) \<rparr> \<rparr>
        else p)"

definition parseAssign :: "parser_obj \<Rightarrow> step" where
  "parseAssign p =
     (if is_tagged p then TaggedTOMLParser_parseAssign p else TOMLParser_parseAssign p)"

definition parseValue :: "parser_obj \<Rightarrow> step" where
  "parseValue p =
     (if is_tagged p then TaggedTOMLParser_parseValue p else TOMLParser_parseValue p)"

definition parseInlineTableNext :: "parser_obj \<Rightarrow> step" where
  "parseInlineTableNext p =
     (if is_tagged p then TaggedTOMLParser_parseInlineTableNext p
      else TOMLParser_parseInlineTableNext p)"

section \<open>Running the machine\<close>

text \<open>\<open>this.state.parser.call(this, this.state.returned)\<close>.\<close>

definition run_state_function :: "parser_obj \<Rightarrow> step" where
  "run_state_function p =
     (case parser (state p) of
        ParseStart \<Rightarrow> parseStart p
      | ParseWhitespaceToEOL \<Rightarrow> parseWhitespaceToEOL p
      | ParseComment \<Rightarrow> parseComment p
      | ParseAssignStatement \<Rightarrow> parseAssignStatement p
      | RecordAssignStatement \<Rightarrow> recordAssignStatement p
      | ParseAssign \<Rightarrow> parseAssign p
      | RecordAssignKeyword \<Rightarrow> recordAssignKeyword p
      | ParseAssignKeywordPreDot \<Rightarrow> parseAssignKeywordPreDot p
      | ParseAssignKeywordPostDot \<Rightarrow> parseAssignKeywordPostDot p
      | ParseAssignEqual \<Rightarrow> parseAssignEqual p
      | ParseAssignPreValue \<Rightarrow> parseAssignPreValue p
      | RecordAssignValue \<Rightarrow> recordAssignValue p
      | ParseTableOrList \<Rightarrow> parseTableOrList p
      | ParseTable \<Rightarrow> parseTable p
      | ParseTableNext \<Rightarrow> parseTableNext p
      | ParseTableMore \<Rightarrow> parseTableMore p
      | ParseValue \<Rightarrow> parseValue p
      | RecordValue \<Rightarrow> recordValue p
      | ParseKeyword \<Rightarrow> parseKeyword p
      | ParseBareKey \<Rightarrow> parseBareKey p
      | ParseDoubleString \<Rightarrow> parseDoubleString p
      | ParseBasicString \<Rightarrow> parseBasicString p
      | ParseMultiStringMaybe \<Rightarrow> parseMultiStringMaybe p
      | ParseInlineTable \<Rightarrow> parseInlineTable p
      | RecordInlineTableValue \<Rightarrow> recordInlineTableValue p
      | ParseInlineTableNext \<Rightarrow> parseInlineTableNext p)"

text \<open>
  \<open>runOne\<close>: the state function, and after it the ones that it reaches by \<open>goto\<close>,
  \<open>callNow\<close> and \<open>returnNow\<close>.
\<close>

partial_function (option) runOne :: "parser_obj \<Rightarrow> parser_obj outcome" where
  "runOne p =
     (case run_state_function p of
        Inl e \<Rightarrow> Some (Inl e)
      | Inr r \<Rightarrow> if snd r then runOne (fst r) else Some (Inr (fst r)))"

text \<open>
  The loop of \<open>parse\<close>: \<open>while (getNext === false || this.nextChar()) getNext = this.runOne()\<close>.
  No state function of the library returns \<open>false\<close>, so that every round reads a character.
\<close>

declare runOne.simps [code]

partial_function (option) parse_loop :: "parser_obj \<Rightarrow> parser_obj outcome" where
  "parse_loop p =
     (let n = nextChar p in
      if snd n
      then (case runOne (fst n) of
              None \<Rightarrow> None
            | Some (Inl e) \<Rightarrow> Some (Inl e)
            | Some (Inr p2) \<Rightarrow> parse_loop p2)
      else Some (Inr (fst n)))"

declare parse_loop.simps [code]

definition parse :: "string \<Rightarrow> parser_obj \<Rightarrow> parser_obj outcome" where
  "parse str p =
     (if length str = 0 then Some (Inr p)
      else parse_loop (p\<lparr> ahead := str, ii := - 1, char := NoChar \<rparr>))"

text \<open>
  \<open>finish\<close>: at the end of the text the state functions run on \<open>Parser.END\<close> until the
  state no longer changes; the result is the root table.
\<close>

partial_function (option) finish_loop :: "parser_obj \<Rightarrow> parser_obj outcome" where
  "finish_loop p =
     (case runOne p of
        None \<Rightarrow> None
      | Some (Inl e) \<Rightarrow> Some (Inl e)
      | Some (Inr p1) \<Rightarrow>
          if parser (state p1) \<noteq> parser (state p) then finish_loop p1 else Some (Inr p1))"

declare finish_loop.simps [code]

definition finish :: "parser_obj \<Rightarrow> jv outcome" where
  "finish p = and_then (finish_loop (p\<lparr> char := ParserEND \<rparr>)) (\<lambda>p1. returns (obj p1))"

text \<open>
  \<open>parseWith\<close> (lines 348-355 of \<open>toml-edit.ts\<close>); the parser type is \<open>TaggedTOMLParser\<close>
  (\<open>True\<close>) or \<open>TOMLParser\<close> (\<open>False\<close>).
\<close>

definition parseWith :: "string \<Rightarrow> bool \<Rightarrow> jv outcome" where
  "parseWith input parserType = and_then (parse input (new_Parser parserType)) finish"

section \<open>Replacing a value in place: \<open>replaceTomlValue\<close>\<close>

text \<open>
  What the updaters call and \<^verbatim>\<open>src/\<close> does not hold in full is a parameter of the
  functions below: the two parses of \<open>parseWith\<close>, which rest on the library's parser,
  \<open>TOML.stringify.value\<close>, and \<open>parseCargoManifest\<close> and \<open>DEP_KINDS\<close> of
  \<^verbatim>\<open>updaters/rust/common.ts\<close>.
\<close>

record externals =
  parseTagged :: "string \<Rightarrow> jv outcome"
  parsePlain :: "string \<Rightarrow> jv outcome"
  stringifyValue :: "jv \<Rightarrow> string outcome"
  parseCargoManifest :: "string \<Rightarrow> jv outcome"
  DEP_KINDS :: "string list"

fun isTaggedValue :: "jv \<Rightarrow> bool" where
  "isTaggedValue (JTagged pc a s e v) = True"
| "isTaggedValue x = False"

text \<open>
  The loop over the path (lines 387-408): \<open>seen\<close> is \<open>path.slice(0, i)\<close>.  Reading a
  property of \<open>null\<close> is a \<open>TypeError\<close>.
\<close>

fun walk_path :: "pathkey list \<Rightarrow> pathkey list \<Rightarrow> jv \<Rightarrow> error + jv" where
  "walk_path seen [] current = Inr current"
| "walk_path seen (key # rest) current =
     (if isTaggedValue current \<and> (\<not> truthy (tvalue current) \<or> typeof (tvalue current) \<noteq> TObject)
      then Inl (PartialPathNotTable seen)
      else let cur = (if isTaggedValue current then tvalue current else current) in
        if cur = JNull then Inl (TypeError ''Cannot read properties of null'')
        else let nxt = js_get cur key in
          if typeof nxt \<noteq> TObject then Inl (PathNotFound (seen @ [key]))
          else walk_path (seen @ [key]) rest nxt)"

text \<open>The text after the splice (lines 415-425).\<close>

definition splice_output :: "externals \<Rightarrow> string \<Rightarrow> jv \<Rightarrow> jv \<Rightarrow> string outcome" where
  "splice_output E input current newValue =
     (if truthy newValue
      then and_then (stringifyValue E newValue) (\<lambda>text.
             returns (slice input 0 (tstart current) @ text @ slice_from input (tend current)))
      else returns (slice input 0 (case prev_comma current of Some c \<Rightarrow> c | None \<Rightarrow> assign_start current)
                    @ slice_from input (tend current)))"

text \<open>Lines 383-425: the parse, the walk and the splice.\<close>

definition spliced_text :: "externals \<Rightarrow> string \<Rightarrow> pathkey list \<Rightarrow> jv \<Rightarrow> string outcome" where
  "spliced_text E input path newValue =
     and_then (parseTagged E input) (\<lambda>root.
       case walk_path [] path root of
         Inl e \<Rightarrow> throws e
       | Inr current \<Rightarrow>
           if \<not> isTaggedValue current then throws (NotTagged path)
           else splice_output E input current newValue)"

text \<open>\<open>replaceTomlValue\<close>: the splice, then the check of lines 427-433.\<close>

definition replaceTomlValue :: "externals \<Rightarrow> string \<Rightarrow> pathkey list \<Rightarrow> jv \<Rightarrow> string outcome" where
  "replaceTomlValue E input path newValue =
     and_then (spliced_text E input path newValue) (\<lambda>output.
       case parsePlain E output of
         None \<Rightarrow> None
       | Some (Inl e) \<Rightarrow> throws (InvalidAfterReplace e)
       | Some (Inr t) \<Rightarrow> returns output)"

section \<open>The manifest updaters of \<open>cargo-toml.ts\<close>\<close>

text \<open>
  A version map is a \<open>Map\<close> from package names to versions; it is read in insertion order.
  A version stands here for its \<open>toString()\<close>.  The messages for the logger are left out.
\<close>

fun for_each :: "'a list \<Rightarrow> ('a \<Rightarrow> 's \<Rightarrow> 's outcome) \<Rightarrow> 's \<Rightarrow> 's outcome" where
  "for_each [] body s = returns s"
| "for_each (x # xs) body s = and_then (body x s) (for_each xs body)"

definition updatedVersion :: "string \<Rightarrow> string \<Rightarrow> string" where
  "updatedVersion depKind pkgVersion =
     (if depKind = ''dev-dependencies'' then ''<='' @ pkgVersion else pkgVersion)"

text \<open>The body of the loop over \<open>DEP_KINDS\<close> (lines 51-84 of \<open>cargo-toml.ts\<close>).\<close>

definition bump_dependency ::
  "externals \<Rightarrow> jv \<Rightarrow> string \<Rightarrow> string \<Rightarrow> string \<Rightarrow> string \<Rightarrow> string outcome" where
  "bump_dependency E parsed pkgName pkgVersion depKind payload =
     (let deps = js_get parsed (KStr depKind) in
      if \<not> truthy deps then returns payload
      else if \<not> truthy (js_get deps (KStr pkgName)) then returns payload
      else let dep = js_get deps (KStr pkgName) in
        if typeof dep = TString \<or> typeof (js_get dep (KStr ''path'')) = TUndefined
        then returns payload
        else if typeof (js_get dep (KStr ''version'')) = TUndefined then returns payload
        else replaceTomlValue E payload [KStr depKind, KStr pkgName, KStr ''version'']
               (JString (updatedVersion depKind pkgVersion)))"

text \<open>The body of the loop for a platform-specific target (lines 91-121).\<close>

definition bump_target_dependency ::
  "externals \<Rightarrow> jv \<Rightarrow> string \<Rightarrow> string \<Rightarrow> string \<Rightarrow> string \<Rightarrow> string \<Rightarrow> string outcome" where
  "bump_target_dependency E parsed pkgName pkgVersion targetName depKind payload =
     (let tgt = js_get (js_get parsed (KStr ''target'')) (KStr targetName) in
      if tgt = JUndefined \<or> tgt = JNull then throws (TypeError ''Cannot read properties of undefined'')
      else let deps = js_get tgt (KStr depKind) in
        if \<not> truthy deps then returns payload
        else if \<not> truthy (js_get deps (KStr pkgName)) then returns payload
        else let dep = js_get deps (KStr pkgName) in
          if typeof dep = TString \<or> typeof (js_get dep (KStr ''path'')) = TUndefined
          then returns payload
          else replaceTomlValue E payload
                 [KStr ''target'', KStr targetName, KStr depKind, KStr pkgName, KStr ''version'']
                 (JString (updatedVersion depKind pkgVersion)))"

text \<open>The loop over the targets (lines 87-124), and the body of the loop over the version map.\<close>

definition bump_targets ::
  "externals \<Rightarrow> jv \<Rightarrow> string \<times> string \<Rightarrow> string \<Rightarrow> string outcome" where
  "bump_targets E parsed pkg payload =
     (if truthy (js_get parsed (KStr ''target''))
      then for_each (object_keys (js_get parsed (KStr ''target'')))
             (\<lambda>targetName. for_each (DEP_KINDS E)
                (bump_target_dependency E parsed (fst pkg) (snd pkg) targetName))
             payload
      else returns payload)"

definition bump_package ::
  "externals \<Rightarrow> jv \<Rightarrow> string \<times> string \<Rightarrow> string \<Rightarrow> string outcome" where
  "bump_package E parsed pkg payload =
     and_then (for_each (DEP_KINDS E) (bump_dependency E parsed (fst pkg) (snd pkg)) payload)
       (bump_targets E parsed pkg)"

text \<open>\<open>CargoToml.updateContent\<close>, for an updater with the fields \<open>version\<close> and \<open>versionsMap\<close>.\<close>

definition CargoToml_updateContent ::
  "externals \<Rightarrow> string \<Rightarrow> (string \<times> string) list option \<Rightarrow> string \<Rightarrow> string outcome" where
  "CargoToml_updateContent E version versionsMap content =
     (case versionsMap of
        None \<Rightarrow> throws NoVersions
      | Some vm \<Rightarrow>
          and_then (parseCargoManifest E content) (\<lambda>parsed.
            if \<not> truthy (js_get parsed (KStr ''package'')) then throws NotPackageManifest
            else and_then
                   (replaceTomlValue E content [KStr ''package'', KStr ''version''] (JString version))
                   (for_each vm (bump_package E parsed))))"

text \<open>\<open>CargoTomlRemovePaths.updateContent\<close> (lines 144-209), for the names of \<open>allPackages\<close>.\<close>

definition remove_path ::
  "externals \<Rightarrow> jv \<Rightarrow> string \<Rightarrow> string \<Rightarrow> string \<Rightarrow> string outcome" where
  "remove_path E parsed name depKind payload =
     (let deps = js_get parsed (KStr depKind) in
      if \<not> truthy deps then returns payload
      else if \<not> truthy (js_get deps (KStr name)) then returns payload
      else let dep = js_get deps (KStr name) in
        if typeof dep = TString \<or> typeof (js_get dep (KStr ''path'')) = TUndefined
        then returns payload
        else replaceTomlValue E payload [KStr depKind, KStr name, KStr ''path''] JNull)"

definition remove_target_path ::
  "externals \<Rightarrow> jv \<Rightarrow> string \<Rightarrow> string \<Rightarrow> string \<Rightarrow> string \<Rightarrow> string outcome" where
  "remove_target_path E parsed name targetName depKind payload =
     (let tgt = js_get (js_get parsed (KStr ''target'')) (KStr targetName) in
      if tgt = JUndefined \<or> tgt = JNull then throws (TypeError ''Cannot read properties of undefined'')
      else let deps = js_get tgt (KStr depKind) in
        if \<not> truthy deps then returns payload
        else if \<not> truthy (js_get deps (KStr name)) then returns payload
        else let dep = js_get deps (KStr name) in
          if typeof dep = TString \<or> typeof (js_get dep (KStr ''path'')) = TUndefined
          then returns payload
          else replaceTomlValue E payload
                 [KStr ''target'', KStr targetName, KStr depKind, KStr name, KStr ''path''] JNull)"

definition remove_target_paths :: "externals \<Rightarrow> jv \<Rightarrow> string \<Rightarrow> string \<Rightarrow> string outcome" where
  "remove_target_paths E parsed name payload =
     (if truthy (js_get parsed (KStr ''target''))
      then for_each (object_keys (js_get parsed (KStr ''target'')))
             (\<lambda>targetName. for_each (DEP_KINDS E) (remove_target_path E parsed name targetName))
             payload
      else returns payload)"

definition remove_package_paths :: "externals \<Rightarrow> jv \<Rightarrow> string \<Rightarrow> string \<Rightarrow> string outcome" where
  "remove_package_paths E parsed name payload =
     and_then (for_each (DEP_KINDS E) (remove_path E parsed name) payload)
       (remove_target_paths E parsed name)"

definition CargoTomlRemovePaths_updateContent ::
  "externals \<Rightarrow> string list \<Rightarrow> string \<Rightarrow> string outcome" where
  "CargoTomlRemovePaths_updateContent E allPackages content =
     and_then (parseCargoManifest E content) (\<lambda>parsed.
       if \<not> truthy (js_get parsed (KStr ''package'')) then throws NotPackageManifest
       else for_each allPackages (remove_package_paths E parsed) content)"

text \<open>\<open>CargoWorkspaceMembers.updateContent\<close> (lines 225-231).\<close>

definition CargoWorkspaceMembers_updateContent ::
  "externals \<Rightarrow> string list \<Rightarrow> string \<Rightarrow> string outcome" where
  "CargoWorkspaceMembers_updateContent E members content =
     replaceTomlValue E content [KStr ''workspace'', KStr ''members''] (JArray (map JString members))"

subsection \<open>The externals, as far as they are modelled\<close>

text \<open>
  Modelled from the spec: \<open>TOML.stringify.value\<close> is the library's ``canonical
  stringification''.  For a string without quote, apostrophe, backslash or control
  character it is the string between double quotes; the model stops on any other value.
\<close>

definition plain_char :: "char \<Rightarrow> bool" where
  "plain_char c = (\<not> isControlChar (Ch c) \<and> c \<noteq> CTRL_I \<and> c \<noteq> CHAR_QUOT \<and> c \<noteq> CHAR_APOS \<and> c \<noteq> CHAR_BSOL)"

fun stringify_value :: "jv \<Rightarrow> string outcome" where
  "stringify_value (JString s) =
     (if list_all plain_char s then returns ([CHAR_QUOT] @ s @ [CHAR_QUOT])
      else throws (Unsupported ''string that needs escapes''))"
| "stringify_value v = throws (Unsupported ''value that is not a string'')"

text \<open>
  Modelled from the spec: \<open>parseCargoManifest\<close> and \<open>DEP_KINDS\<close> are declared in
  \<^verbatim>\<open>updaters/rust/common.ts\<close>, which is not under \<^verbatim>\<open>src/\<close>.  The manifest is read with the
  plain parser, and the dependency kinds are the ``normal/dev/build'' sections of a
  manifest.
\<close>

definition modelled :: externals where
  "modelled = \<lparr> parseTagged = (\<lambda>input. parseWith input True),
                parsePlain = (\<lambda>input. parseWith input False),
                stringifyValue = stringify_value,
                parseCargoManifest = (\<lambda>input. parseWith input False),
                DEP_KINDS = [''dependencies'', ''dev-dependencies'', ''build-dependencies''] \<rparr>"

section \<open>Edits and their composition (\<^verbatim>\<open>unnamed/part_001\<close>)\<close>

text \<open>
  An updater object is known by its class and the arguments of its constructor.  The
  classes that the source names are constructors; \<open>Other\<close> is an updater of any other
  class, with its name and its \<open>encoding\<close> field.  What \<open>updateContent\<close> of an
  updater returns is decided by its class, which may lie outside \<^verbatim>\<open>src/\<close>: the functions
  below take that dispatch as the parameter \<open>apply\<close>.

  \<open>RawContent\<close> and \<open>RemoveFile\<close> are declared outside \<^verbatim>\<open>src/\<close>; the second argument of
  \<open>new RawContent\<close> is taken to be its \<open>encoding\<close> field, and a \<open>RemoveFile\<close> to have none.
  \<open>CargoTomlRemovePaths_versions\<close> is a \<open>CargoTomlRemovePaths\<close> built as
  \<^verbatim>\<open>plugins/substrate-workspace.ts\<close> builds it (lines 218-221), on an object with a \<open>version\<close>
  and a \<open>versionsMap\<close> in place of the list of packages.
\<close>

text \<open>
  \<open>GitHubFileContents\<close>: \<open>content_b64\<close> is its field \<open>content\<close>, the bytes of the file in
  base64, and \<open>parsedContent\<close> the text that they decode to.
\<close>

record ghcontents =
  content_b64 :: string
  parsedContent :: string

datatype updater =
    RawContent jv "string option"
  | RemoveFile
  | CargoTomlRemovePaths "string list"
  | CargoTomlRemovePaths_versions "string option" "(string \<times> string) list"
  | CargoWorkspaceMembers "string list"
  | ReleasePleaseManifest "string option" "(string \<times> string) list"
  | CompositeUpdater "updater list" "string option"
  | Other string "string option"

record update =
  path :: string
  createIfMissing :: bool
  cachedFileContents :: "ghcontents option"
  updater :: updater

text \<open>The \<open>encoding\<close> field of an updater object.\<close>

fun encoding :: "updater \<Rightarrow> string option" where
  "encoding (RawContent c e) = e"
| "encoding (Other name e) = e"
| "encoding (CompositeUpdater us e) = e"
| "encoding u = None"

text \<open>
  The constructor of \<open>CompositeUpdater\<close> (lines 28-38): it refuses an updater with base64
  content before the last, and copies the encoding of the last.
\<close>

definition new_CompositeUpdater :: "updater list \<Rightarrow> error + updater" where
  "new_CompositeUpdater updaters =
     (if list_ex (\<lambda>u. encoding u = Some ''base64'') (butlast updaters) then Inl ChainAfterBase64
      else Inr (CompositeUpdater updaters
                  (if updaters = [] then None else encoding (last updaters))))"

text \<open>
  The loop of \<open>CompositeUpdater.updateContent\<close> (lines 46-50), with the calls it makes:
  the second component lists, in order, each updater that was invoked and the content it
  was given.
\<close>

fun chain_loop ::
  "(updater \<Rightarrow> jv \<Rightarrow> jv outcome) \<Rightarrow> updater list \<Rightarrow> jv \<times> (updater \<times> jv) list
     \<Rightarrow> (jv \<times> (updater \<times> jv) list) outcome" where
  "chain_loop apply [] st = returns st"
| "chain_loop apply (u # us) st =
     (if fst st \<noteq> JNull
      then and_then (apply u (fst st)) (\<lambda>c. chain_loop apply us (c, snd st @ [(u, fst st)]))
      else chain_loop apply us st)"

definition CompositeUpdater_updateContent ::
  "(updater \<Rightarrow> jv \<Rightarrow> jv outcome) \<Rightarrow> updater list \<Rightarrow> jv \<Rightarrow> jv outcome" where
  "CompositeUpdater_updateContent apply updaters content =
     and_then (chain_loop apply updaters (content, []))
       (\<lambda>st. returns (if truthy (fst st) then fst st else JString []))"

definition invocations ::
  "(updater \<Rightarrow> jv \<Rightarrow> jv outcome) \<Rightarrow> updater list \<Rightarrow> jv \<Rightarrow> (updater \<times> jv) list outcome" where
  "invocations apply updaters content =
     and_then (chain_loop apply updaters (content, [])) (\<lambda>st. returns (snd st))"

text \<open>
  \<open>mergeUpdates\<close> (lines 55-77).  \<open>updatesByPath\<close> is a plain object: a read of a key
  that it does not own finds the property of that name of \<open>Object.prototype\<close>, if there is
  one, and such a property has no \<open>push\<close>.
\<close>

fun group_put :: "string \<Rightarrow> update \<Rightarrow> (string \<times> update list) list \<Rightarrow> (string \<times> update list) list" where
  "group_put k u [] = [(k, [u])]"
| "group_put k u (g # gs) = (if fst g = k then (k, snd g @ [u]) # gs else g # group_put k u gs)"

fun group_updates ::
  "update list \<Rightarrow> (string \<times> update list) list \<Rightarrow> error + (string \<times> update list) list" where
  "group_updates [] updatesByPath = Inr updatesByPath"
| "group_updates (u # us) updatesByPath =
     (if path u \<notin> set (map fst updatesByPath) \<and> path u \<in> set Object_prototype_keys
      then Inl (TypeError ''updatesByPath[update.path].push is not a function'')
      else group_updates us (group_put (path u) u updatesByPath))"

definition merged_update :: "string \<Rightarrow> update list \<Rightarrow> error + update" where
  "merged_update p us =
     (case (if length us = 1 then Inr (updater (hd us)) else new_CompositeUpdater (map updater us)) of
        Inl e \<Rightarrow> Inl e
      | Inr upd \<Rightarrow> Inr \<lparr> path = p, createIfMissing = createIfMissing (hd us),
                         cachedFileContents = None, updater = upd \<rparr>)"

fun build_updates :: "(string \<times> update list) list \<Rightarrow> string list \<Rightarrow> error + update list" where
  "build_updates updatesByPath [] = Inr []"
| "build_updates updatesByPath (p # ps) =
     (case merged_update p (the (map_of updatesByPath p)) of
        Inl e \<Rightarrow> Inl e
      | Inr u \<Rightarrow> (case build_updates updatesByPath ps of Inl e \<Rightarrow> Inl e | Inr r \<Rightarrow> Inr (u # r)))"

definition mergeUpdates :: "update list \<Rightarrow> error + update list" where
  "mergeUpdates updates =
     (case group_updates updates [] of
        Inl e \<Rightarrow> Inl e
      | Inr updatesByPath \<Rightarrow> build_updates updatesByPath (js_key_order (map fst updatesByPath)))"

section \<open>The workspace plugin (\<^verbatim>\<open>plugins/substrate-workspace.ts\<close> and \<^verbatim>\<open>unnamed/part_000\<close>)\<close>

text \<open>
  The repository holds two versions of \<open>class SubstrateWorkspace\<close>.  The functions of
  \<^verbatim>\<open>unnamed/part_000\<close> carry the suffix \<open>_p0\<close> where the two differ, those of
  \<^verbatim>\<open>plugins/substrate-workspace.ts\<close> the suffix \<open>_sw\<close>.

  \<open>platform\<close> is what the plugin asks of the hosting platform, on the target branch, and
  of \<^verbatim>\<open>node:buffer\<close>: \<open>isUtf8_base64 c\<close> is \<open>isUtf8(Buffer.from(c, 'base64'))\<close>.
\<close>

record platform =
  findFilesByGlobAndRef :: "string \<Rightarrow> string \<Rightarrow> string list outcome"
  getFileContentsOnBranch :: "string \<Rightarrow> ghcontents outcome"
  isUtf8_base64 :: "string \<Rightarrow> bool"

record candidate =
  candidate_path :: string
  pullRequest_version :: "string option"
  pullRequest_updates :: "update list"
  config_releaseType :: string

text \<open>\<open>FileContent\<close> of \<^verbatim>\<open>unnamed/part_000\<close>.\<close>

record file_content =
  fc_content :: string
  fc_encoding :: string

fun isFileNotFound :: "error \<Rightarrow> bool" where
  "isFileNotFound (FileNotFoundError p) = True"
| "isFileNotFound e = False"

text \<open>\<open>fileUpdate?.cachedFileContents || (await this.github.getFileContentsOnBranch(...))\<close>.\<close>

definition cached_or_fetched :: "platform \<Rightarrow> update option \<Rightarrow> string \<Rightarrow> ghcontents outcome" where
  "cached_or_fetched G fileUpdate sourcePath =
     (case fileUpdate of
        None \<Rightarrow> getFileContentsOnBranch G sourcePath
      | Some u \<Rightarrow>
          (case cachedFileContents u of
             None \<Rightarrow> getFileContentsOnBranch G sourcePath
           | Some c \<Rightarrow> returns c))"

definition missing_allowed :: "update option \<Rightarrow> bool" where
  "missing_allowed fileUpdate = (case fileUpdate of None \<Rightarrow> False | Some u \<Rightarrow> createIfMissing u)"

text \<open>\<open>getFileContent\<close>; \<open>None\<close> is \<open>null\<close>.\<close>

definition getFileContent_p0 ::
  "platform \<Rightarrow> update option \<Rightarrow> string \<Rightarrow> file_content option outcome" where
  "getFileContent_p0 G fileUpdate sourcePath =
     (case cached_or_fetched G fileUpdate sourcePath of
        None \<Rightarrow> None
      | Some (Inr ghContents) \<Rightarrow>
          if isUtf8_base64 G (content_b64 ghContents)
          then returns (Some \<lparr> fc_content = parsedContent ghContents, fc_encoding = ''utf-8'' \<rparr>)
          else returns (Some \<lparr> fc_content = content_b64 ghContents, fc_encoding = ''base64'' \<rparr>)
      | Some (Inl e) \<Rightarrow>
          if isFileNotFound e
          then returns (if missing_allowed fileUpdate
                        then Some \<lparr> fc_content = [], fc_encoding = ''utf-8'' \<rparr> else None)
          else throws e)"

definition getFileContent_sw ::
  "platform \<Rightarrow> update option \<Rightarrow> string \<Rightarrow> string option outcome" where
  "getFileContent_sw G fileUpdate sourcePath =
     (case cached_or_fetched G fileUpdate sourcePath of
        None \<Rightarrow> None
      | Some (Inr ghContents) \<Rightarrow> returns (Some (parsedContent ghContents))
      | Some (Inl e) \<Rightarrow>
          if isFileNotFound e
          then returns (if missing_allowed fileUpdate then Some [] else None)
          else throws e)"

text \<open>
  \<open>overwriteFile\<close>, in three parts: the content that the function resolves
  (\<open>fileContent\<close> and \<open>newFileContent\<close>), the edit that it builds from it, and the push.
  The updates of the root candidate are a list that the function appends to; the model
  returns the list after the call.  \<open>apply\<close> is the dispatch of
  \<open>fileUpdate.updater.updateContent\<close>.
\<close>

definition newFileContent_p0 ::
  "(updater \<Rightarrow> jv \<Rightarrow> jv outcome) \<Rightarrow> platform \<Rightarrow> string \<Rightarrow> update list
     \<Rightarrow> (file_content option \<times> jv) outcome" where
  "newFileContent_p0 apply G sourcePath updates =
     (let fileUpdate = List.find (\<lambda>u. path u = sourcePath) updates in
      and_then (getFileContent_p0 G fileUpdate sourcePath) (\<lambda>fileContent.
        and_then
          (case fileContent of
             None \<Rightarrow> returns JNull
           | Some fc \<Rightarrow>
               (case fileUpdate of
                  None \<Rightarrow> returns (JString (fc_content fc))
                | Some u \<Rightarrow> apply (updater u) (JString (fc_content fc))))
          (\<lambda>newFileContent. returns (fileContent, newFileContent))))"

definition mirror_update_p0 :: "string \<Rightarrow> file_content option \<Rightarrow> jv \<Rightarrow> update" where
  "mirror_update_p0 targetPath fileContent newFileContent =
     \<lparr> path = targetPath, createIfMissing = True, cachedFileContents = None,
       updater = (if truthy newFileContent
                  then RawContent newFileContent
                         (Some (case fileContent of None \<Rightarrow> ''utf-8'' | Some fc \<Rightarrow> fc_encoding fc))
                  else RemoveFile) \<rparr>"

definition overwriteFile_p0 ::
  "(updater \<Rightarrow> jv \<Rightarrow> jv outcome) \<Rightarrow> platform \<Rightarrow> string \<Rightarrow> string \<Rightarrow> update list
     \<Rightarrow> update list outcome" where
  "overwriteFile_p0 apply G sourcePath targetPath updates =
     and_then (newFileContent_p0 apply G sourcePath updates) (\<lambda>r.
       returns (updates @ [mirror_update_p0 targetPath (fst r) (snd r)]))"

definition newFileContent_sw ::
  "(updater \<Rightarrow> jv \<Rightarrow> jv outcome) \<Rightarrow> platform \<Rightarrow> string \<Rightarrow> update list \<Rightarrow> jv outcome" where
  "newFileContent_sw apply G sourcePath updates =
     (let fileUpdate = List.find (\<lambda>u. path u = sourcePath) updates in
      and_then (getFileContent_sw G fileUpdate sourcePath) (\<lambda>fileContent.
        case fileContent of
          None \<Rightarrow> returns JNull
        | Some c \<Rightarrow>
            if c = [] then returns JNull
            else (case fileUpdate of
                    None \<Rightarrow> returns (JString c)
                  | Some u \<Rightarrow> apply (updater u) (JString c))))"

definition mirror_update_sw :: "string \<Rightarrow> jv \<Rightarrow> update" where
  "mirror_update_sw targetPath newFileContent =
     \<lparr> path = targetPath, createIfMissing = True, cachedFileContents = None,
       updater = (if truthy newFileContent then RawContent newFileContent None else RemoveFile) \<rparr>"

definition overwriteFile_sw ::
  "(updater \<Rightarrow> jv \<Rightarrow> jv outcome) \<Rightarrow> platform \<Rightarrow> string \<Rightarrow> string \<Rightarrow> update list
     \<Rightarrow> update list outcome" where
  "overwriteFile_sw apply G sourcePath targetPath updates =
     and_then (newFileContent_sw apply G sourcePath updates) (\<lambda>newFileContent.
       returns (updates @ [mirror_update_sw targetPath newFileContent]))"

text \<open>
  \<open>findAllFilesInDir\<close> of \<^verbatim>\<open>unnamed/part_000\<close>: the listing as a \<open>Set\<close>, from which every
  entry that is visited deletes its parent directory.  A \<open>Set\<close> is iterated in insertion
  order, and an entry that was deleted before its turn is not visited.
\<close>

fun dedup :: "string list \<Rightarrow> string list" where
  "dedup [] = []"
| "dedup (x # xs) = x # dedup (removeAll x xs)"

definition lastIndexOf :: "string \<Rightarrow> char \<Rightarrow> int" where
  "lastIndexOf str c =
     (case List.find (\<lambda>i. str ! i = c) (rev [0 ..< length str]) of
        None \<Rightarrow> - 1
      | Some i \<Rightarrow> int i)"

text \<open>\<open>String.prototype.substring\<close>: a negative offset is \<open>0\<close>, and the two are swapped when out of order.\<close>

definition substring :: "string \<Rightarrow> int \<Rightarrow> int \<Rightarrow> string" where
  "substring str a b =
     (let n = int (length str);
          a1 = min (max a 0) n;
          b1 = min (max b 0) n
      in take (nat (max a1 b1) - nat (min a1 b1)) (drop (nat (min a1 b1)) str))"

function delete_parents :: "string list \<Rightarrow> string list \<Rightarrow> string list" where
  "delete_parents [] files = files"
| "delete_parents (file # rest) files =
     (let parent = substring file 0 (lastIndexOf file (CHR ''/''))
      in delete_parents (removeAll parent rest) (removeAll parent files))"
  by pat_completeness auto
termination
  by (relation "measure (\<lambda>(todo, files). length todo)")
     (auto simp: less_Suc_eq_le)

definition findAllFilesInDir :: "platform \<Rightarrow> string \<Rightarrow> string list outcome" where
  "findAllFilesInDir G dir =
     and_then (findFilesByGlobAndRef G ''**/*'' dir)
       (\<lambda>listing. returns (delete_parents (dedup listing) (dedup listing)))"

text \<open>\<open>overwriteDirectory\<close>: the two loops, over the files of the target and of the source.\<close>

definition overwrite_target_file ::
  "(string \<Rightarrow> string \<Rightarrow> update list \<Rightarrow> update list outcome) \<Rightarrow> string \<Rightarrow> string \<Rightarrow> string list
     \<Rightarrow> string \<Rightarrow> update list \<Rightarrow> update list outcome" where
  "overwrite_target_file overwriteFile sourceDir targetDir exceptions file updates =
     (if file \<notin> set exceptions
      then overwriteFile (sourceDir @ ''/'' @ file) (targetDir @ ''/'' @ file) updates
      else returns updates)"

definition create_source_file ::
  "(string \<Rightarrow> string \<Rightarrow> update list \<Rightarrow> update list outcome) \<Rightarrow> string \<Rightarrow> string \<Rightarrow> string list
     \<Rightarrow> string \<Rightarrow> update list \<Rightarrow> update list outcome" where
  "create_source_file overwriteFile sourceDir targetDir exceptions file updates =
     (let exists = List.find (\<lambda>u. path u = targetDir @ ''/'' @ file) updates in
      if exists = None \<and> file \<notin> set exceptions
      then overwriteFile (sourceDir @ ''/'' @ file) (targetDir @ ''/'' @ file) updates
      else returns updates)"

definition overwriteDirectory_p0 ::
  "(updater \<Rightarrow> jv \<Rightarrow> jv outcome) \<Rightarrow> platform \<Rightarrow> string \<Rightarrow> string \<Rightarrow> string list \<Rightarrow> update list
     \<Rightarrow> update list outcome" where
  "overwriteDirectory_p0 apply G sourceDir targetDir exceptions updates =
     and_then (findAllFilesInDir G targetDir) (\<lambda>targetFiles.
     and_then (for_each targetFiles
                 (overwrite_target_file (overwriteFile_p0 apply G) sourceDir targetDir exceptions)
                 updates) (\<lambda>updates1.
     and_then (findAllFilesInDir G sourceDir) (\<lambda>sourceFiles.
       for_each sourceFiles
         (create_source_file (overwriteFile_p0 apply G) sourceDir targetDir exceptions)
         updates1)))"

definition overwriteDirectory_sw ::
  "(updater \<Rightarrow> jv \<Rightarrow> jv outcome) \<Rightarrow> platform \<Rightarrow> string \<Rightarrow> string \<Rightarrow> string list \<Rightarrow> update list
     \<Rightarrow> update list outcome" where
  "overwriteDirectory_sw apply G sourceDir targetDir exceptions updates =
     and_then (findFilesByGlobAndRef G ''**/*'' targetDir) (\<lambda>targetFiles.
     and_then (for_each targetFiles
                 (overwrite_target_file (overwriteFile_sw apply G) sourceDir targetDir exceptions)
                 updates) (\<lambda>updates1.
     and_then (findFilesByGlobAndRef G ''**/*'' sourceDir) (\<lambda>sourceFiles.
       for_each sourceFiles
         (create_source_file (overwriteFile_sw apply G) sourceDir targetDir exceptions)
         updates1)))"

text \<open>
  \<open>removeReleaseExamplePathDependencies\<close> of \<^verbatim>\<open>unnamed/part_000\<close>: the updater of the first
  edit at the path is wrapped in place.
\<close>

fun wrap_first :: "string \<Rightarrow> updater \<Rightarrow> update list \<Rightarrow> error + update list" where
  "wrap_first p extra [] = Inr []"
| "wrap_first p extra (u # us) =
     (if path u = p
      then (case new_CompositeUpdater [updater u, extra] of
              Inl e \<Rightarrow> Inl e
            | Inr c \<Rightarrow> Inr (u\<lparr> updater := c \<rparr> # us))
      else (case wrap_first p extra us of Inl e \<Rightarrow> Inl e | Inr r \<Rightarrow> Inr (u # r)))"

definition removeReleaseExamplePathDependencies_p0 ::
  "platform \<Rightarrow> string list \<Rightarrow> update list \<Rightarrow> update list outcome" where
  "removeReleaseExamplePathDependencies_p0 G allPackages updates =
     and_then (findFilesByGlobAndRef G ''**/Cargo.toml'' ''examples/latest'') (\<lambda>targetFiles.
       for_each targetFiles
         (\<lambda>file us. Some (wrap_first (''examples/release/'' @ file) (CargoTomlRemovePaths allPackages) us))
         updates)"

text \<open>
  The same of \<^verbatim>\<open>plugins/substrate-workspace.ts\<close> (lines 201-225), with the version of the root
  candidate and the updated versions.
\<close>

definition removeReleaseExamplePathDependencies_sw ::
  "platform \<Rightarrow> string option \<Rightarrow> (string \<times> string) list \<Rightarrow> update list \<Rightarrow> update list outcome" where
  "removeReleaseExamplePathDependencies_sw G version updatedVersions updates =
     and_then (findFilesByGlobAndRef G ''**/Cargo.toml'' ''examples/latest'') (\<lambda>targetFiles.
       for_each targetFiles
         (\<lambda>file us. Some (wrap_first (''examples/release/'' @ file)
                              (CargoTomlRemovePaths_versions version updatedVersions) us))
         updates)"

definition updateReleaseExampleWorkspaceToml :: "platform \<Rightarrow> update list \<Rightarrow> update list outcome" where
  "updateReleaseExampleWorkspaceToml G updates =
     and_then (findFilesByGlobAndRef G ''**/Cargo.toml'' ''examples/latest'') (\<lambda>targetFiles.
       returns (updates @
         [\<lparr> path = ''examples/release/Cargo.toml'', createIfMissing = True, cachedFileContents = None,
             updater = CargoWorkspaceMembers
               (map (\<lambda>file. slice file 0 (- int (length ''/Cargo.toml''))) targetFiles) \<rparr>]))"

text \<open>
  \<open>updateDocsAndExamples\<close>.  The root candidate is an element of \<open>candidates\<close> whose list of
  updates the four steps extend; \<open>ROOT\<close> is the constant \<open>ROOT_PROJECT_PATH\<close> of
  \<^verbatim>\<open>manifest.ts\<close>.
\<close>

fun find_index :: "('a \<Rightarrow> bool) \<Rightarrow> 'a list \<Rightarrow> nat option" where
  "find_index P [] = None"
| "find_index P (x # xs) =
     (if P x then Some 0 else case find_index P xs of None \<Rightarrow> None | Some i \<Rightarrow> Some (Suc i))"

definition mirror_docs_and_examples_p0 ::
  "(updater \<Rightarrow> jv \<Rightarrow> jv outcome) \<Rightarrow> platform \<Rightarrow> string list \<Rightarrow> update list \<Rightarrow> update list outcome" where
  "mirror_docs_and_examples_p0 apply G allPackages updates =
     and_then (overwriteDirectory_p0 apply G ''docs/docusaurus/docs''
                 ''docs/docusaurus/versioned_docs/version-release'' [''docs-config.json''] updates)
       (\<lambda>updates1.
     and_then (overwriteDirectory_p0 apply G ''examples/latest'' ''examples/release''
                 [''Cargo.toml'', ''Justfile''] updates1)
       (\<lambda>updates2.
     and_then (removeReleaseExamplePathDependencies_p0 G allPackages updates2)
       (updateReleaseExampleWorkspaceToml G)))"

definition mirror_docs_and_examples_sw ::
  "(updater \<Rightarrow> jv \<Rightarrow> jv outcome) \<Rightarrow> platform \<Rightarrow> string option \<Rightarrow> (string \<times> string) list
     \<Rightarrow> update list \<Rightarrow> update list outcome" where
  "mirror_docs_and_examples_sw apply G version updatedVersions updates =
     and_then (overwriteDirectory_sw apply G ''docs/docusaurus/docs''
                 ''docs/docusaurus/versioned_docs/version-release'' [''docs-config.json''] updates)
       (\<lambda>updates1.
     and_then (overwriteDirectory_sw apply G ''examples/latest'' ''examples/release''
                 [''Cargo.toml'', ''Justfile''] updates1)
       (\<lambda>updates2.
     and_then (removeReleaseExamplePathDependencies_sw G version updatedVersions updates2)
       (updateReleaseExampleWorkspaceToml G)))"

text \<open>The index of the root candidate: the first at the root path, else the first of type \<open>rust\<close>.\<close>

definition root_candidate :: "string \<Rightarrow> candidate list \<Rightarrow> nat option" where
  "root_candidate ROOT candidates =
     (case find_index (\<lambda>c. candidate_path c = ROOT) candidates of
        Some i \<Rightarrow> Some i
      | None \<Rightarrow> find_index (\<lambda>c. config_releaseType c = ''rust'') candidates)"

definition updateDocsAndExamples_p0 ::
  "(updater \<Rightarrow> jv \<Rightarrow> jv outcome) \<Rightarrow> platform \<Rightarrow> string \<Rightarrow> candidate list \<Rightarrow> string list
     \<Rightarrow> candidate list outcome" where
  "updateDocsAndExamples_p0 apply G ROOT candidates allPackages =
     (case root_candidate ROOT candidates of
        None \<Rightarrow> returns candidates
      | Some i \<Rightarrow>
          and_then (mirror_docs_and_examples_p0 apply G allPackages (pullRequest_updates (candidates ! i)))
            (\<lambda>updates1. returns (candidates[i := (candidates ! i)\<lparr> pullRequest_updates := updates1 \<rparr>])))"

definition updateDocsAndExamples_sw ::
  "(updater \<Rightarrow> jv \<Rightarrow> jv outcome) \<Rightarrow> platform \<Rightarrow> string \<Rightarrow> candidate list \<Rightarrow> (string \<times> string) list
     \<Rightarrow> candidate list outcome" where
  "updateDocsAndExamples_sw apply G ROOT candidates updatedVersions =
     (case root_candidate ROOT candidates of
        None \<Rightarrow> returns candidates
      | Some i \<Rightarrow>
          and_then (mirror_docs_and_examples_sw apply G (pullRequest_version (candidates ! i))
                      updatedVersions (pullRequest_updates (candidates ! i)))
            (\<lambda>updates1. returns (candidates[i := (candidates ! i)\<lparr> pullRequest_updates := updates1 \<rparr>])))"

text \<open>
  \<open>run\<close>.  The methods that \<open>SubstrateWorkspace\<close> inherits from \<open>CargoWorkspace\<close>, the
  \<open>Merge\<close> plugin and the fields of the plugin are not under \<^verbatim>\<open>src/\<close>: they are the fields
  of \<open>workspace\<close>.  \<open>'p\<close> is the type of a package,
  \<open>'g\<close> of the dependency graph, \<open>'m\<close> of the candidates by package.
\<close>

record ('p, 'g, 'm) workspace =
  inScope :: "candidate \<Rightarrow> bool"
  use_merge :: bool
  manifestPath :: string
  ROOT_PROJECT_PATH :: string
  buildAllPackages :: "candidate list \<Rightarrow> ('p list \<times> 'm) outcome"
  buildGraph :: "'p list \<Rightarrow> 'g outcome"
  packageNamesToUpdate :: "'g \<Rightarrow> 'm \<Rightarrow> string list"
  buildGraphOrder :: "'g \<Rightarrow> string list \<Rightarrow> 'p list"
  buildUpdatedVersions ::
    "'g \<Rightarrow> 'p list \<Rightarrow> 'm \<Rightarrow> ((string \<times> string) list \<times> (string \<times> string) list) outcome"
  findCandidateForPackage :: "'p \<Rightarrow> 'm \<Rightarrow> candidate option"
  updateCandidate :: "candidate \<Rightarrow> 'p \<Rightarrow> (string \<times> string) list \<Rightarrow> candidate"
  newCandidate :: "'p \<Rightarrow> (string \<times> string) list \<Rightarrow> candidate"
  mergePlugin_run :: "candidate list \<Rightarrow> candidate list outcome"
  postProcessCandidates :: "candidate list \<Rightarrow> (string \<times> string) list \<Rightarrow> candidate list"
  crate_name :: "'p \<Rightarrow> string"
  github :: platform
  updateContent :: "updater \<Rightarrow> jv \<Rightarrow> jv outcome"

text \<open>The loop over the ordered packages (lines 71-117), with the set \<open>newCandidatePaths\<close>.\<close>

fun collect_candidates ::
  "('p, 'g, 'm) workspace \<Rightarrow> 'm \<Rightarrow> (string \<times> string) list \<Rightarrow> 'p list \<Rightarrow> candidate list
     \<Rightarrow> string list \<Rightarrow> candidate list" where
  "collect_candidates W candidatesByPackage updatedVersions [] newCandidates newCandidatePaths =
     newCandidates"
| "collect_candidates W candidatesByPackage updatedVersions (pkg # pkgs) newCandidates newCandidatePaths =
     (case findCandidateForPackage W pkg candidatesByPackage of
        Some existingCandidate \<Rightarrow>
          if candidate_path existingCandidate \<in> set newCandidatePaths
          then collect_candidates W candidatesByPackage updatedVersions pkgs newCandidates
                 newCandidatePaths
          else (let c = updateCandidate W existingCandidate pkg updatedVersions in
                collect_candidates W candidatesByPackage updatedVersions pkgs (newCandidates @ [c])
                  (newCandidatePaths @ [candidate_path c]))
      | None \<Rightarrow>
          (let c = newCandidate W pkg updatedVersions in
           if candidate_path c \<in> set newCandidatePaths
           then collect_candidates W candidatesByPackage updatedVersions pkgs newCandidates
                  newCandidatePaths
           else collect_candidates W candidatesByPackage updatedVersions pkgs (newCandidates @ [c])
                  (newCandidatePaths @ [candidate_path c])))"

text \<open>Lines 129-137: the edit of the manifest of versions goes to the first candidate.\<close>

definition push_manifest_update ::
  "('p, 'g, 'm) workspace \<Rightarrow> (string \<times> string) list \<Rightarrow> candidate list \<Rightarrow> candidate list outcome" where
  "push_manifest_update W updatedPathVersions newCandidates =
     (case newCandidates of
        [] \<Rightarrow> throws (TypeError ''Cannot read properties of undefined'')
      | c # cs \<Rightarrow>
          returns (c\<lparr> pullRequest_updates := pullRequest_updates c @
                     [\<lparr> path = manifestPath W, createIfMissing = False, cachedFileContents = None,
                         updater = ReleasePleaseManifest (pullRequest_version c) updatedPathVersions \<rparr>] \<rparr>
                   # cs))"

text \<open>
  \<open>run\<close>, in two parts.  \<open>new_candidates\<close> is the part from the build of the packages to the
  merge plugin (lines 43-121 of \<^verbatim>\<open>unnamed/part_000\<close>, 37-115 of
  \<^verbatim>\<open>plugins/substrate-workspace.ts\<close>): it gives the packages with the candidates by
  package, the updated versions with the updated path versions, and the new candidates.
  The rest pushes the edit of the manifest of versions, post-processes, and mirrors the docs
  and the examples: \<^verbatim>\<open>unnamed/part_000\<close> hands the packages on to the mirror,
  \<^verbatim>\<open>plugins/substrate-workspace.ts\<close> the updated versions.
\<close>

definition in_scope_candidates :: "('p, 'g, 'm) workspace \<Rightarrow> candidate list \<Rightarrow> candidate list" where
  "in_scope_candidates W candidates =
     filter (\<lambda>c. pullRequest_version c \<noteq> None \<and> inScope W c) candidates"

definition out_of_scope_candidates :: "('p, 'g, 'm) workspace \<Rightarrow> candidate list \<Rightarrow> candidate list" where
  "out_of_scope_candidates W candidates =
     filter (\<lambda>c. pullRequest_version c \<noteq> None \<and> \<not> inScope W c) candidates"

definition new_candidates ::
  "('p, 'g, 'm) workspace \<Rightarrow> candidate list
     \<Rightarrow> (('p list \<times> 'm) \<times> ((string \<times> string) list \<times> (string \<times> string) list) \<times> candidate list) outcome" where
  "new_candidates W inScopeCandidates =
     and_then (buildAllPackages W inScopeCandidates) (\<lambda>built.
     and_then (buildGraph W (fst built)) (\<lambda>graph.
       let orderedPackages = buildGraphOrder W graph (packageNamesToUpdate W graph (snd built)) in
       and_then (buildUpdatedVersions W graph orderedPackages (snd built)) (\<lambda>versions.
       and_then
         (let newCandidates = collect_candidates W (snd built) (fst versions) orderedPackages [] []
          in if use_merge W then mergePlugin_run W newCandidates else returns newCandidates)
         (\<lambda>newCandidates. returns (built, versions, newCandidates)))))"

definition run_p0 :: "('p, 'g, 'm) workspace \<Rightarrow> candidate list \<Rightarrow> candidate list outcome" where
  "run_p0 W candidates =
     (if length (in_scope_candidates W candidates) = 0 then returns (out_of_scope_candidates W candidates)
      else
        and_then (new_candidates W (in_scope_candidates W candidates))
          (\<lambda>(built, versions, newCandidates).
        and_then (push_manifest_update W (snd versions) newCandidates) (\<lambda>newCandidates1.
        and_then
          (updateDocsAndExamples_p0 (updateContent W) (github W) (ROOT_PROJECT_PATH W)
             (postProcessCandidates W newCandidates1 (fst versions))
             (map (crate_name W) (fst built)))
          (\<lambda>newCandidates2. returns (out_of_scope_candidates W candidates @ newCandidates2)))))"

definition run_sw :: "('p, 'g, 'm) workspace \<Rightarrow> candidate list \<Rightarrow> candidate list outcome" where
  "run_sw W candidates =
     (if length (in_scope_candidates W candidates) = 0 then returns (out_of_scope_candidates W candidates)
      else
        and_then (new_candidates W (in_scope_candidates W candidates))
          (\<lambda>(built, versions, newCandidates).
        and_then (push_manifest_update W (snd versions) newCandidates) (\<lambda>newCandidates1.
        and_then
          (updateDocsAndExamples_sw (updateContent W) (github W) (ROOT_PROJECT_PATH W)
             (postProcessCandidates W newCandidates1 (fst versions))
             (fst versions))
          (\<lambda>newCandidates2. returns (out_of_scope_candidates W candidates @ newCandidates2)))))"
section \<open>Predicates of the statements\<close>

text \<open>
  \<open>reparses E s\<close>: the plain parser accepts the text \<open>s\<close>.  \<open>checked E c s\<close>: the text
  \<open>s\<close> is the content \<open>c\<close>, unchanged, or the plain parser accepts it.
\<close>

definition reparses :: "externals \<Rightarrow> string \<Rightarrow> bool" where
  "reparses E s = (\<exists>t. parsePlain E s = Some (Inr t))"

definition checked :: "externals \<Rightarrow> string \<Rightarrow> string \<Rightarrow> bool" where
  "checked E c s = (s = c \<or> (\<exists>t. parsePlain E s = Some (Inr t)))"

text \<open>
  \<open>declares_path t depKind name\<close>: the section \<open>depKind\<close> of the table \<open>t\<close> (the manifest, or
  one of its targets) declares the package \<open>name\<close> as a table with an explicit \<open>path\<close>;
  \<open>declares_path_and_version\<close>: with an explicit \<open>path\<close> and an explicit \<open>version\<close>.
\<close>

definition declares_path :: "jv \<Rightarrow> string \<Rightarrow> string \<Rightarrow> bool" where
  "declares_path t depKind name =
     (case js_get (js_get t (KStr depKind)) (KStr name) of
        JTable ty d es \<Rightarrow> (case map_of es ''path'' of Some pv \<Rightarrow> pv \<noteq> JUndefined | None \<Rightarrow> False)
      | _ \<Rightarrow> False)"

definition declares_path_and_version :: "jv \<Rightarrow> string \<Rightarrow> string \<Rightarrow> bool" where
  "declares_path_and_version t depKind name =
     (case js_get (js_get t (KStr depKind)) (KStr name) of
        JTable ty d es \<Rightarrow>
          (case map_of es ''path'' of Some pv \<Rightarrow> pv \<noteq> JUndefined | None \<Rightarrow> False)
          \<and> (case map_of es ''version'' of Some vv \<Rightarrow> vv \<noteq> JUndefined | None \<Rightarrow> False)
      | _ \<Rightarrow> False)"

text \<open>
  A plan of writes: each is a call of \<open>replaceTomlValue\<close> at a path with a value, or a
  \<open>throw\<close>.  \<open>run_writes\<close> performs them in order on a payload, by the loop \<open>for_each\<close>.
\<close>

datatype write_step = Replace "pathkey list" jv | Fail error

definition perform :: "externals \<Rightarrow> write_step \<Rightarrow> string \<Rightarrow> string outcome" where
  "perform E w payload =
     (case w of Replace pth v \<Rightarrow> replaceTomlValue E payload pth v | Fail e \<Rightarrow> throws e)"

definition run_writes :: "externals \<Rightarrow> write_step list \<Rightarrow> string \<Rightarrow> string outcome" where
  "run_writes E ws payload = for_each ws (perform E) payload"

text \<open>
  The writes of the dependency-version updater for one pair of the version map: for every
  dependency kind that declares the package as a table with a \<open>path\<close> and a \<open>version\<close>, the
  new version at \<open>depKind.pkgName.version\<close>, widened to \<open><=version\<close> under
  \<open>dev-dependencies\<close>.
\<close>

definition version_writes :: "jv \<Rightarrow> string list \<Rightarrow> string \<times> string \<Rightarrow> write_step list" where
  "version_writes parsed depKinds pkg =
     map (\<lambda>depKind. Replace [KStr depKind, KStr (fst pkg), KStr ''version'']
                      (JString (if depKind = ''dev-dependencies'' then ''<='' @ snd pkg else snd pkg)))
       (filter (\<lambda>depKind. declares_path_and_version parsed depKind (fst pkg)) depKinds)"

text \<open>
  The writes of the loops over the targets, as lines 87-124 and 176-205 make them: a write
  for every target and kind that declares the package with a \<open>path\<close>.
\<close>

definition target_writes ::
  "jv \<Rightarrow> string list \<Rightarrow> string \<Rightarrow> (string \<Rightarrow> string \<Rightarrow> write_step) \<Rightarrow> write_step list" where
  "target_writes parsed depKinds name w =
     (if truthy (js_get parsed (KStr ''target''))
      then concat (map (\<lambda>targetName.
             concat (map (\<lambda>depKind.
               let tgt = js_get (js_get parsed (KStr ''target'')) (KStr targetName) in
               if tgt = JUndefined \<or> tgt = JNull
               then [Fail (TypeError ''Cannot read properties of undefined'')]
               else if declares_path tgt depKind name then [w targetName depKind] else [])
               depKinds))
             (object_keys (js_get parsed (KStr ''target''))))
      else [])"

definition CargoToml_writes ::
  "jv \<Rightarrow> string \<Rightarrow> (string \<times> string) list \<Rightarrow> string list \<Rightarrow> write_step list" where
  "CargoToml_writes parsed version versionsMap depKinds =
     Replace [KStr ''package'', KStr ''version''] (JString version)
     # concat (map (\<lambda>pkg.
         version_writes parsed depKinds pkg
         @ target_writes parsed depKinds (fst pkg)
             (\<lambda>targetName depKind.
                Replace [KStr ''target'', KStr targetName, KStr depKind, KStr (fst pkg), KStr ''version'']
                  (JString (if depKind = ''dev-dependencies'' then ''<='' @ snd pkg else snd pkg))))
         versionsMap)"

definition CargoTomlRemovePaths_writes :: "jv \<Rightarrow> string list \<Rightarrow> string list \<Rightarrow> write_step list" where
  "CargoTomlRemovePaths_writes parsed allPackages depKinds =
     concat (map (\<lambda>name.
       map (\<lambda>depKind. Replace [KStr depKind, KStr name, KStr ''path''] JNull)
         (filter (\<lambda>depKind. declares_path parsed depKind name) depKinds)
       @ target_writes parsed depKinds name
           (\<lambda>targetName depKind.
              Replace [KStr ''target'', KStr targetName, KStr depKind, KStr name, KStr ''path''] JNull))
       allPackages)"

text \<open>\<open>group_of p updates\<close>: the edits of the list at the path \<open>p\<close>, in the order of the list.\<close>

definition group_of :: "string \<Rightarrow> update list \<Rightarrow> update list" where
  "group_of p updates = filter (\<lambda>u. path u = p) updates"

text \<open>\<open>under dir p\<close>: the path \<open>p\<close> lies in the directory \<open>dir\<close>.\<close>

definition under :: "string \<Rightarrow> string \<Rightarrow> bool" where
  "under dir p = (take (Suc (length dir)) p = dir @ ''/'')"

text \<open>
  \<open>mirror_free c\<close>: the edits of the candidate \<open>c\<close> have distinct paths, none of them in a
  directory that the mirror writes to.  \<open>clean W c\<close>: moreover none of them is at the path of
  the manifest of versions.
\<close>

definition mirror_free :: "candidate \<Rightarrow> bool" where
  "mirror_free c =
     (distinct (map path (pullRequest_updates c))
      \<and> list_all (\<lambda>u. \<not> under ''docs/docusaurus/versioned_docs/version-release'' (path u)
                      \<and> \<not> under ''examples/release'' (path u)) (pullRequest_updates c))"

definition clean :: "('p, 'g, 'm) workspace \<Rightarrow> candidate \<Rightarrow> bool" where
  "clean W c = (mirror_free c \<and> manifestPath W \<notin> set (map path (pullRequest_updates c)))"

section \<open>Example manifests\<close>

text \<open>The texts on which the theorems below run the updaters.\<close>

definition ex_version :: string where
  \<open>ex_version = ''[package]\<newline>version = "1.0.0"\<newline>''\<close>

definition ex_path_first :: string where
  \<open>ex_path_first = ''[package]\<newline>name = "a"\<newline>[dependencies]\<newline>foo = { path = "../foo", version = "2.0.0" }\<newline>''\<close>

definition ex_path_first_spliced :: string where
  \<open>ex_path_first_spliced = ''[package]\<newline>name = "a"\<newline>[dependencies]\<newline>foo = { , version = "2.0.0" }\<newline>''\<close>

definition ex_path_last :: string where
  \<open>ex_path_last = ''[package]\<newline>name = "a"\<newline>[dependencies]\<newline>foo = { version = "2.0.0", path = "../foo" }\<newline>''\<close>

definition ex_path_removed :: string where
  \<open>ex_path_removed = ''[package]\<newline>name = "a"\<newline>[dependencies]\<newline>foo = { version = "2.0.0" }\<newline>''\<close>

definition ex_path_only :: string where
  \<open>ex_path_only = ''[package]\<newline>version = "1.0.0"\<newline>[dependencies]\<newline>foo = { path = "../foo" }\<newline>''\<close>

definition ex_path_only_bumped :: string where
  \<open>ex_path_only_bumped = ''[package]\<newline>version = "1.1.0"\<newline>[dependencies]\<newline>foo = { path = "../foo" }\<newline>''\<close>

definition ex_version_2 :: string where
  \<open>ex_version_2 = ''[package]\<newline>version = "2.0.0"\<newline>''\<close>

definition ex_bump :: string where
  \<open>ex_bump = ''[package]\<newline>version = "1.0.0"\<newline>[dependencies]\<newline>foo = { path = "../foo", version = "1.0.0" }\<newline>[dev-dependencies]\<newline>foo = { path = "../foo", version = "1.0.0" }\<newline>''\<close>

definition ex_bump_parsed :: jv where
  "ex_bump_parsed = JTable TABLE False
     [(''package'', JTable TABLE True [(''version'', JString ''1.0.0'')]),
      (''dependencies'', JTable TABLE True
         [(''foo'', JTable INLINE_TABLE False
                     [(''path'', JString ''../foo''), (''version'', JString ''1.0.0'')])]),
      (''dev-dependencies'', JTable TABLE True
         [(''foo'', JTable INLINE_TABLE False
                     [(''path'', JString ''../foo''), (''version'', JString ''1.0.0'')])])]"

definition ex_bumped :: string where
  \<open>ex_bumped = ''[package]\<newline>version = "1.1.0"\<newline>[dependencies]\<newline>foo = { path = "../foo", version = "2.0.0" }\<newline>[dev-dependencies]\<newline>foo = { path = "../foo", version = "<=2.0.0" }\<newline>''\<close>

definition ex_bumped_dev :: string where
  \<open>ex_bumped_dev = ''[package]\<newline>version = "1.0.0"\<newline>[dependencies]\<newline>foo = { path = "../foo", version = "1.0.0" }\<newline>[dev-dependencies]\<newline>foo = { path = "../foo", version = "<=2.0.0" }\<newline>''\<close>

definition ex_bumped_normal :: string where
  \<open>ex_bumped_normal = ''[package]\<newline>version = "1.0.0"\<newline>[dependencies]\<newline>foo = { path = "../foo", version = "2.0.0" }\<newline>[dev-dependencies]\<newline>foo = { path = "../foo", version = "1.0.0" }\<newline>''\<close>



definition ex_path_first_parsed :: jv where
  "ex_path_first_parsed = JTable TABLE False
     [(''package'', JTable TABLE True [(''name'', JString ''a'')]),
      (''dependencies'', JTable TABLE True
         [(''foo'', JTable INLINE_TABLE False
                     [(''path'', JString ''../foo''), (''version'', JString ''2.0.0'')])])]"

definition ex_target_path_only :: string where
  \<open>ex_target_path_only = ''[package]\<newline>version = "1.0.0"\<newline>[target.wasm32-wasi.dependencies]\<newline>foo = { path = "../foo" }\<newline>''\<close>

definition ex_inline :: string where
  \<open>ex_inline = ''[dependencies]\<newline>foo = { path = "../foo" }\<newline>[features]\<newline>''\<close>




definition ex_target_both :: string where
  \<open>ex_target_both = ''[target.wasm32-wasi.dependencies]\<newline>foo = { path = "../foo", version = "1.0.0" }\<newline>''\<close>

definition ex_target_both_bumped :: string where
  \<open>ex_target_both_bumped = ''[target.wasm32-wasi.dependencies]\<newline>foo = { path = "../foo", version = "2.0.0" }\<newline>''\<close>

definition ex_target_both_parsed :: jv where
  "ex_target_both_parsed = JTable TABLE False
     [(''target'', JTable TABLE False
        [(''wasm32-wasi'', JTable TABLE False
           [(''dependencies'', JTable TABLE True
              [(''foo'', JTable INLINE_TABLE False
                          [(''path'', JString ''../foo''), (''version'', JString ''1.0.0'')])])])])]"

text \<open>
  An example dispatch of \<open>updater.updateContent\<close>: \<open>RemoveFile\<close> yields null, \<open>RawContent\<close>
  yields its own content, and a named updater appends its name to the content it is given,
  so that a call leaves a trace in the result.
\<close>

definition ex_dispatch :: "updater \<Rightarrow> jv \<Rightarrow> jv outcome" where
  "ex_dispatch u c =
     (case u of
        RemoveFile \<Rightarrow> returns JNull
      | RawContent r e \<Rightarrow> returns r
      | Other name e \<Rightarrow>
          (case c of JString s \<Rightarrow> returns (JString (s @ name)) | _ \<Rightarrow> returns (JString name))
      | _ \<Rightarrow> returns c)"

text \<open>
  Example lists of edits: a file with base64 content that a second edit follows, and two
  edits of one path around an edit of another.
\<close>

definition ex_base64_first :: "update list" where
  "ex_base64_first =
     [\<lparr> path = ''logo.png'', createIfMissing = True, cachedFileContents = None,
        updater = RawContent (JString ''AA=='') (Some ''base64'') \<rparr>,
      \<lparr> path = ''logo.png'', createIfMissing = False, cachedFileContents = None,
        updater = Other ''Generic'' None \<rparr>]"

definition ex_updates :: "update list" where
  "ex_updates =
     [\<lparr> path = ''b'', createIfMissing = True, cachedFileContents = None, updater = Other ''x'' None \<rparr>,
      \<lparr> path = ''a'', createIfMissing = False, cachedFileContents = None, updater = Other ''y'' None \<rparr>,
      \<lparr> path = ''b'', createIfMissing = False, cachedFileContents = None, updater = RemoveFile \<rparr>]"

text \<open>
  An example platform: the branch holds \<open>examples/latest/a/Cargo.toml\<close> and the empty file
  \<open>examples/latest/a/.keep\<close>; the release directory holds \<open>a/Cargo.toml\<close>; the listings name
  the directory \<open>a\<close> too.
\<close>

definition ex_platform :: platform where
  \<open>ex_platform =
     \<lparr> findFilesByGlobAndRef = (\<lambda>glob dir.
         if glob = ''**/*'' \<and> dir = ''examples/release'' then returns [''a'', ''a/Cargo.toml'']
         else if glob = ''**/*'' \<and> dir = ''examples/latest''
           then returns [''a'', ''a/Cargo.toml'', ''a/.keep'']
         else if glob = ''**/Cargo.toml'' \<and> dir = ''examples/latest'' then returns [''a/Cargo.toml'']
         else returns []),
       getFileContentsOnBranch = (\<lambda>p.
         if p = ''examples/latest/a/Cargo.toml''
           then returns \<lparr> content_b64 = ''W3BhY2thZ2VdCg=='', parsedContent = ''[package]\<newline>'' \<rparr>
         else if p = ''examples/latest/a/.keep''
           then returns \<lparr> content_b64 = [], parsedContent = [] \<rparr>
         else throws (FileNotFoundError p)),
       isUtf8_base64 = (\<lambda>c. True) \<rparr>\<close>

text \<open>
  An example plugin over that platform, with one package \<open>a\<close>, whose candidate is the first
  of the list.  \<open>ex_candidate\<close> is a root candidate with an edit of the manifest of a crate in
  the release directory; \<open>ex_mirrored_p0\<close> and \<open>ex_mirrored_sw\<close> are the edits that \<open>run\<close>
  returns for it.  \<open>ex_clean_candidate\<close> has no edit in a directory that the mirror writes to;
  \<open>ex_clean_run_p0\<close> and \<open>ex_clean_run_sw\<close> are the edits that \<open>run\<close> returns for it.
\<close>

definition ex_workspace :: "(string, unit, candidate list) workspace" where
  "ex_workspace =
     \<lparr> inScope = (\<lambda>c. True), use_merge = False,
       manifestPath = ''.release-please-manifest.json'', ROOT_PROJECT_PATH = ''.'',
       buildAllPackages = (\<lambda>cs. returns ([''a''], cs)),
       buildGraph = (\<lambda>ps. returns ()),
       packageNamesToUpdate = (\<lambda>g m. [''a'']),
       buildGraphOrder = (\<lambda>g names. names),
       buildUpdatedVersions = (\<lambda>g ps m. returns ([(''a'', ''1.0.1'')], [(''examples/release/a'', ''1.0.1'')])),
       findCandidateForPackage = (\<lambda>p m. case m of [] \<Rightarrow> None | c # cs \<Rightarrow> Some c),
       updateCandidate = (\<lambda>c p vs. c),
       newCandidate = (\<lambda>p vs. \<lparr> candidate_path = p, pullRequest_version = None,
                                  pullRequest_updates = [], config_releaseType = ''rust'' \<rparr>),
       mergePlugin_run = returns,
       postProcessCandidates = (\<lambda>cs vs. cs),
       crate_name = (\<lambda>p. p),
       github = ex_platform,
       updateContent = ex_dispatch \<rparr>"

definition ex_candidate :: candidate where
  "ex_candidate =
     \<lparr> candidate_path = ''.'', pullRequest_version = Some ''1.0.1'',
       pullRequest_updates =
         [\<lparr> path = ''examples/release/a/Cargo.toml'', createIfMissing = False,
            cachedFileContents = None, updater = Other ''CargoToml'' None \<rparr>],
       config_releaseType = ''rust'' \<rparr>"

definition ex_mirrored_p0 :: "update list" where
  \<open>ex_mirrored_p0 =
     [\<lparr> path = ''examples/release/a/Cargo.toml'', createIfMissing = False, cachedFileContents = None,
        updater = CompositeUpdater [Other ''CargoToml'' None, CargoTomlRemovePaths [''a'']] None \<rparr>,
      \<lparr> path = ''.release-please-manifest.json'', createIfMissing = False, cachedFileContents = None,
        updater = ReleasePleaseManifest (Some ''1.0.1'') [(''examples/release/a'', ''1.0.1'')] \<rparr>,
      \<lparr> path = ''examples/release/a/Cargo.toml'', createIfMissing = True, cachedFileContents = None,
        updater = RawContent (JString ''[package]\<newline>'') (Some ''utf-8'') \<rparr>,
      \<lparr> path = ''examples/release/a/.keep'', createIfMissing = True, cachedFileContents = None,
        updater = RemoveFile \<rparr>,
      \<lparr> path = ''examples/release/Cargo.toml'', createIfMissing = True, cachedFileContents = None,
        updater = CargoWorkspaceMembers [''a''] \<rparr>]\<close>

definition ex_mirrored_sw :: "update list" where
  \<open>ex_mirrored_sw =
     [\<lparr> path = ''examples/release/a/Cargo.toml'', createIfMissing = False, cachedFileContents = None,
        updater = CompositeUpdater
                    [Other ''CargoToml'' None,
                     CargoTomlRemovePaths_versions (Some ''1.0.1'') [(''a'', ''1.0.1'')]] None \<rparr>,
      \<lparr> path = ''.release-please-manifest.json'', createIfMissing = False, cachedFileContents = None,
        updater = ReleasePleaseManifest (Some ''1.0.1'') [(''examples/release/a'', ''1.0.1'')] \<rparr>,
      \<lparr> path = ''examples/release/a'', createIfMissing = True, cachedFileContents = None,
        updater = RemoveFile \<rparr>,
      \<lparr> path = ''examples/release/a/Cargo.toml'', createIfMissing = True, cachedFileContents = None,
        updater = RawContent (JString ''[package]\<newline>'') None \<rparr>,
      \<lparr> path = ''examples/release/a/.keep'', createIfMissing = True, cachedFileContents = None,
        updater = RemoveFile \<rparr>,
      \<lparr> path = ''examples/release/Cargo.toml'', createIfMissing = True, cachedFileContents = None,
        updater = CargoWorkspaceMembers [''a''] \<rparr>]\<close>

definition ex_clean_candidate :: candidate where
  "ex_clean_candidate =
     \<lparr> candidate_path = ''.'', pullRequest_version = Some ''1.0.1'',
       pullRequest_updates =
         [\<lparr> path = ''a/Cargo.toml'', createIfMissing = False,
            cachedFileContents = None, updater = Other ''CargoToml'' None \<rparr>],
       config_releaseType = ''rust'' \<rparr>"

definition ex_clean_run_p0 :: "update list" where
  \<open>ex_clean_run_p0 =
     [\<lparr> path = ''a/Cargo.toml'', createIfMissing = False, cachedFileContents = None,
        updater = Other ''CargoToml'' None \<rparr>,
      \<lparr> path = ''.release-please-manifest.json'', createIfMissing = False, cachedFileContents = None,
        updater = ReleasePleaseManifest (Some ''1.0.1'') [(''examples/release/a'', ''1.0.1'')] \<rparr>,
      \<lparr> path = ''examples/release/a/Cargo.toml'', createIfMissing = True, cachedFileContents = None,
        updater = CompositeUpdater
                    [RawContent (JString ''[package]\<newline>'') (Some ''utf-8''),
                     CargoTomlRemovePaths [''a'']] None \<rparr>,
      \<lparr> path = ''examples/release/a/.keep'', createIfMissing = True, cachedFileContents = None,
        updater = RemoveFile \<rparr>,
      \<lparr> path = ''examples/release/Cargo.toml'', createIfMissing = True, cachedFileContents = None,
        updater = CargoWorkspaceMembers [''a''] \<rparr>]\<close>

definition ex_clean_run_sw :: "update list" where
  \<open>ex_clean_run_sw =
     [\<lparr> path = ''a/Cargo.toml'', createIfMissing = False, cachedFileContents = None,
        updater = Other ''CargoToml'' None \<rparr>,
      \<lparr> path = ''.release-please-manifest.json'', createIfMissing = False, cachedFileContents = None,
        updater = ReleasePleaseManifest (Some ''1.0.1'') [(''examples/release/a'', ''1.0.1'')] \<rparr>,
      \<lparr> path = ''examples/release/a'', createIfMissing = True, cachedFileContents = None,
        updater = RemoveFile \<rparr>,
      \<lparr> path = ''examples/release/a/Cargo.toml'', createIfMissing = True, cachedFileContents = None,
        updater = CompositeUpdater
                    [RawContent (JString ''[package]\<newline>'') None,
                     CargoTomlRemovePaths_versions (Some ''1.0.1'') [(''a'', ''1.0.1'')]] None \<rparr>,
      \<lparr> path = ''examples/release/a/.keep'', createIfMissing = True, cachedFileContents = None,
        updater = RemoveFile \<rparr>,
      \<lparr> path = ''examples/release/Cargo.toml'', createIfMissing = True, cachedFileContents = None,
        updater = CargoWorkspaceMembers [''a''] \<rparr>]\<close>

section \<open>Outcomes and loops\<close>

lemma and_then_Inr:
  "and_then m f = Some (Inr y) \<Longrightarrow> \<exists>x. m = Some (Inr x) \<and> f x = Some (Inr y)"
  by (auto simp: and_then_def split: option.splits sum.splits)

lemma and_then_simps [simp]:
  "and_then None f = None"
  "and_then (Some (Inl e)) f = Some (Inl e)"
  "and_then (Some (Inr x)) f = f x"
  "and_then (returns x) f = f x"
  "and_then (throws e) f = throws e"
  by (simp_all add: and_then_def returns_def throws_def)

lemma returns_eq [simp]: "(returns x = Some (Inr y)) = (x = y)" "returns x \<noteq> Some (Inl e)" "returns x \<noteq> None"
  by (simp_all add: returns_def)

lemma throws_eq [simp]: "(throws e = Some (Inl e')) = (e = e')" "throws e \<noteq> Some (Inr x)" "throws e \<noteq> None"
  by (simp_all add: throws_def)

lemma for_each_invariant:
  assumes step: "\<And>x s s'. P s \<Longrightarrow> body x s = Some (Inr s') \<Longrightarrow> P s'"
  shows "P s \<Longrightarrow> for_each xs body s = Some (Inr s') \<Longrightarrow> P s'"
proof (induction xs arbitrary: s)
  case Nil
  then show ?case by simp
next
  case (Cons x xs)
  from Cons.prems(2) obtain s1 where s1: "body x s = Some (Inr s1)" "for_each xs body s1 = Some (Inr s')"
    by (auto dest: and_then_Inr)
  from step [OF Cons.prems(1) s1(1)] have "P s1" .
  from Cons.IH [OF this s1(2)] show ?case .
qed

lemma for_each_append:
  "for_each (xs @ ys) body s = and_then (for_each xs body s) (for_each ys body)"
proof (induction xs arbitrary: s)
  case Nil
  then show ?case by simp
next
  case (Cons x xs)
  then show ?case by (cases "body x s") (auto simp: and_then_def split: sum.splits)
qed

lemma for_each_first_failure:
  "for_each pre body s = Some (Inr s1) \<Longrightarrow> body x s1 = Some (Inl err) \<Longrightarrow>
     for_each (pre @ x # post) body s = Some (Inl err)"
  by (simp add: for_each_append)

lemma and_then_ext: "(\<And>x. f x = g x) \<Longrightarrow> and_then m f = and_then m g"
  by (simp add: and_then_def split: option.splits sum.splits)

lemma for_each_filter:
  "for_each xs (\<lambda>x p. if g x then f x p else returns p) s = for_each (filter g xs) f s"
  by (induction xs arbitrary: s) (auto intro: and_then_ext)

lemma for_each_map: "for_each (map h xs) body s = for_each xs (\<lambda>x. body (h x)) s"
  by (induction xs arbitrary: s) (auto intro: and_then_ext)

lemma for_each_cong: "(\<And>x s. f x s = g x s) \<Longrightarrow> for_each xs f s = for_each xs g s"
  by (induction xs arbitrary: s) (auto intro: and_then_ext)

section \<open>Property reads, and the tests of the updaters\<close>

lemma typeof_undefined: "(typeof v = TUndefined) = (v = JUndefined)"
  by (cases v rule: typeof.cases) simp_all

lemma js_get_table_truthy: "js_get v k = JTable ty d es \<Longrightarrow> truthy v"
  by (cases v rule: truthy.cases)
     (auto simp: js_get_def method_of_def split: option.splits if_splits builtin.splits)

lemma not_inherited:
  "k = ''path'' \<or> k = ''version'' \<Longrightarrow> own_get (JBuiltin b) k = None"
  by (cases b)
     (auto simp: Object_prototype_keys_def Array_prototype_methods_def String_prototype_methods_def
        Number_prototype_methods_def Boolean_prototype_methods_def)

lemma not_index: "k = ''path'' \<or> k = ''version'' \<Longrightarrow> array_index_of k = None"
  by (auto simp: array_index_of_def)

lemma prototype_of_cases: "prototype_of v = JNull \<or> (\<exists>b. prototype_of v = JBuiltin b)"
  by (cases v rule: prototype_of.cases) simp_all

lemma own_get_JNull: "own_get JNull k = None"
  by simp

lemma not_inherited_proto:
  assumes "k = ''path'' \<or> k = ''version''"
  shows "own_get (prototype_of v) k = None"
  using prototype_of_cases [of v] not_inherited [OF assms] own_get_JNull by metis

lemma js_get_field:
  assumes "k = ''path'' \<or> k = ''version''"
  shows "js_get dep (KStr k) = (case dep of JTable ty d es \<Rightarrow> (case map_of es k of Some x \<Rightarrow> x | None \<Rightarrow> JUndefined)
                                  | _ \<Rightarrow> JUndefined)"
proof -
  note p = not_inherited_proto [OF assms]
  have n: "k \<noteq> ''__proto__''" "k \<noteq> ''length''" "k \<noteq> ''key''" "k \<noteq> ''value''"
    "k \<noteq> ''prev_comma''" "k \<noteq> ''assign_start''" "k \<noteq> ''start''" "k \<noteq> ''end''"
    using assms by auto
  have o: "own_get dep k = (case dep of JTable ty d es \<Rightarrow> map_of es k | _ \<Rightarrow> None)"
  proof (cases dep)
    case (JBuiltin b)
    then show ?thesis using not_inherited [OF assms] by (simp del: own_get.simps)
  qed (simp_all add: n not_index [OF assms])
  show ?thesis
    unfolding js_get_def key_string.simps o p
    by (cases dep) (simp_all add: n split: option.splits)
qed

lemma guard_path:
  "(truthy (js_get t (KStr depKind)) \<and> truthy (js_get (js_get t (KStr depKind)) (KStr name))
    \<and> \<not> (typeof (js_get (js_get t (KStr depKind)) (KStr name)) = TString
          \<or> typeof (js_get (js_get (js_get t (KStr depKind)) (KStr name)) (KStr ''path'')) = TUndefined))
   = declares_path t depKind name"
proof (cases "js_get (js_get t (KStr depKind)) (KStr name)")
  case (JTable ty d es)
  then show ?thesis
    using js_get_table_truthy [OF JTable]
    by (auto simp: declares_path_def js_get_field typeof_undefined split: option.splits)
qed (auto simp: declares_path_def js_get_field)

lemma guard_path_and_version:
  "(truthy (js_get t (KStr depKind)) \<and> truthy (js_get (js_get t (KStr depKind)) (KStr name))
    \<and> \<not> (typeof (js_get (js_get t (KStr depKind)) (KStr name)) = TString
          \<or> typeof (js_get (js_get (js_get t (KStr depKind)) (KStr name)) (KStr ''path'')) = TUndefined)
    \<and> typeof (js_get (js_get (js_get t (KStr depKind)) (KStr name)) (KStr ''version'')) \<noteq> TUndefined)
   = declares_path_and_version t depKind name"
proof (cases "js_get (js_get t (KStr depKind)) (KStr name)")
  case (JTable ty d es)
  then show ?thesis
    using js_get_table_truthy [OF JTable]
    by (auto simp: declares_path_and_version_def js_get_field typeof_undefined split: option.splits)
qed (auto simp: declares_path_and_version_def js_get_field)

lemma bump_dependency_eq:
  "bump_dependency E parsed pkgName pkgVersion depKind payload =
     (if declares_path_and_version parsed depKind pkgName
      then replaceTomlValue E payload [KStr depKind, KStr pkgName, KStr ''version'']
             (JString (if depKind = ''dev-dependencies'' then ''<='' @ pkgVersion else pkgVersion))
      else returns payload)"
  unfolding guard_path_and_version [symmetric]
  by (auto simp: bump_dependency_def Let_def updatedVersion_def)

lemma remove_path_eq:
  "remove_path E parsed name depKind payload =
     (if declares_path parsed depKind name
      then replaceTomlValue E payload [KStr depKind, KStr name, KStr ''path''] JNull
      else returns payload)"
  unfolding guard_path [symmetric]
  by (auto simp: remove_path_def Let_def)

lemma bump_target_dependency_eq:
  "bump_target_dependency E parsed pkgName pkgVersion targetName depKind payload =
     (let tgt = js_get (js_get parsed (KStr ''target'')) (KStr targetName) in
      if tgt = JUndefined \<or> tgt = JNull then throws (TypeError ''Cannot read properties of undefined'')
      else if declares_path tgt depKind pkgName
      then replaceTomlValue E payload
             [KStr ''target'', KStr targetName, KStr depKind, KStr pkgName, KStr ''version'']
             (JString (if depKind = ''dev-dependencies'' then ''<='' @ pkgVersion else pkgVersion))
      else returns payload)"
  unfolding guard_path [symmetric]
  by (auto simp: bump_target_dependency_def Let_def updatedVersion_def)

lemma remove_target_path_eq:
  "remove_target_path E parsed name targetName depKind payload =
     (let tgt = js_get (js_get parsed (KStr ''target'')) (KStr targetName) in
      if tgt = JUndefined \<or> tgt = JNull then throws (TypeError ''Cannot read properties of undefined'')
      else if declares_path tgt depKind name
      then replaceTomlValue E payload
             [KStr ''target'', KStr targetName, KStr depKind, KStr name, KStr ''path''] JNull
      else returns payload)"
  unfolding guard_path [symmetric]
  by (auto simp: remove_target_path_def Let_def)

section \<open>The updaters as plans of writes\<close>

lemma run_writes_append:
  "run_writes E (a @ b) s = and_then (run_writes E a s) (run_writes E b)"
  unfolding run_writes_def by (rule for_each_append)

lemma run_writes_Nil [simp]: "run_writes E [] s = returns s"
  by (simp add: run_writes_def)

lemma for_each_run_writes:
  "for_each xs (\<lambda>x. run_writes E (f x)) s = run_writes E (concat (map f xs)) s"
proof (induction xs arbitrary: s)
  case Nil
  then show ?case by simp
next
  case (Cons x xs)
  show ?case
    by (simp add: run_writes_append) (rule and_then_ext, rule Cons.IH)
qed

lemma run_writes_single [simp]:
  "run_writes E [Replace pth v] s = replaceTomlValue E s pth v"
  "run_writes E [Fail e] s = throws e"
  by (simp_all add: run_writes_def perform_def and_then_def returns_def throws_def
        split: option.splits sum.splits)

lemma run_writes_Cons:
  "run_writes E (w # ws) s = and_then (perform E w s) (run_writes E ws)"
  unfolding run_writes_def by simp

lemma bump_dependency_loop:
  "for_each depKinds (bump_dependency E parsed (fst pkg) (snd pkg)) p
     = run_writes E (version_writes parsed depKinds pkg) p"
proof -
  have "for_each depKinds (bump_dependency E parsed (fst pkg) (snd pkg)) p
      = for_each depKinds (\<lambda>k p. if declares_path_and_version parsed k (fst pkg)
           then perform E (Replace [KStr k, KStr (fst pkg), KStr ''version'']
                  (JString (if k = ''dev-dependencies'' then ''<='' @ snd pkg else snd pkg))) p
           else returns p) p"
    by (rule for_each_cong) (simp add: bump_dependency_eq perform_def)
  also have "\<dots> = run_writes E (version_writes parsed depKinds pkg) p"
    by (simp add: for_each_filter version_writes_def run_writes_def for_each_map)
  finally show ?thesis .
qed

lemma remove_path_loop:
  "for_each depKinds (remove_path E parsed name) p
     = run_writes E (map (\<lambda>depKind. Replace [KStr depKind, KStr name, KStr ''path''] JNull)
         (filter (\<lambda>depKind. declares_path parsed depKind name) depKinds)) p"
proof -
  have "for_each depKinds (remove_path E parsed name) p
      = for_each depKinds (\<lambda>k p. if declares_path parsed k name
           then perform E (Replace [KStr k, KStr name, KStr ''path''] JNull) p
           else returns p) p"
    by (rule for_each_cong) (simp add: remove_path_eq perform_def)
  also have "\<dots> = run_writes E (map (\<lambda>depKind. Replace [KStr depKind, KStr name, KStr ''path''] JNull)
         (filter (\<lambda>depKind. declares_path parsed depKind name) depKinds)) p"
    by (simp add: for_each_filter run_writes_def for_each_map)
  finally show ?thesis .
qed

lemma bump_targets_eq:
  "bump_targets E parsed pkg p
     = run_writes E (target_writes parsed (DEP_KINDS E) (fst pkg)
         (\<lambda>targetName depKind.
            Replace [KStr ''target'', KStr targetName, KStr depKind, KStr (fst pkg), KStr ''version'']
              (JString (if depKind = ''dev-dependencies'' then ''<='' @ snd pkg else snd pkg)))) p"
proof (cases "truthy (js_get parsed (KStr ''target''))")
  case False
  then show ?thesis by (simp add: bump_targets_def target_writes_def)
next
  case True
  have body: "bump_target_dependency E parsed (fst pkg) (snd pkg) t k s
      = run_writes E (let tgt = js_get (js_get parsed (KStr ''target'')) (KStr t) in
               if tgt = JUndefined \<or> tgt = JNull
               then [Fail (TypeError ''Cannot read properties of undefined'')]
               else if declares_path tgt k (fst pkg)
               then [Replace [KStr ''target'', KStr t, KStr k, KStr (fst pkg), KStr ''version'']
                       (JString (if k = ''dev-dependencies'' then ''<='' @ snd pkg else snd pkg))]
               else []) s" for t k s
    by (simp add: bump_target_dependency_eq Let_def)
  have inner: "for_each (DEP_KINDS E) (bump_target_dependency E parsed (fst pkg) (snd pkg) t) s
      = run_writes E (concat (map (\<lambda>k. let tgt = js_get (js_get parsed (KStr ''target'')) (KStr t) in
               if tgt = JUndefined \<or> tgt = JNull
               then [Fail (TypeError ''Cannot read properties of undefined'')]
               else if declares_path tgt k (fst pkg)
               then [Replace [KStr ''target'', KStr t, KStr k, KStr (fst pkg), KStr ''version'']
                       (JString (if k = ''dev-dependencies'' then ''<='' @ snd pkg else snd pkg))]
               else []) (DEP_KINDS E))) s" for t s
    unfolding for_each_run_writes [symmetric] by (rule for_each_cong) (rule body)
  have "for_each (object_keys (js_get parsed (KStr ''target'')))
          (\<lambda>t. for_each (DEP_KINDS E) (bump_target_dependency E parsed (fst pkg) (snd pkg) t)) p
      = for_each (object_keys (js_get parsed (KStr ''target'')))
          (\<lambda>t. run_writes E (concat (map (\<lambda>k. let tgt = js_get (js_get parsed (KStr ''target'')) (KStr t) in
               if tgt = JUndefined \<or> tgt = JNull
               then [Fail (TypeError ''Cannot read properties of undefined'')]
               else if declares_path tgt k (fst pkg)
               then [Replace [KStr ''target'', KStr t, KStr k, KStr (fst pkg), KStr ''version'']
                       (JString (if k = ''dev-dependencies'' then ''<='' @ snd pkg else snd pkg))]
               else []) (DEP_KINDS E)))) p"
    by (rule for_each_cong) (rule inner)
  then show ?thesis
    by (simp add: bump_targets_def target_writes_def True for_each_run_writes)
qed

lemma remove_target_paths_eq:
  "remove_target_paths E parsed name p
     = run_writes E (target_writes parsed (DEP_KINDS E) name
         (\<lambda>targetName depKind.
            Replace [KStr ''target'', KStr targetName, KStr depKind, KStr name, KStr ''path''] JNull)) p"
proof (cases "truthy (js_get parsed (KStr ''target''))")
  case False
  then show ?thesis by (simp add: remove_target_paths_def target_writes_def)
next
  case True
  have body: "remove_target_path E parsed name t k s
      = run_writes E (let tgt = js_get (js_get parsed (KStr ''target'')) (KStr t) in
               if tgt = JUndefined \<or> tgt = JNull
               then [Fail (TypeError ''Cannot read properties of undefined'')]
               else if declares_path tgt k name
               then [Replace [KStr ''target'', KStr t, KStr k, KStr name, KStr ''path''] JNull]
               else []) s" for t k s
    by (simp add: remove_target_path_eq Let_def)
  have inner: "for_each (DEP_KINDS E) (remove_target_path E parsed name t) s
      = run_writes E (concat (map (\<lambda>k. let tgt = js_get (js_get parsed (KStr ''target'')) (KStr t) in
               if tgt = JUndefined \<or> tgt = JNull
               then [Fail (TypeError ''Cannot read properties of undefined'')]
               else if declares_path tgt k name
               then [Replace [KStr ''target'', KStr t, KStr k, KStr name, KStr ''path''] JNull]
               else []) (DEP_KINDS E))) s" for t s
    unfolding for_each_run_writes [symmetric] by (rule for_each_cong) (rule body)
  have "for_each (object_keys (js_get parsed (KStr ''target'')))
          (\<lambda>t. for_each (DEP_KINDS E) (remove_target_path E parsed name t)) p
      = for_each (object_keys (js_get parsed (KStr ''target'')))
          (\<lambda>t. run_writes E (concat (map (\<lambda>k. let tgt = js_get (js_get parsed (KStr ''target'')) (KStr t) in
               if tgt = JUndefined \<or> tgt = JNull
               then [Fail (TypeError ''Cannot read properties of undefined'')]
               else if declares_path tgt k name
               then [Replace [KStr ''target'', KStr t, KStr k, KStr name, KStr ''path''] JNull]
               else []) (DEP_KINDS E)))) p"
    by (rule for_each_cong) (rule inner)
  then show ?thesis
    by (simp add: remove_target_paths_def target_writes_def True for_each_run_writes)
qed

lemma bump_package_eq:
  "bump_package E parsed pkg p
     = run_writes E (version_writes parsed (DEP_KINDS E) pkg
         @ target_writes parsed (DEP_KINDS E) (fst pkg)
             (\<lambda>targetName depKind.
                Replace [KStr ''target'', KStr targetName, KStr depKind, KStr (fst pkg), KStr ''version'']
                  (JString (if depKind = ''dev-dependencies'' then ''<='' @ snd pkg else snd pkg)))) p"
  unfolding bump_package_def run_writes_append bump_dependency_loop
  by (rule and_then_ext) (rule bump_targets_eq)

lemma remove_package_paths_eq:
  "remove_package_paths E parsed name p
     = run_writes E (map (\<lambda>depKind. Replace [KStr depKind, KStr name, KStr ''path''] JNull)
         (filter (\<lambda>depKind. declares_path parsed depKind name) (DEP_KINDS E))
       @ target_writes parsed (DEP_KINDS E) name
           (\<lambda>targetName depKind.
              Replace [KStr ''target'', KStr targetName, KStr depKind, KStr name, KStr ''path''] JNull)) p"
  unfolding remove_package_paths_def run_writes_append remove_path_loop
  by (rule and_then_ext) (rule remove_target_paths_eq)

lemma CargoToml_updateContent_eq:
  assumes "parseCargoManifest E content = Some (Inr parsed)"
    and "truthy (js_get parsed (KStr ''package''))"
  shows "CargoToml_updateContent E version (Some vm) content
     = run_writes E (CargoToml_writes parsed version vm (DEP_KINDS E)) content"
proof -
  have "for_each vm (bump_package E parsed) s = run_writes E (concat (map (\<lambda>pkg.
         version_writes parsed (DEP_KINDS E) pkg
         @ target_writes parsed (DEP_KINDS E) (fst pkg)
             (\<lambda>targetName depKind.
                Replace [KStr ''target'', KStr targetName, KStr depKind, KStr (fst pkg), KStr ''version'']
                  (JString (if depKind = ''dev-dependencies'' then ''<='' @ snd pkg else snd pkg))))
         vm)) s" for s
    unfolding for_each_run_writes [symmetric] by (rule for_each_cong) (rule bump_package_eq)
  then have "for_each vm (bump_package E parsed) = run_writes E (concat (map (\<lambda>pkg.
         version_writes parsed (DEP_KINDS E) pkg
         @ target_writes parsed (DEP_KINDS E) (fst pkg)
             (\<lambda>targetName depKind.
                Replace [KStr ''target'', KStr targetName, KStr depKind, KStr (fst pkg), KStr ''version'']
                  (JString (if depKind = ''dev-dependencies'' then ''<='' @ snd pkg else snd pkg))))
         vm))"
    by (intro ext)
  then show ?thesis
    using assms
    by (simp add: CargoToml_updateContent_def CargoToml_writes_def run_writes_Cons perform_def)
qed

lemma CargoTomlRemovePaths_updateContent_eq:
  assumes "parseCargoManifest E content = Some (Inr parsed)"
    and "truthy (js_get parsed (KStr ''package''))"
  shows "CargoTomlRemovePaths_updateContent E allPackages content
     = run_writes E (CargoTomlRemovePaths_writes parsed allPackages (DEP_KINDS E)) content"
proof -
  have "for_each allPackages (remove_package_paths E parsed) s
     = run_writes E (CargoTomlRemovePaths_writes parsed allPackages (DEP_KINDS E)) s" for s
    unfolding CargoTomlRemovePaths_writes_def for_each_run_writes [symmetric]
    by (rule for_each_cong) (rule remove_package_paths_eq)
  then show ?thesis
    using assms by (simp add: CargoTomlRemovePaths_updateContent_def)
qed

lemma run_writes_first_failure:
  "run_writes E pre s = Some (Inr s1) \<Longrightarrow> perform E w s1 = Some (Inl err) \<Longrightarrow>
     run_writes E (pre @ w # post) s = Some (Inl err)"
  unfolding run_writes_def by (rule for_each_first_failure)

lemma replaceTomlValue_reparses:
  "replaceTomlValue E input pth newValue = Some (Inr out) \<Longrightarrow> \<exists>t. parsePlain E out = Some (Inr t)"
  by (auto simp: replaceTomlValue_def and_then_def split: option.splits sum.splits if_splits)

lemma run_writes_checked:
  assumes "run_writes E ws s = Some (Inr out)" "checked E c s"
  shows "checked E c out"
proof (rule for_each_invariant [where P = "checked E c" and body = "perform E", OF _ assms(2)])
  show "for_each ws (perform E) s = Some (Inr out)" using assms(1) by (simp add: run_writes_def)
next
  fix x s s' assume "checked E c s" "perform E x s = Some (Inr s')"
  then show "checked E c s'"
    by (cases x) (auto simp: perform_def checked_def dest: replaceTomlValue_reparses)
qed

lemma run_writes_reparses:
  assumes "run_writes E ws s = Some (Inr out)" "reparses E s"
  shows "reparses E out"
proof (rule for_each_invariant [where P = "reparses E" and body = "perform E", OF _ assms(2)])
  show "for_each ws (perform E) s = Some (Inr out)" using assms(1) by (simp add: run_writes_def)
next
  fix x s s' assume "reparses E s" "perform E x s = Some (Inr s')"
  then show "reparses E s'"
    by (cases x) (auto simp: perform_def reparses_def dest: replaceTomlValue_reparses)
qed

lemma CargoToml_reparses:
  assumes "CargoToml_updateContent E version versionsMap c = Some (Inr out)"
  shows "\<exists>t. parsePlain E out = Some (Inr t)"
proof -
  from assms obtain vm parsed payload where
    r: "replaceTomlValue E c [KStr ''package'', KStr ''version''] (JString version) = Some (Inr payload)"
    and f: "for_each vm (bump_package E parsed) payload = Some (Inr out)"
    unfolding CargoToml_updateContent_def
    by (auto dest!: and_then_Inr split: if_splits option.splits)
  from replaceTomlValue_reparses [OF r] have p: "reparses E payload" by (simp add: reparses_def)
  have "reparses E out"
  proof (rule for_each_invariant [where P = "reparses E" and body = "bump_package E parsed", OF _ p f])
    fix x s s' assume "reparses E s" "bump_package E parsed x s = Some (Inr s')"
    then show "reparses E s'" unfolding bump_package_eq by (rule run_writes_reparses [rotated])
  qed
  then show ?thesis by (simp add: reparses_def)
qed

lemma CargoTomlRemovePaths_checked:
  assumes "CargoTomlRemovePaths_updateContent E allPackages c = Some (Inr out)"
  shows "out = c \<or> (\<exists>t. parsePlain E out = Some (Inr t))"
proof -
  from assms obtain parsed where
    f: "for_each allPackages (remove_package_paths E parsed) c = Some (Inr out)"
    unfolding CargoTomlRemovePaths_updateContent_def
    by (auto dest!: and_then_Inr split: if_splits)
  have c: "checked E c c" by (simp add: checked_def)
  have "checked E c out"
  proof (rule for_each_invariant [where P = "checked E c" and body = "remove_package_paths E parsed", OF _ c f])
    fix x s s' assume "checked E c s" "remove_package_paths E parsed x s = Some (Inr s')"
    then show "checked E c s'" unfolding remove_package_paths_eq by (rule run_writes_checked [rotated])
  qed
  then show ?thesis by (simp add: checked_def)
qed

section \<open>The updaters on the example manifests\<close>

lemma eval_replace_version:
  \<open>replaceTomlValue modelled ex_version [KStr ''package'', KStr ''version''] (JString ''2.0.0'')
     = Some (Inr ''[package]\<newline>version = "2.0.0"\<newline>'')\<close>
  by code_simp

lemma eval_replace_version2:
  "replaceTomlValue modelled ex_version [KStr ''package'', KStr ''version''] (JString ''2.0.0'')
     = Some (Inr ex_version_2)"
  using eval_replace_version by (simp add: ex_version_2_def)

lemma eval_splice_path_first:
  "spliced_text modelled ex_path_first [KStr ''dependencies'', KStr ''foo'', KStr ''path''] JNull
     = Some (Inr ex_path_first_spliced)"
  by code_simp

lemma eval_reparse_path_first:
  "parsePlain modelled ex_path_first_spliced = Some (Inl (TomlError ''Empty bare keys are not allowed''))"
  by code_simp

lemma eval_replace_path_first:
  "replaceTomlValue modelled ex_path_first [KStr ''dependencies'', KStr ''foo'', KStr ''path''] JNull
       = Some (Inl (InvalidAfterReplace (TomlError ''Empty bare keys are not allowed'')))"
  using eval_splice_path_first eval_reparse_path_first by (simp add: replaceTomlValue_def)

lemma eval_remove_path_first:
  "CargoTomlRemovePaths_updateContent modelled [''foo''] ex_path_first
     = Some (Inl (InvalidAfterReplace (TomlError ''Empty bare keys are not allowed'')))"
  by code_simp

lemma eval_remove_path_last:
  "CargoTomlRemovePaths_updateContent modelled [''foo''] ex_path_last = Some (Inr ex_path_removed)"
  by code_simp

lemma eval_parse_bump: "parseCargoManifest modelled ex_bump = Some (Inr ex_bump_parsed)"
  by code_simp

lemma eval_parse_path_first: "parseCargoManifest modelled ex_path_first = Some (Inr ex_path_first_parsed)"
  by code_simp

lemma eval_truthy_package_bump: "truthy (js_get ex_bump_parsed (KStr ''package''))"
  by code_simp

lemma eval_truthy_package_path_first: "truthy (js_get ex_path_first_parsed (KStr ''package''))"
  by code_simp

lemma eval_writes_path_first:
  "CargoTomlRemovePaths_writes ex_path_first_parsed [''foo''] (DEP_KINDS modelled)
     = [Replace [KStr ''dependencies'', KStr ''foo'', KStr ''path''] JNull]"
  by code_simp


lemma eval_bump_both:
  "CargoToml_updateContent modelled ''1.1.0'' (Some [(''foo'', ''2.0.0'')]) ex_bump = Some (Inr ex_bumped)"
  by code_simp

lemma ex_path_removed_neq: "ex_path_removed \<noteq> ex_path_last"
  by (simp add: ex_path_removed_def ex_path_last_def)




lemma eval_bump_path_only:
  "CargoToml_updateContent modelled ''1.1.0'' (Some [(''foo'', ''2.0.0'')]) ex_path_only
     = Some (Inr ex_path_only_bumped)"
  by code_simp

lemma eval_bump_target_path_only:
  "CargoToml_updateContent modelled ''1.1.0'' (Some [(''foo'', ''2.0.0'')]) ex_target_path_only
     = Some (Inl (PathNotFound [KStr ''target'', KStr ''wasm32-wasi'', KStr ''dependencies'',
                                KStr ''foo'', KStr ''version'']))"
  by code_simp

lemma eval_replace_empty:
  \<open>replaceTomlValue modelled ex_version [KStr ''package'', KStr ''version''] (JString [])
     = Some (Inr ''[package]\<newline>\<newline>'')\<close>
  by code_simp

lemma eval_stringify_empty: \<open>stringifyValue modelled (JString []) = Some (Inr ''""'')\<close>
  by code_simp

lemma eval_replace_inline:
  "replaceTomlValue modelled ex_inline [KStr ''dependencies'', KStr ''foo''] (JString ''1.0.0'')
     = Some (Inl (InvalidAfterReplace (TomlError
         ''Unexpected character, expected only whitespace or comments till end of line'')))"
  by code_simp

lemma eval_parse_inline:
  "parseTagged modelled ex_inline = Some (Inr (JTable TABLE False
         [(''dependencies'', JTable TABLE True
            [(''foo'', JTagged None 15 21 41
               (JTable INLINE_TABLE False [(''path'', JTagged None 23 30 38 (JString ''../foo''))]))]),
          (''features'', JTable TABLE True [])]))"
  by code_simp


section \<open>C1: the self-check of the path patcher\<close>

text \<open>
  C1.  Whatever the parsers and the stringifier do: a text that \<open>replaceTomlValue\<close> returns
  has been parsed again with the plain parser, successfully; when the text after the splice
  does not parse, \<open>replaceTomlValue\<close> fails with the error of lines 429-431, which wraps
  the parser's.  No caller catches it.  A run of writes stops with the error of the first
  \<open>replaceTomlValue\<close> that fails; on a manifest with a \<open>package\<close> table
  \<open>CargoToml.updateContent\<close> is the run of the writes \<open>CargoToml_writes\<close> and
  \<open>CargoTomlRemovePaths.updateContent\<close> the run of \<open>CargoTomlRemovePaths_writes\<close>, and
  \<open>CargoWorkspaceMembers.updateContent\<close> is its one write; so that a text which
  \<open>CargoToml.updateContent\<close> returns has passed the check, and one that
  \<open>CargoTomlRemovePaths.updateContent\<close> returns has passed it or is the content it was
  given.
\<close>

theorem replaceTomlValue_self_check:
  "(replaceTomlValue E input pth newValue = Some (Inr out) \<longrightarrow> (\<exists>t. parsePlain E out = Some (Inr t)))
   \<and> (spliced_text E input pth newValue = Some (Inr spliced) \<and> parsePlain E spliced = Some (Inl e)
        \<longrightarrow> replaceTomlValue E input pth newValue = Some (Inl (InvalidAfterReplace e)))
   \<and> (run_writes E before payload = Some (Inr reached)
        \<and> replaceTomlValue E reached pth newValue = Some (Inl err)
        \<longrightarrow> run_writes E (before @ Replace pth newValue # after) payload = Some (Inl err))
   \<and> (parseCargoManifest E cargo = Some (Inr parsed) \<and> truthy (js_get parsed (KStr ''package''))
        \<longrightarrow> CargoToml_updateContent E version (Some vm) cargo
              = run_writes E (CargoToml_writes parsed version vm (DEP_KINDS E)) cargo)
   \<and> (parseCargoManifest E manifest = Some (Inr parsed) \<and> truthy (js_get parsed (KStr ''package''))
        \<longrightarrow> CargoTomlRemovePaths_updateContent E allPackages manifest
              = run_writes E (CargoTomlRemovePaths_writes parsed allPackages (DEP_KINDS E)) manifest)
   \<and> CargoWorkspaceMembers_updateContent E members workspace
        = run_writes E [Replace [KStr ''workspace'', KStr ''members''] (JArray (map JString members))] workspace
   \<and> (CargoToml_updateContent E version versionsMap cargo = Some (Inr bumped)
        \<longrightarrow> (\<exists>t. parsePlain E bumped = Some (Inr t)))
   \<and> (CargoTomlRemovePaths_updateContent E allPackages manifest = Some (Inr stripped)
        \<longrightarrow> stripped = manifest \<or> (\<exists>t. parsePlain E stripped = Some (Inr t)))"
proof (intro conjI impI)
  assume "replaceTomlValue E input pth newValue = Some (Inr out)"
  then show "\<exists>t. parsePlain E out = Some (Inr t)" by (rule replaceTomlValue_reparses)
next
  assume "spliced_text E input pth newValue = Some (Inr spliced) \<and> parsePlain E spliced = Some (Inl e)"
  then show "replaceTomlValue E input pth newValue = Some (Inl (InvalidAfterReplace e))"
    by (simp add: replaceTomlValue_def)
next
  assume "run_writes E before payload = Some (Inr reached)
        \<and> replaceTomlValue E reached pth newValue = Some (Inl err)"
  then show "run_writes E (before @ Replace pth newValue # after) payload = Some (Inl err)"
    by (intro run_writes_first_failure [where ?s1.0 = reached]) (simp_all add: perform_def)
next
  assume "parseCargoManifest E cargo = Some (Inr parsed) \<and> truthy (js_get parsed (KStr ''package''))"
  then show "CargoToml_updateContent E version (Some vm) cargo
              = run_writes E (CargoToml_writes parsed version vm (DEP_KINDS E)) cargo"
    by (intro CargoToml_updateContent_eq) simp_all
next
  assume "parseCargoManifest E manifest = Some (Inr parsed) \<and> truthy (js_get parsed (KStr ''package''))"
  then show "CargoTomlRemovePaths_updateContent E allPackages manifest
              = run_writes E (CargoTomlRemovePaths_writes parsed allPackages (DEP_KINDS E)) manifest"
    by (intro CargoTomlRemovePaths_updateContent_eq) simp_all
next
  show "CargoWorkspaceMembers_updateContent E members workspace
        = run_writes E [Replace [KStr ''workspace'', KStr ''members''] (JArray (map JString members))] workspace"
    by (simp add: CargoWorkspaceMembers_updateContent_def)
next
  assume "CargoToml_updateContent E version versionsMap cargo = Some (Inr bumped)"
  then show "\<exists>t. parsePlain E bumped = Some (Inr t)" by (rule CargoToml_reparses)
next
  assume "CargoTomlRemovePaths_updateContent E allPackages manifest = Some (Inr stripped)"
  then show "stripped = manifest \<or> (\<exists>t. parsePlain E stripped = Some (Inr t))" by (rule CargoTomlRemovePaths_checked)
qed

theorem replaceTomlValue_self_check_witness:
  "replaceTomlValue modelled ex_version [KStr ''package'', KStr ''version''] (JString ''2.0.0'')
     = Some (Inr ex_version_2)
   \<and> (\<exists>t. parsePlain modelled ex_version_2 = Some (Inr t))
   \<and> spliced_text modelled ex_path_first [KStr ''dependencies'', KStr ''foo'', KStr ''path''] JNull
       = Some (Inr ex_path_first_spliced)
   \<and> parsePlain modelled ex_path_first_spliced = Some (Inl (TomlError ''Empty bare keys are not allowed''))
   \<and> replaceTomlValue modelled ex_path_first [KStr ''dependencies'', KStr ''foo'', KStr ''path''] JNull
       = Some (Inl (InvalidAfterReplace (TomlError ''Empty bare keys are not allowed'')))
   \<and> run_writes modelled [] ex_path_first = Some (Inr ex_path_first)
   \<and> parseCargoManifest modelled ex_path_first = Some (Inr ex_path_first_parsed)
   \<and> truthy (js_get ex_path_first_parsed (KStr ''package''))
   \<and> CargoTomlRemovePaths_writes ex_path_first_parsed [''foo''] (DEP_KINDS modelled)
       = [] @ Replace [KStr ''dependencies'', KStr ''foo'', KStr ''path''] JNull # []
   \<and> CargoTomlRemovePaths_updateContent modelled [''foo''] ex_path_first
       = Some (Inl (InvalidAfterReplace (TomlError ''Empty bare keys are not allowed'')))
   \<and> parseCargoManifest modelled ex_bump = Some (Inr ex_bump_parsed)
   \<and> truthy (js_get ex_bump_parsed (KStr ''package''))
   \<and> run_writes modelled (CargoToml_writes ex_bump_parsed ''1.1.0'' [(''foo'', ''2.0.0'')] (DEP_KINDS modelled))
         ex_bump = Some (Inr ex_bumped)
   \<and> CargoToml_updateContent modelled ''1.1.0'' (Some [(''foo'', ''2.0.0'')]) ex_bump = Some (Inr ex_bumped)
   \<and> (\<exists>t. parsePlain modelled ex_bumped = Some (Inr t))
   \<and> CargoTomlRemovePaths_updateContent modelled [''foo''] ex_path_last = Some (Inr ex_path_removed)
   \<and> (\<exists>t. parsePlain modelled ex_path_removed = Some (Inr t))"
  using replaceTomlValue_self_check
          [where E = modelled and input = ex_version and pth = "[KStr ''package'', KStr ''version'']"
             and newValue = "JString ''2.0.0''" and out = ex_version_2
             and version = "''1.1.0''" and vm = "[(''foo'', ''2.0.0'')]"
             and versionsMap = "Some [(''foo'', ''2.0.0'')]"
             and cargo = ex_bump and parsed = ex_bump_parsed and bumped = ex_bumped
             and allPackages = "[''foo'']" and manifest = ex_path_last and stripped = ex_path_removed]
        replaceTomlValue_self_check
          [where E = modelled and input = ex_path_first
             and pth = "[KStr ''dependencies'', KStr ''foo'', KStr ''path'']"
             and newValue = JNull and spliced = ex_path_first_spliced
             and e = "TomlError ''Empty bare keys are not allowed''"
             and before = "[]" and payload = ex_path_first and reached = ex_path_first
             and err = "InvalidAfterReplace (TomlError ''Empty bare keys are not allowed'')"
             and after = "[]"
             and manifest = ex_path_first and parsed = ex_path_first_parsed and allPackages = "[''foo'']"]
        eval_replace_version2 eval_splice_path_first eval_reparse_path_first eval_replace_path_first
        eval_parse_path_first eval_truthy_package_path_first eval_writes_path_first
        eval_parse_bump eval_truthy_package_bump eval_bump_both
        eval_remove_path_last ex_path_removed_neq
  by simp

section \<open>C2: what a replacement writes\<close>

text \<open>
  C2.  A new value that is not \<open>null\<close> does not always give the text with the value
  replaced.  The empty string is falsy, and line 417 tests \<open>if (newValue)\<close>: the call takes
  the branch of the deletion and the whole clause goes, where the stringification \<open>""\<close> was
  to stand in the place of the old value.  And the inline table of \<open>ex_inline\<close>, which ends
  at offset 40, is tagged with the end 41: the splice of a new value eats the line break
  after the table, and the check of lines 427-431 refuses the result.
\<close>

theorem replaceTomlValue_empty_string_deletes:
  \<open>replaceTomlValue modelled ex_version [KStr ''package'', KStr ''version''] (JString [])
     = Some (Inr ''[package]\<newline>\<newline>'')
   \<and> stringifyValue modelled (JString []) = Some (Inr ''""'')
   \<and> parseTagged modelled ex_inline = Some (Inr (JTable TABLE False
         [(''dependencies'', JTable TABLE True
            [(''foo'', JTagged None 15 21 41
               (JTable INLINE_TABLE False [(''path'', JTagged None 23 30 38 (JString ''../foo''))]))]),
          (''features'', JTable TABLE True [])]))
   \<and> replaceTomlValue modelled ex_inline [KStr ''dependencies'', KStr ''foo''] (JString ''1.0.0'')
     = Some (Inl (InvalidAfterReplace (TomlError
         ''Unexpected character, expected only whitespace or comments till end of line'')))\<close>
  using eval_replace_empty eval_stringify_empty eval_parse_inline eval_replace_inline by simp

section \<open>C3: stripping a path that comes first\<close>

text \<open>
  C3.  On the manifest that the claim describes, with \<open>path\<close> before \<open>version\<close>, the
  path remover does not return the rewritten manifest: no comma precedes \<open>path\<close>, so the
  splice cuts from the start of the clause to the end of the value and leaves
  \<open>foo = { , version = "2.0.0" }\<close>, which the check refuses.  With \<open>path\<close> after
  \<open>version\<close> the result is the one that the claim states.
\<close>

theorem CargoTomlRemovePaths_path_first_fails:
  "CargoTomlRemovePaths_updateContent modelled [''foo''] ex_path_first
     = Some (Inl (InvalidAfterReplace (TomlError ''Empty bare keys are not allowed'')))
   \<and> spliced_text modelled ex_path_first [KStr ''dependencies'', KStr ''foo'', KStr ''path''] JNull
       = Some (Inr ex_path_first_spliced)
   \<and> CargoTomlRemovePaths_updateContent modelled [''foo''] ex_path_last = Some (Inr ex_path_removed)"
  using eval_remove_path_first eval_splice_path_first eval_remove_path_last by simp

section \<open>C5: a path without version under a target\<close>

text \<open>
  C5.  The loop over the targets (lines 91-121) has no test of \<open>dep.version\<close>: for a
  dependency under \<open>target.wasm32-wasi.dependencies\<close> with a \<open>path\<close> and no \<open>version\<close>,
  the updater asks \<open>replaceTomlValue\<close> for a path that does not exist and fails, where
  the same declaration under \<open>dependencies\<close> is skipped.
\<close>

theorem CargoToml_target_path_only_fails:
  "CargoToml_updateContent modelled ''1.1.0'' (Some [(''foo'', ''2.0.0'')]) ex_target_path_only
     = Some (Inl (PathNotFound [KStr ''target'', KStr ''wasm32-wasi'', KStr ''dependencies'',
                                KStr ''foo'', KStr ''version'']))
   \<and> CargoToml_updateContent modelled ''1.1.0'' (Some [(''foo'', ''2.0.0'')]) ex_path_only
       = Some (Inr ex_path_only_bumped)"
  using eval_bump_target_path_only eval_bump_path_only by simp

section \<open>C4: the version that the updater writes\<close>





section \<open>C6: a chain after a transform that yields no content\<close>

lemma chain_loop_null: "chain_loop apply us (JNull, calls) = returns (JNull, calls)"
  by (induction us) simp_all

lemma chain_loop_append:
  "chain_loop apply (xs @ ys) st = and_then (chain_loop apply xs st) (chain_loop apply ys)"
proof (induction xs arbitrary: st)
  case Nil
  then show ?case by simp
next
  case (Cons x xs)
  show ?case
  proof (cases "fst st = JNull")
    case True
    then show ?thesis using Cons.IH by simp
  next
    case False
    then show ?thesis using Cons.IH
      by (cases "apply x (fst st)") (auto simp: and_then_def split: sum.splits)
  qed
qed

text \<open>
  C6, as stated, does not hold.  The chain \<open>[RemoveFile, b]\<close> on the content \<open>a\<close>: the first
  transform yields null, the loop of \<open>updateContent\<close> (line 49, \<open>newContent !== null ? ... :
  newContent\<close>) does not call \<open>b\<close>, and the chain returns the empty string; had \<open>b\<close> been
  called with the empty string, the result would have been \<open>b\<close>.
\<close>

theorem chain_short_circuit_counterexample:
  "invocations ex_dispatch [RemoveFile, Other ''b'' None] (JString ''a'')
     = Some (Inr [(RemoveFile, JString ''a'')])
   \<and> CompositeUpdater_updateContent ex_dispatch [RemoveFile, Other ''b'' None] (JString ''a'')
       = Some (Inr (JString []))
   \<and> ex_dispatch (Other ''b'' None) (JString []) = Some (Inr (JString ''b''))"
  by (simp add: invocations_def CompositeUpdater_updateContent_def ex_dispatch_def)

text \<open>
  C6, amended: for every chain and every input, once a transform of the chain yields null
  (here \<open>u\<close>, called with the content \<open>c\<close> that the transforms \<open>before\<close> it produced), no later
  transform of the chain is called: the calls of the chain are those made up to and including
  \<open>u\<close>, and the chain returns the empty string.
\<close>

theorem chain_stops_at_null:
  "chain_loop apply before (content, []) = Some (Inr (c, calls)) \<Longrightarrow> c \<noteq> JNull \<Longrightarrow>
   apply u c = Some (Inr JNull) \<Longrightarrow>
     invocations apply (before @ u # us) content = Some (Inr (calls @ [(u, c)]))
     \<and> CompositeUpdater_updateContent apply (before @ u # us) content = Some (Inr (JString []))"
  by (simp add: invocations_def CompositeUpdater_updateContent_def chain_loop_append chain_loop_null)

theorem chain_stops_at_null_witness:
  "chain_loop ex_dispatch [Other ''x'' None] (JString ''a'', [])
     = Some (Inr (JString ''ax'', [(Other ''x'' None, JString ''a'')]))
   \<and> JString ''ax'' \<noteq> JNull
   \<and> ex_dispatch RemoveFile (JString ''ax'') = Some (Inr JNull)
   \<and> invocations ex_dispatch ([Other ''x'' None] @ RemoveFile # [Other ''b'' None]) (JString ''a'')
       = Some (Inr ([(Other ''x'' None, JString ''a'')] @ [(RemoveFile, JString ''ax'')]))
   \<and> CompositeUpdater_updateContent ex_dispatch ([Other ''x'' None] @ RemoveFile # [Other ''b'' None])
         (JString ''a'') = Some (Inr (JString []))"
  using chain_stops_at_null
          [of ex_dispatch "[Other ''x'' None]" "JString ''a''" "JString ''ax''"
              "[(Other ''x'' None, JString ''a'')]" RemoveFile "[Other ''b'' None]"]
  by (simp add: ex_dispatch_def)


section \<open>C7: what the merge of the edits returns\<close>

lemma group_put_keys:
  "map fst (group_put k u acc) = (if k \<in> fst ` set acc then map fst acc else map fst acc @ [k])"
  by (induction acc) auto

lemma group_put_map_of:
  "map_of (group_put k u acc) k' =
     (if k' = k then Some ((case map_of acc k of None \<Rightarrow> [] | Some g \<Rightarrow> g) @ [u]) else map_of acc k')"
  by (induction acc) auto

lemma keys_of_map_of:
  assumes "\<forall>k. map_of acc k = (if k \<in> S then Some (F k) else None)"
  shows "fst ` set acc = S"
proof -
  have "(k \<in> fst ` set acc) = (k \<in> S)" for k
  proof -
    have "(k \<in> fst ` set acc) = (map_of acc k \<noteq> None)"
      by (simp add: map_of_eq_None_iff)
    also have "\<dots> = (k \<in> S)"
      using assms by simp
    finally show ?thesis .
  qed
  then show ?thesis by blast
qed

lemma group_updates_invariant:
  assumes "distinct (map fst acc)"
      and "\<forall>k. map_of acc k = (if k \<in> path ` set ps then Some (filter (\<lambda>u. path u = k) ps) else None)"
      and "\<forall>u \<in> set us. path u \<notin> set Object_prototype_keys"
  shows "\<exists>r. group_updates us acc = Inr r \<and> distinct (map fst r)
           \<and> (\<forall>k. map_of r k = (if k \<in> path ` set (ps @ us)
                                   then Some (filter (\<lambda>u. path u = k) (ps @ us)) else None))"
  using assms
proof (induction us arbitrary: acc ps)
  case Nil
  then show ?case by simp
next
  case (Cons u us)
  let ?acc = "group_put (path u) u acc"
  have keys: "fst ` set acc = path ` set ps"
    using Cons.prems(2) by (rule keys_of_map_of)
  have d: "distinct (map fst ?acc)"
    using Cons.prems(1) by (simp add: group_put_keys)
  have m: "\<forall>k. map_of ?acc k = (if k \<in> path ` set (ps @ [u])
                                   then Some (filter (\<lambda>u. path u = k) (ps @ [u])) else None)"
  proof -
    have e: "path u \<notin> path ` set ps \<Longrightarrow> filter (\<lambda>v. path v = path u) ps = []"
      by (metis (mono_tags, lifting) filter_empty_conv image_eqI)
    show ?thesis using Cons.prems(2) e by (auto simp: group_put_map_of)
  qed
  have u: "\<forall>v \<in> set us. path v \<notin> set Object_prototype_keys"
    using Cons.prems(3) by simp
  have step: "group_updates (u # us) acc = group_updates us ?acc"
    using Cons.prems(3) by simp
  have app: "ps @ u # us = (ps @ [u]) @ us"
    by simp
  show ?case
    unfolding step app by (rule Cons.IH [OF d m u])
qed

lemma set_js_key_order: "set (js_key_order ks) = set ks"
  by (auto simp: js_key_order_def)

lemma distinct_js_key_order: "distinct ks \<Longrightarrow> distinct (js_key_order ks)"
  by (auto simp: js_key_order_def)

lemma build_updates_map:
  "\<forall>p \<in> set ks. \<exists>u. f p = Inr u \<and> merged_update p (the (map_of acc p)) = Inr u \<Longrightarrow>
     build_updates acc ks = Inr (map (\<lambda>p. projr (f p)) ks)"
  by (induction ks) auto

lemma merged_update_ok:
  "g \<noteq> [] \<Longrightarrow> \<not> list_ex (\<lambda>u. encoding u = Some ''base64'') (butlast (map updater g)) \<Longrightarrow>
     merged_update p g =
       Inr \<lparr> path = p, createIfMissing = createIfMissing (hd g), cachedFileContents = None,
             updater = (case map updater g of [x] \<Rightarrow> x | xs \<Rightarrow> CompositeUpdater xs (encoding (last xs))) \<rparr>"
  by (cases g; cases "tl g") (auto simp: merged_update_def new_CompositeUpdater_def)

text \<open>
  C7, as stated, does not hold for every list of edits.  Two edits of \<open>logo.png\<close>, the first
  with base64 content: the constructor of \<open>CompositeUpdater\<close> (lines 29-33) refuses the chain,
  and \<open>mergeUpdates\<close> returns no list.
\<close>

theorem mergeUpdates_base64_counterexample:
  "mergeUpdates ex_base64_first = Inl ChainAfterBase64"
  by code_simp

text \<open>
  C7, amended: for every list of edits in which no path is the name of a property of
  \<open>Object.prototype\<close> and no edit with base64 content comes before the last edit of its path,
  \<open>mergeUpdates\<close> returns a list with exactly one edit for each path of the input; its
  transform is the only transform of the group when the group has one member, else the chain
  of the transforms of the group in the order of the input; and its create-if-missing flag is
  that of the first edit of the group.
\<close>

theorem mergeUpdates_postcondition:
  assumes "\<forall>u \<in> set updates. path u \<notin> set Object_prototype_keys"
      and "\<forall>p. \<not> list_ex (\<lambda>u. encoding u = Some ''base64'') (butlast (map updater (group_of p updates)))"
  shows "\<exists>merged. mergeUpdates updates = Inr merged
           \<and> distinct (map path merged)
           \<and> set (map path merged) = set (map path updates)
           \<and> (\<forall>r \<in> set merged.
                 createIfMissing r = createIfMissing (hd (group_of (path r) updates))
                 \<and> updater r = (case map updater (group_of (path r) updates) of
                                  [x] \<Rightarrow> x
                                | xs \<Rightarrow> CompositeUpdater xs (encoding (last xs))))"
proof -
  obtain acc where acc: "group_updates updates [] = Inr acc" "distinct (map fst acc)"
      and m: "\<forall>k. map_of acc k = (if k \<in> path ` set updates then Some (group_of k updates) else None)"
    using group_updates_invariant [of "[]" "[]" updates] assms(1) by (auto simp: group_of_def)
  have keys: "set (map fst acc) = path ` set updates"
    using keys_of_map_of [OF m] by simp
  let ?f = "\<lambda>p. merged_update p (group_of p updates)"
  let ?g = "\<lambda>p. \<lparr> path = p, createIfMissing = createIfMissing (hd (group_of p updates)),
                  cachedFileContents = None,
                  updater = (case map updater (group_of p updates) of
                               [x] \<Rightarrow> x | xs \<Rightarrow> CompositeUpdater xs (encoding (last xs))) \<rparr>"
  let ?ks = "js_key_order (map fst acc)"
  have f: "?f p = Inr (?g p)" if "p \<in> path ` set updates" for p
  proof -
    have "group_of p updates \<noteq> []"
      using that by (auto simp: group_of_def filter_empty_conv)
    then show ?thesis using assms(2) by (simp add: merged_update_ok)
  qed
  have "\<forall>p \<in> set ?ks. \<exists>u. ?f p = Inr u \<and> merged_update p (the (map_of acc p)) = Inr u"
    using m keys f by (simp add: set_js_key_order)
  then have "build_updates acc ?ks = Inr (map (\<lambda>p. projr (?f p)) ?ks)"
    by (rule build_updates_map)
  moreover have "map (\<lambda>p. projr (?f p)) ?ks = map ?g ?ks"
    using keys f by (simp add: set_js_key_order)
  ultimately have res: "mergeUpdates updates = Inr (map ?g ?ks)"
    using acc(1) by (simp add: mergeUpdates_def)
  have p: "map path (map ?g ?ks) = ?ks"
    by (simp add: comp_def)
  have "distinct (map path (map ?g ?ks))"
    unfolding p using acc(2) by (rule distinct_js_key_order)
  moreover have "set (map path (map ?g ?ks)) = set (map path updates)"
    unfolding p using keys by (simp add: set_js_key_order)
  moreover have "\<forall>r \<in> set (map ?g ?ks).
                 createIfMissing r = createIfMissing (hd (group_of (path r) updates))
                 \<and> updater r = (case map updater (group_of (path r) updates) of
                                  [x] \<Rightarrow> x
                                | xs \<Rightarrow> CompositeUpdater xs (encoding (last xs)))"
    by auto
  ultimately show ?thesis using res by blast
qed

lemma eval_merge_ex_updates:
  "mergeUpdates ex_updates =
     Inr [\<lparr> path = ''b'', createIfMissing = True, cachedFileContents = None,
            updater = CompositeUpdater [Other ''x'' None, RemoveFile] None \<rparr>,
          \<lparr> path = ''a'', createIfMissing = False, cachedFileContents = None,
            updater = Other ''y'' None \<rparr>]"
  by code_simp

theorem mergeUpdates_postcondition_witness:
  "list_all (\<lambda>u. path u \<notin> set Object_prototype_keys) ex_updates
   \<and> (\<forall>p. \<not> list_ex (\<lambda>u. encoding u = Some ''base64'') (butlast (map updater (group_of p ex_updates))))
   \<and> (\<exists>merged. mergeUpdates ex_updates = Inr merged
         \<and> distinct (map path merged)
         \<and> set (map path merged) = set (map path ex_updates)
         \<and> (\<forall>r \<in> set merged.
               createIfMissing r = createIfMissing (hd (group_of (path r) ex_updates))
               \<and> updater r = (case map updater (group_of (path r) ex_updates) of
                                [x] \<Rightarrow> x
                              | xs \<Rightarrow> CompositeUpdater xs (encoding (last xs)))))
   \<and> mergeUpdates ex_updates =
       Inr [\<lparr> path = ''b'', createIfMissing = True, cachedFileContents = None,
              updater = CompositeUpdater [Other ''x'' None, RemoveFile] None \<rparr>,
            \<lparr> path = ''a'', createIfMissing = False, cachedFileContents = None,
              updater = Other ''y'' None \<rparr>]"
proof -
  have h1: "\<forall>u \<in> set ex_updates. path u \<notin> set Object_prototype_keys"
    by (simp add: ex_updates_def Object_prototype_keys_def)
  have h2: "\<forall>p. \<not> list_ex (\<lambda>u. encoding u = Some ''base64'')
                     (butlast (map updater (group_of p ex_updates)))"
    by (simp add: ex_updates_def group_of_def)
  show ?thesis
    using mergeUpdates_postcondition [OF h1 h2] h1 h2 eval_merge_ex_updates
    by (simp only: list_all_iff simp_thms)
qed


section \<open>C9: the edit that the mirror registers\<close>

text \<open>
  C9, as stated, does not hold.  The source \<open>examples/latest/a/.keep\<close> exists and is empty, and
  no edit is attached to it: the resolved content is the empty string, and both versions of
  \<open>overwriteFile\<close> register a removal (\<open>newFileContent ? new RawContent(...) : new
  RemoveFile()\<close> tests the truthiness of the content).
\<close>

theorem overwriteFile_empty_counterexample:
  "newFileContent_p0 ex_dispatch ex_platform ''examples/latest/a/.keep'' []
     = Some (Inr (Some \<lparr> fc_content = [], fc_encoding = ''utf-8'' \<rparr>, JString []))
   \<and> overwriteFile_p0 ex_dispatch ex_platform ''examples/latest/a/.keep'' ''examples/release/a/.keep'' []
       = Some (Inr [\<lparr> path = ''examples/release/a/.keep'', createIfMissing = True,
                      cachedFileContents = None, updater = RemoveFile \<rparr>])
   \<and> overwriteFile_sw ex_dispatch ex_platform ''examples/latest/a/.keep'' ''examples/release/a/.keep'' []
       = Some (Inr [\<lparr> path = ''examples/release/a/.keep'', createIfMissing = True,
                      cachedFileContents = None, updater = RemoveFile \<rparr>])"
  by code_simp

text \<open>
  C9, amended: for every file that the mirror schedules, the edit registered at the
  destination path is a removal exactly when the resolved content is falsy, that is null or
  the empty string; when the resolved content is a non-empty string, the edit writes that
  content (in \<^verbatim>\<open>unnamed/part_000\<close> with the encoding of the source, \<open>utf-8\<close> when there is none).
  With no edit attached to the source, the resolved content is null when the source does not
  exist, and the text of the source when it exists (in \<^verbatim>\<open>plugins/substrate-workspace.ts\<close> null
  when that text is empty).
\<close>

theorem overwriteFile_edit_choice:
  "(newFileContent_p0 apply G sourcePath updates = Some (Inr (fileContent, c)) \<longrightarrow>
      (\<exists>e. overwriteFile_p0 apply G sourcePath targetPath updates = Some (Inr (updates @ [e]))
          \<and> path e = targetPath
          \<and> (updater e = RemoveFile) = (\<not> truthy c)
          \<and> (truthy c \<longrightarrow>
               updater e = RawContent c
                 (Some (case fileContent of None \<Rightarrow> ''utf-8'' | Some fc \<Rightarrow> fc_encoding fc)))))
   \<and> (newFileContent_sw apply G sourcePath updates = Some (Inr c) \<longrightarrow>
      (\<exists>e. overwriteFile_sw apply G sourcePath targetPath updates = Some (Inr (updates @ [e]))
          \<and> path e = targetPath
          \<and> (updater e = RemoveFile) = (\<not> truthy c)
          \<and> (truthy c \<longrightarrow> updater e = RawContent c None)))
   \<and> \<not> truthy JNull
   \<and> truthy (JString s) = (s \<noteq> [])
   \<and> (List.find (\<lambda>u. path u = missing) updates = None
        \<and> getFileContentsOnBranch G missing = Some (Inl (FileNotFoundError m)) \<longrightarrow>
        newFileContent_p0 apply G missing updates = Some (Inr (None, JNull))
        \<and> newFileContent_sw apply G missing updates = Some (Inr JNull))
   \<and> (List.find (\<lambda>u. path u = sourcePath) updates = None
        \<and> getFileContentsOnBranch G sourcePath = Some (Inr gh) \<and> isUtf8_base64 G (content_b64 gh) \<longrightarrow>
        newFileContent_p0 apply G sourcePath updates
          = Some (Inr (Some \<lparr> fc_content = parsedContent gh, fc_encoding = ''utf-8'' \<rparr>,
                       JString (parsedContent gh)))
        \<and> newFileContent_sw apply G sourcePath updates
          = Some (Inr (if parsedContent gh = [] then JNull else JString (parsedContent gh))))"
  by (simp add: overwriteFile_p0_def overwriteFile_sw_def mirror_update_p0_def mirror_update_sw_def
        newFileContent_p0_def newFileContent_sw_def getFileContent_p0_def getFileContent_sw_def
        cached_or_fetched_def missing_allowed_def)

lemma eval_newFileContent_p0:
  "newFileContent_p0 ex_dispatch ex_platform ''examples/latest/a/Cargo.toml'' []
     = Some (Inr (Some \<lparr> fc_content = ''[package]\<newline>'', fc_encoding = ''utf-8'' \<rparr>,
                  JString ''[package]\<newline>''))"
  by code_simp

lemma eval_newFileContent_sw:
  "newFileContent_sw ex_dispatch ex_platform ''examples/latest/a/Cargo.toml'' []
     = Some (Inr (JString ''[package]\<newline>''))"
  by code_simp

lemma eval_ex_platform:
  "getFileContentsOnBranch ex_platform ''examples/latest/a/Cargo.toml''
     = Some (Inr \<lparr> content_b64 = ''W3BhY2thZ2VdCg=='', parsedContent = ''[package]\<newline>'' \<rparr>)"
  "getFileContentsOnBranch ex_platform ''examples/latest/b''
     = Some (Inl (FileNotFoundError ''examples/latest/b''))"
  "isUtf8_base64 ex_platform ''W3BhY2thZ2VdCg=='' = True"
  by code_simp+

theorem overwriteFile_edit_choice_witness:
  "newFileContent_p0 ex_dispatch ex_platform ''examples/latest/a/Cargo.toml'' []
     = Some (Inr (Some \<lparr> fc_content = ''[package]\<newline>'', fc_encoding = ''utf-8'' \<rparr>,
                  JString ''[package]\<newline>''))
   \<and> newFileContent_sw ex_dispatch ex_platform ''examples/latest/a/Cargo.toml'' []
     = Some (Inr (JString ''[package]\<newline>''))
   \<and> truthy (JString ''[package]\<newline>'')
   \<and> overwriteFile_p0 ex_dispatch ex_platform ''examples/latest/a/Cargo.toml''
         ''examples/release/a/Cargo.toml'' []
       = Some (Inr [\<lparr> path = ''examples/release/a/Cargo.toml'', createIfMissing = True,
                      cachedFileContents = None,
                      updater = RawContent (JString ''[package]\<newline>'') (Some ''utf-8'') \<rparr>])
   \<and> overwriteFile_sw ex_dispatch ex_platform ''examples/latest/a/Cargo.toml''
         ''examples/release/a/Cargo.toml'' []
       = Some (Inr [\<lparr> path = ''examples/release/a/Cargo.toml'', createIfMissing = True,
                      cachedFileContents = None,
                      updater = RawContent (JString ''[package]\<newline>'') None \<rparr>])
   \<and> getFileContentsOnBranch ex_platform ''examples/latest/b''
       = Some (Inl (FileNotFoundError ''examples/latest/b''))
   \<and> newFileContent_p0 ex_dispatch ex_platform ''examples/latest/b'' [] = Some (Inr (None, JNull))
   \<and> newFileContent_sw ex_dispatch ex_platform ''examples/latest/b'' [] = Some (Inr JNull)"
  using overwriteFile_edit_choice
          [of ex_dispatch ex_platform "''examples/latest/a/Cargo.toml''" "[]"
              "Some \<lparr> fc_content = ''[package]\<newline>'', fc_encoding = ''utf-8'' \<rparr>"
              "JString ''[package]\<newline>''" "''examples/release/a/Cargo.toml''"
              "''[package]\<newline>''" "''examples/latest/b''" "''examples/latest/b''"
              "\<lparr> content_b64 = ''W3BhY2thZ2VdCg=='', parsedContent = ''[package]\<newline>'' \<rparr>"]
        eval_newFileContent_p0 eval_newFileContent_sw eval_ex_platform
  by (simp add: overwriteFile_p0_def overwriteFile_sw_def mirror_update_p0_def mirror_update_sw_def)


section \<open>C8: the paths of the edits after the run\<close>

lemma set_dedup: "set (dedup xs) = set xs"
  by (induction xs rule: dedup.induct) auto

lemma distinct_dedup: "distinct (dedup xs)"
  by (induction xs rule: dedup.induct) (auto simp: set_dedup)

lemma distinct_delete_parents: "distinct files \<Longrightarrow> distinct (delete_parents todo files)"
  by (induction todo files rule: delete_parents.induct) (auto simp: Let_def distinct_removeAll)

lemma findAllFilesInDir_distinct: "findAllFilesInDir G dir = Some (Inr fs) \<Longrightarrow> distinct fs"
  by (auto simp: findAllFilesInDir_def distinct_dedup distinct_delete_parents dest!: and_then_Inr)

lemma overwriteFile_p0_appends:
  "overwriteFile_p0 apply G s t ups = Some (Inr r) \<Longrightarrow> \<exists>e. r = ups @ [e] \<and> path e = t"
  by (auto simp: overwriteFile_p0_def mirror_update_p0_def dest!: and_then_Inr)

lemma overwriteFile_sw_appends:
  "overwriteFile_sw apply G s t ups = Some (Inr r) \<Longrightarrow> \<exists>e. r = ups @ [e] \<and> path e = t"
  by (auto simp: overwriteFile_sw_def mirror_update_sw_def dest!: and_then_Inr)

lemma target_loop_paths:
  assumes ovf: "\<And>s t u r. ovf s t u = Some (Inr r) \<Longrightarrow> \<exists>e. r = u @ [e] \<and> path e = t"
  shows "for_each fs (overwrite_target_file ovf sd td ex) ups = Some (Inr r) \<Longrightarrow>
           map path r = map path ups @ map (\<lambda>f. td @ ''/'' @ f) (filter (\<lambda>f. f \<notin> set ex) fs)"
proof (induction fs arbitrary: ups)
  case Nil
  then show ?case by simp
next
  case (Cons f fs)
  from Cons.prems obtain u1 where
    u1: "overwrite_target_file ovf sd td ex f ups = Some (Inr u1)"
        "for_each fs (overwrite_target_file ovf sd td ex) u1 = Some (Inr r)"
    by (auto dest: and_then_Inr)
  have "map path u1 = map path ups @ (if f \<notin> set ex then [td @ ''/'' @ f] else [])"
    using u1(1) by (auto simp: overwrite_target_file_def split: if_splits dest: ovf)
  with Cons.IH [OF u1(2)] show ?case by simp
qed

lemma under_target: "under td (td @ ''/'' @ f)"
  by (simp add: under_def)

lemma source_loop_step:
  assumes ovf: "\<And>s t u r. ovf s t u = Some (Inr r) \<Longrightarrow> \<exists>e. r = u @ [e] \<and> path e = t"
      and "distinct (map path u) \<and> set (map path u) \<subseteq> A \<union> {td @ ''/'' @ f | f. f \<notin> set ex}"
      and "create_source_file ovf sd td ex f u = Some (Inr r)"
  shows "distinct (map path r) \<and> set (map path r) \<subseteq> A \<union> {td @ ''/'' @ f | f. f \<notin> set ex}"
proof (cases "List.find (\<lambda>v. path v = td @ ''/'' @ f) u = None \<and> f \<notin> set ex")
  case True
  then obtain e where e: "r = u @ [e]" "path e = td @ ''/'' @ f"
    using assms(3) by (auto simp: create_source_file_def dest: ovf)
  have "td @ ''/'' @ f \<notin> set (map path u)"
    using True by (auto simp: find_None_iff)
  then show ?thesis using assms(2) e True by auto
next
  case False
  then have "r = u" using assms(3) by (auto simp: create_source_file_def)
  then show ?thesis using assms(2) by simp
qed

lemma overwriteDirectory_loops:
  assumes ovf: "\<And>s t u r. ovf s t u = Some (Inr r) \<Longrightarrow> \<exists>e. r = u @ [e] \<and> path e = t"
      and l1: "for_each tfs (overwrite_target_file ovf sd td ex) ups = Some (Inr u1)"
      and l2: "for_each sfs (create_source_file ovf sd td ex) u1 = Some (Inr r)"
      and d: "distinct tfs" "distinct (map path ups)"
      and n: "\<forall>u \<in> set ups. \<not> under td (path u)"
  shows "distinct (map path r)
         \<and> set (map path r) \<subseteq> set (map path ups) \<union> {td @ ''/'' @ f | f. f \<notin> set ex}"
proof -
  let ?new = "map (\<lambda>f. td @ ''/'' @ f) (filter (\<lambda>f. f \<notin> set ex) tfs)"
  have p1: "map path u1 = map path ups @ ?new"
    using ovf l1 by (rule target_loop_paths)
  have "distinct ?new"
    using d(1) by (simp add: distinct_map inj_on_def)
  moreover have "set (map path ups) \<inter> set ?new = {}"
    using n under_target by fastforce
  ultimately have d1: "distinct (map path u1)"
    using d(2) p1 by simp
  have s1: "set (map path u1) \<subseteq> set (map path ups) \<union> {td @ ''/'' @ f | f. f \<notin> set ex}"
    unfolding p1 by auto
  let ?P = "\<lambda>u. distinct (map path u)
                \<and> set (map path u) \<subseteq> set (map path ups) \<union> {td @ ''/'' @ f | f. f \<notin> set ex}"
  have step: "?P s'" if "?P s" "create_source_file ovf sd td ex x s = Some (Inr s')" for x s s'
    using ovf that by (rule source_loop_step)
  have start: "?P u1"
    using d1 s1 by simp
  show ?thesis
    using step start l2 by (rule for_each_invariant [where P = ?P])
qed

lemma overwriteDirectory_p0_paths:
  assumes "overwriteDirectory_p0 apply G sd td ex ups = Some (Inr r)"
      and "distinct (map path ups)" "\<forall>u \<in> set ups. \<not> under td (path u)"
  shows "distinct (map path r)
         \<and> set (map path r) \<subseteq> set (map path ups) \<union> {td @ ''/'' @ f | f. f \<notin> set ex}"
proof -
  from assms(1) obtain tfs u1 sfs where
    t: "findAllFilesInDir G td = Some (Inr tfs)"
    and l1: "for_each tfs (overwrite_target_file (overwriteFile_p0 apply G) sd td ex) ups = Some (Inr u1)"
    and l2: "for_each sfs (create_source_file (overwriteFile_p0 apply G) sd td ex) u1 = Some (Inr r)"
    unfolding overwriteDirectory_p0_def by (blast dest: and_then_Inr)
  show ?thesis
    by (rule overwriteDirectory_loops [OF _ l1 l2 findAllFilesInDir_distinct [OF t] assms(2,3)])
       (erule overwriteFile_p0_appends)
qed

lemma overwriteDirectory_sw_paths:
  assumes "overwriteDirectory_sw apply G sd td ex ups = Some (Inr r)"
      and "\<forall>tfs. findFilesByGlobAndRef G ''**/*'' td = Some (Inr tfs) \<longrightarrow> distinct tfs"
      and "distinct (map path ups)" "\<forall>u \<in> set ups. \<not> under td (path u)"
  shows "distinct (map path r)
         \<and> set (map path r) \<subseteq> set (map path ups) \<union> {td @ ''/'' @ f | f. f \<notin> set ex}"
proof -
  from assms(1) obtain tfs u1 sfs where
    t: "findFilesByGlobAndRef G ''**/*'' td = Some (Inr tfs)"
    and l1: "for_each tfs (overwrite_target_file (overwriteFile_sw apply G) sd td ex) ups = Some (Inr u1)"
    and l2: "for_each sfs (create_source_file (overwriteFile_sw apply G) sd td ex) u1 = Some (Inr r)"
    unfolding overwriteDirectory_sw_def by (blast dest: and_then_Inr)
  have "distinct tfs" using assms(2) t by simp
  then show ?thesis
    by (intro overwriteDirectory_loops [OF _ l1 l2 _ assms(3,4)]) (erule overwriteFile_sw_appends)
qed

lemma wrap_first_paths: "wrap_first p x us = Inr r \<Longrightarrow> map path r = map path us"
  by (induction us arbitrary: r) (auto split: if_splits sum.splits)

lemma removeReleaseExamplePathDependencies_p0_paths:
  assumes "removeReleaseExamplePathDependencies_p0 G pk ups = Some (Inr r)"
  shows "map path r = map path ups"
proof -
  from assms obtain fs where
    l: "for_each fs (\<lambda>file us. Some (wrap_first (''examples/release/'' @ file) (CargoTomlRemovePaths pk) us))
          ups = Some (Inr r)"
    unfolding removeReleaseExamplePathDependencies_p0_def by (blast dest: and_then_Inr)
  show ?thesis
    by (rule for_each_invariant [where P = "\<lambda>u. map path u = map path ups", OF _ _ l])
       (auto dest: wrap_first_paths)
qed

lemma removeReleaseExamplePathDependencies_sw_paths:
  assumes "removeReleaseExamplePathDependencies_sw G v vs ups = Some (Inr r)"
  shows "map path r = map path ups"
proof -
  from assms obtain fs where
    l: "for_each fs (\<lambda>file us. Some (wrap_first (''examples/release/'' @ file)
                                      (CargoTomlRemovePaths_versions v vs) us))
          ups = Some (Inr r)"
    unfolding removeReleaseExamplePathDependencies_sw_def by (blast dest: and_then_Inr)
  show ?thesis
    by (rule for_each_invariant [where P = "\<lambda>u. map path u = map path ups", OF _ _ l])
       (auto dest: wrap_first_paths)
qed

lemma mirror_steps_distinct:
  assumes p1: "distinct (map path u1)
            \<and> set (map path u1) \<subseteq> set (map path ups)
                 \<union> {''docs/docusaurus/versioned_docs/version-release'' @ ''/'' @ f | f.
                       f \<notin> set [''docs-config.json'']}"
      and step2: "distinct (map path u1) \<Longrightarrow> \<forall>u \<in> set u1. \<not> under ''examples/release'' (path u) \<Longrightarrow>
            distinct (map path u2)
            \<and> set (map path u2) \<subseteq> set (map path u1)
                 \<union> {''examples/release'' @ ''/'' @ f | f. f \<notin> set [''Cargo.toml'', ''Justfile'']}"
      and p3: "map path u3 = map path u2"
      and s4: "updateReleaseExampleWorkspaceToml G u3 = Some (Inr r)"
      and n: "\<forall>u \<in> set ups. \<not> under ''docs/docusaurus/versioned_docs/version-release'' (path u)
                           \<and> \<not> under ''examples/release'' (path u)"
  shows "distinct (map path r)"
proof -
  let ?docs = "''docs/docusaurus/versioned_docs/version-release''"
  have n1: "\<forall>u \<in> set u1. \<not> under ''examples/release'' (path u)"
  proof
    fix u assume "u \<in> set u1"
    then have "path u \<in> set (map path ups) \<union> {?docs @ ''/'' @ f | f. f \<notin> set [''docs-config.json'']}"
      using p1 by auto
    then show "\<not> under ''examples/release'' (path u)"
      using n by (auto simp: under_def)
  qed
  have p2: "distinct (map path u2)
            \<and> set (map path u2) \<subseteq> set (map path u1)
                 \<union> {''examples/release'' @ ''/'' @ f | f. f \<notin> set [''Cargo.toml'', ''Justfile'']}"
    using p1 n1 by (intro step2) auto
  have fresh: "''examples/release/Cargo.toml'' \<notin> set (map path u2)"
  proof
    assume "''examples/release/Cargo.toml'' \<in> set (map path u2)"
    then consider "''examples/release/Cargo.toml'' \<in> set (map path u1)"
      | "''examples/release/Cargo.toml''
           \<in> {''examples/release'' @ ''/'' @ f | f. f \<notin> set [''Cargo.toml'', ''Justfile'']}"
      using p2 by blast
    then show False
    proof cases
      case 1
      then obtain u where "u \<in> set u1" "path u = ''examples/release/Cargo.toml''" by auto
      then show False using n1 by (auto simp: under_def)
    next
      case 2
      then show False by auto
    qed
  qed
  from s4 obtain e where e: "r = u3 @ [e]" "path e = ''examples/release/Cargo.toml''"
    unfolding updateReleaseExampleWorkspaceToml_def by (auto dest!: and_then_Inr)
  show ?thesis
    using e p2 p3 fresh by simp
qed

lemma mirror_docs_and_examples_p0_distinct:
  assumes m: "mirror_docs_and_examples_p0 apply G pk ups = Some (Inr r)"
      and d: "distinct (map path ups)"
      and n: "\<forall>u \<in> set ups. \<not> under ''docs/docusaurus/versioned_docs/version-release'' (path u)
                           \<and> \<not> under ''examples/release'' (path u)"
  shows "distinct (map path r)"
proof -
  let ?docs = "''docs/docusaurus/versioned_docs/version-release''"
  from m obtain u1 u2 u3 where
    s1: "overwriteDirectory_p0 apply G ''docs/docusaurus/docs'' ?docs [''docs-config.json''] ups
           = Some (Inr u1)"
    and s2: "overwriteDirectory_p0 apply G ''examples/latest'' ''examples/release''
               [''Cargo.toml'', ''Justfile''] u1 = Some (Inr u2)"
    and s3: "removeReleaseExamplePathDependencies_p0 G pk u2 = Some (Inr u3)"
    and s4: "updateReleaseExampleWorkspaceToml G u3 = Some (Inr r)"
    unfolding mirror_docs_and_examples_p0_def by (blast dest: and_then_Inr)
  have p1: "distinct (map path u1)
            \<and> set (map path u1) \<subseteq> set (map path ups) \<union> {?docs @ ''/'' @ f | f. f \<notin> set [''docs-config.json'']}"
    using s1 d n by (intro overwriteDirectory_p0_paths) auto
  show ?thesis
  proof (rule mirror_steps_distinct [OF p1 _ removeReleaseExamplePathDependencies_p0_paths [OF s3] s4 n])
    assume "distinct (map path u1)" "\<forall>u \<in> set u1. \<not> under ''examples/release'' (path u)"
    then show "distinct (map path u2)
            \<and> set (map path u2) \<subseteq> set (map path u1)
                 \<union> {''examples/release'' @ ''/'' @ f | f. f \<notin> set [''Cargo.toml'', ''Justfile'']}"
      by (rule overwriteDirectory_p0_paths [OF s2])
  qed
qed

lemma mirror_docs_and_examples_sw_distinct:
  assumes m: "mirror_docs_and_examples_sw apply G v vs ups = Some (Inr r)"
      and d: "distinct (map path ups)"
      and n: "\<forall>u \<in> set ups. \<not> under ''docs/docusaurus/versioned_docs/version-release'' (path u)
                           \<and> \<not> under ''examples/release'' (path u)"
      and l1: "\<forall>tfs. findFilesByGlobAndRef G ''**/*'' ''docs/docusaurus/versioned_docs/version-release''
                  = Some (Inr tfs) \<longrightarrow> distinct tfs"
      and l2: "\<forall>tfs. findFilesByGlobAndRef G ''**/*'' ''examples/release'' = Some (Inr tfs) \<longrightarrow> distinct tfs"
  shows "distinct (map path r)"
proof -
  let ?docs = "''docs/docusaurus/versioned_docs/version-release''"
  from m obtain u1 u2 u3 where
    s1: "overwriteDirectory_sw apply G ''docs/docusaurus/docs'' ?docs [''docs-config.json''] ups
           = Some (Inr u1)"
    and s2: "overwriteDirectory_sw apply G ''examples/latest'' ''examples/release''
               [''Cargo.toml'', ''Justfile''] u1 = Some (Inr u2)"
    and s3: "removeReleaseExamplePathDependencies_sw G v vs u2 = Some (Inr u3)"
    and s4: "updateReleaseExampleWorkspaceToml G u3 = Some (Inr r)"
    unfolding mirror_docs_and_examples_sw_def by (blast dest: and_then_Inr)
  have p1: "distinct (map path u1)
            \<and> set (map path u1) \<subseteq> set (map path ups) \<union> {?docs @ ''/'' @ f | f. f \<notin> set [''docs-config.json'']}"
    using n by (intro overwriteDirectory_sw_paths [OF s1 l1 d]) auto
  show ?thesis
  proof (rule mirror_steps_distinct [OF p1 _ removeReleaseExamplePathDependencies_sw_paths [OF s3] s4 n])
    assume "distinct (map path u1)" "\<forall>u \<in> set u1. \<not> under ''examples/release'' (path u)"
    then show "distinct (map path u2)
            \<and> set (map path u2) \<subseteq> set (map path u1)
                 \<union> {''examples/release'' @ ''/'' @ f | f. f \<notin> set [''Cargo.toml'', ''Justfile'']}"
      by (rule overwriteDirectory_sw_paths [OF s2 l2])
  qed
qed

lemma push_manifest_update_mirror_free:
  assumes "push_manifest_update W vs cs = Some (Inr r)" "list_all (clean W) cs"
      and "\<not> under ''docs/docusaurus/versioned_docs/version-release'' (manifestPath W)"
          "\<not> under ''examples/release'' (manifestPath W)"
  shows "list_all mirror_free r"
  using assms by (cases cs) (auto simp: push_manifest_update_def clean_def mirror_free_def list_all_iff)

lemma mirrored_candidates_distinct:
  assumes r: "mirrored = cs[i := (cs ! i)\<lparr> pullRequest_updates := u1 \<rparr>]"
      and f: "list_all mirror_free cs"
      and d: "i < length cs \<Longrightarrow> mirror_free (cs ! i) \<Longrightarrow> distinct (map path u1)"
  shows "list_all (\<lambda>c. distinct (map path (pullRequest_updates c))) mirrored"
proof (cases "i < length cs")
  case True
  then have "cs ! i \<in> set cs" by simp
  then have "mirror_free (cs ! i)"
    using f by (simp add: list_all_iff)
  then have "distinct (map path u1)"
    using True by (intro d)
  then show ?thesis
    using f r by (auto simp: mirror_free_def list_all_iff dest!: subsetD [OF set_update_subset_insert])
next
  case False
  then have "mirrored = cs"
    using r by (simp add: list_update_beyond)
  then show ?thesis using f by (simp add: mirror_free_def list_all_iff)
qed

lemma updateDocsAndExamples_p0_distinct:
  assumes a: "updateDocsAndExamples_p0 apply G ROOT cs pk = Some (Inr mirrored)"
      and f: "list_all mirror_free cs"
  shows "list_all (\<lambda>c. distinct (map path (pullRequest_updates c))) mirrored"
proof (cases "root_candidate ROOT cs")
  case None
  then have "mirrored = cs"
    using a by (simp add: updateDocsAndExamples_p0_def)
  then show ?thesis using f by (simp add: mirror_free_def list_all_iff)
next
  case (Some i)
  then obtain u1 where
    m: "mirror_docs_and_examples_p0 apply G pk (pullRequest_updates (cs ! i)) = Some (Inr u1)"
    and r: "mirrored = cs[i := (cs ! i)\<lparr> pullRequest_updates := u1 \<rparr>]"
    using a by (auto simp: updateDocsAndExamples_p0_def dest!: and_then_Inr)
  show ?thesis
    by (rule mirrored_candidates_distinct [OF r f])
       (rule mirror_docs_and_examples_p0_distinct [OF m], simp_all add: mirror_free_def list_all_iff)
qed

lemma updateDocsAndExamples_sw_distinct:
  assumes a: "updateDocsAndExamples_sw apply G ROOT cs vs = Some (Inr mirrored)"
      and f: "list_all mirror_free cs"
      and l1: "\<forall>tfs. findFilesByGlobAndRef G ''**/*'' ''docs/docusaurus/versioned_docs/version-release''
                  = Some (Inr tfs) \<longrightarrow> distinct tfs"
      and l2: "\<forall>tfs. findFilesByGlobAndRef G ''**/*'' ''examples/release'' = Some (Inr tfs) \<longrightarrow> distinct tfs"
  shows "list_all (\<lambda>c. distinct (map path (pullRequest_updates c))) mirrored"
proof (cases "root_candidate ROOT cs")
  case None
  then have "mirrored = cs"
    using a by (simp add: updateDocsAndExamples_sw_def)
  then show ?thesis using f by (simp add: mirror_free_def list_all_iff)
next
  case (Some i)
  then obtain u1 where
    m: "mirror_docs_and_examples_sw apply G (pullRequest_version (cs ! i)) vs
          (pullRequest_updates (cs ! i)) = Some (Inr u1)"
    and r: "mirrored = cs[i := (cs ! i)\<lparr> pullRequest_updates := u1 \<rparr>]"
    using a by (auto simp: updateDocsAndExamples_sw_def dest!: and_then_Inr)
  show ?thesis
    by (rule mirrored_candidates_distinct [OF r f])
       (rule mirror_docs_and_examples_sw_distinct [OF m _ _ l1 l2], simp_all add: mirror_free_def list_all_iff)
qed

lemma out_of_scope_distinct:
  "list_all (\<lambda>c. distinct (map path (pullRequest_updates c))) candidates \<Longrightarrow>
   list_all (\<lambda>c. distinct (map path (pullRequest_updates c))) (out_of_scope_candidates W candidates)"
  by (simp add: out_of_scope_candidates_def list_all_iff)

text \<open>
  C8, as stated, does not hold.  The root candidate holds one edit, of
  \<open>examples/release/a/Cargo.toml\<close>, and the release directory holds that file: the first loop
  of \<open>overwriteDirectory\<close> pushes an edit of the path of every file of the target directory
  without looking at the edits that are there, and the candidate that \<open>run\<close> returns has two
  edits of \<open>examples/release/a/Cargo.toml\<close>, in either version of the plugin.
\<close>

theorem run_duplicate_counterexample:
  "run_p0 ex_workspace [ex_candidate]
     = Some (Inr [ex_candidate\<lparr> pullRequest_updates := ex_mirrored_p0 \<rparr>])
   \<and> run_sw ex_workspace [ex_candidate]
       = Some (Inr [ex_candidate\<lparr> pullRequest_updates := ex_mirrored_sw \<rparr>])
   \<and> distinct (map path (pullRequest_updates ex_candidate))
   \<and> \<not> distinct (map path ex_mirrored_p0)
   \<and> \<not> distinct (map path ex_mirrored_sw)"
  by code_simp

text \<open>
  C8, amended: for every list of candidates whose edits have distinct paths, every candidate
  that \<open>run\<close> returns has edits with distinct paths, provided that in this run the candidates
  that come out of the loop over the packages and the merge plugin have edits with distinct
  paths, none at the path of the manifest of versions and none in
  \<open>docs/docusaurus/versioned_docs/version-release\<close> or in \<open>examples/release\<close>; that
  \<open>postProcessCandidates\<close>, given them with the edit of the manifest pushed, returns candidates
  whose edits have distinct paths, none in the two directories; that the manifest of versions
  is in neither directory; and, for \<open>run\<close> of \<^verbatim>\<open>plugins/substrate-workspace.ts\<close>, whose
  \<open>overwriteDirectory\<close> takes the listing as the platform gives it, that the listings of the
  two directories name no file twice.
\<close>

theorem run_keeps_distinct:
  assumes inputs: "list_all (\<lambda>c. distinct (map path (pullRequest_updates c))) candidates"
      and handed: "\<And>built versions newCandidates.
                     new_candidates W (in_scope_candidates W candidates)
                       = Some (Inr (built, versions, newCandidates))
                     \<Longrightarrow> list_all (clean W) newCandidates"
      and processed: "\<And>built versions newCandidates pushed.
                     new_candidates W (in_scope_candidates W candidates)
                       = Some (Inr (built, versions, newCandidates))
                     \<Longrightarrow> push_manifest_update W (snd versions) newCandidates = Some (Inr pushed)
                     \<Longrightarrow> list_all mirror_free pushed
                     \<Longrightarrow> list_all mirror_free (postProcessCandidates W pushed (fst versions))"
      and manifest: "\<not> under ''docs/docusaurus/versioned_docs/version-release'' (manifestPath W)"
                    "\<not> under ''examples/release'' (manifestPath W)"
  shows "(run_p0 W candidates = Some (Inr result)
            \<longrightarrow> list_all (\<lambda>c. distinct (map path (pullRequest_updates c))) result)
         \<and> ((\<forall>listing. findFilesByGlobAndRef (github W) ''**/*''
                          ''docs/docusaurus/versioned_docs/version-release'' = Some (Inr listing)
                        \<longrightarrow> distinct listing)
              \<and> (\<forall>listing. findFilesByGlobAndRef (github W) ''**/*'' ''examples/release''
                            = Some (Inr listing) \<longrightarrow> distinct listing)
              \<and> run_sw W candidates = Some (Inr result)
            \<longrightarrow> list_all (\<lambda>c. distinct (map path (pullRequest_updates c))) result)"
proof (intro conjI impI)
  assume r: "run_p0 W candidates = Some (Inr result)"
  show "list_all (\<lambda>c. distinct (map path (pullRequest_updates c))) result"
  proof (cases "length (in_scope_candidates W candidates) = 0")
    case True
    then have "result = out_of_scope_candidates W candidates"
      using r by (simp add: run_p0_def)
    then show ?thesis using inputs by (simp add: out_of_scope_distinct)
  next
    case False
    from r False obtain built versions ncs pushed mirrored where
      n: "new_candidates W (in_scope_candidates W candidates) = Some (Inr (built, versions, ncs))"
      and p: "push_manifest_update W (snd versions) ncs = Some (Inr pushed)"
      and m: "updateDocsAndExamples_p0 (updateContent W) (github W) (ROOT_PROJECT_PATH W)
                (postProcessCandidates W pushed (fst versions)) (map (crate_name W) (fst built))
                = Some (Inr mirrored)"
      and res: "result = out_of_scope_candidates W candidates @ mirrored"
      unfolding run_p0_def by (auto dest!: and_then_Inr split: prod.splits)
    have "list_all mirror_free pushed"
      using p handed [OF n] manifest by (rule push_manifest_update_mirror_free)
    then have "list_all mirror_free (postProcessCandidates W pushed (fst versions))"
      by (rule processed [OF n p])
    then have "list_all (\<lambda>c. distinct (map path (pullRequest_updates c))) mirrored"
      by (rule updateDocsAndExamples_p0_distinct [OF m])
    then show ?thesis
      using res out_of_scope_distinct [OF inputs] by simp
  qed
next
  assume a: "(\<forall>listing. findFilesByGlobAndRef (github W) ''**/*''
                          ''docs/docusaurus/versioned_docs/version-release'' = Some (Inr listing)
                        \<longrightarrow> distinct listing)
              \<and> (\<forall>listing. findFilesByGlobAndRef (github W) ''**/*'' ''examples/release''
                            = Some (Inr listing) \<longrightarrow> distinct listing)
              \<and> run_sw W candidates = Some (Inr result)"
  then have r: "run_sw W candidates = Some (Inr result)" by simp
  show "list_all (\<lambda>c. distinct (map path (pullRequest_updates c))) result"
  proof (cases "length (in_scope_candidates W candidates) = 0")
    case True
    then have "result = out_of_scope_candidates W candidates"
      using r by (simp add: run_sw_def)
    then show ?thesis using inputs by (simp add: out_of_scope_distinct)
  next
    case False
    from r False obtain built versions ncs pushed mirrored where
      n: "new_candidates W (in_scope_candidates W candidates) = Some (Inr (built, versions, ncs))"
      and p: "push_manifest_update W (snd versions) ncs = Some (Inr pushed)"
      and m: "updateDocsAndExamples_sw (updateContent W) (github W) (ROOT_PROJECT_PATH W)
                (postProcessCandidates W pushed (fst versions)) (fst versions)
                = Some (Inr mirrored)"
      and res: "result = out_of_scope_candidates W candidates @ mirrored"
      unfolding run_sw_def by (auto dest!: and_then_Inr split: prod.splits)
    have "list_all mirror_free pushed"
      using p handed [OF n] manifest by (rule push_manifest_update_mirror_free)
    then have "list_all mirror_free (postProcessCandidates W pushed (fst versions))"
      by (rule processed [OF n p])
    then have "list_all (\<lambda>c. distinct (map path (pullRequest_updates c))) mirrored"
      using a by (intro updateDocsAndExamples_sw_distinct [OF m]) simp_all
    then show ?thesis
      using res out_of_scope_distinct [OF inputs] by simp
  qed
qed

lemma eval_run_p0_clean:
  "run_p0 ex_workspace [ex_clean_candidate]
     = Some (Inr [ex_clean_candidate\<lparr> pullRequest_updates := ex_clean_run_p0 \<rparr>])"
  by code_simp

lemma eval_run_sw_clean:
  "run_sw ex_workspace [ex_clean_candidate]
     = Some (Inr [ex_clean_candidate\<lparr> pullRequest_updates := ex_clean_run_sw \<rparr>])"
  by code_simp

lemma eval_new_candidates_clean:
  "new_candidates ex_workspace (in_scope_candidates ex_workspace [ex_clean_candidate])
     = Some (Inr (([''a''], [ex_clean_candidate]),
                  ([(''a'', ''1.0.1'')], [(''examples/release/a'', ''1.0.1'')]),
                  [ex_clean_candidate]))"
  by code_simp

lemma ex_clean_candidate_clean: "clean ex_workspace ex_clean_candidate"
  by (simp add: clean_def mirror_free_def under_def ex_clean_candidate_def ex_workspace_def)

theorem run_keeps_distinct_witness:
  "list_all (\<lambda>c. distinct (map path (pullRequest_updates c))) [ex_clean_candidate]
   \<and> new_candidates ex_workspace (in_scope_candidates ex_workspace [ex_clean_candidate])
       = Some (Inr (([''a''], [ex_clean_candidate]),
                    ([(''a'', ''1.0.1'')], [(''examples/release/a'', ''1.0.1'')]),
                    [ex_clean_candidate]))
   \<and> list_all (clean ex_workspace) [ex_clean_candidate]
   \<and> findFilesByGlobAndRef (github ex_workspace) ''**/*''
         ''docs/docusaurus/versioned_docs/version-release'' = Some (Inr [])
   \<and> findFilesByGlobAndRef (github ex_workspace) ''**/*'' ''examples/release''
       = Some (Inr [''a'', ''a/Cargo.toml''])
   \<and> run_p0 ex_workspace [ex_clean_candidate]
       = Some (Inr [ex_clean_candidate\<lparr> pullRequest_updates := ex_clean_run_p0 \<rparr>])
   \<and> distinct (map path ex_clean_run_p0)
   \<and> run_sw ex_workspace [ex_clean_candidate]
       = Some (Inr [ex_clean_candidate\<lparr> pullRequest_updates := ex_clean_run_sw \<rparr>])
   \<and> distinct (map path ex_clean_run_sw)"
proof -
  have inputs: "list_all (\<lambda>c. distinct (map path (pullRequest_updates c))) [ex_clean_candidate]"
    by (simp add: ex_clean_candidate_def)
  have handed: "list_all (clean ex_workspace) newCandidates"
    if "new_candidates ex_workspace (in_scope_candidates ex_workspace [ex_clean_candidate])
          = Some (Inr (built, versions, newCandidates))" for built versions newCandidates
    using that ex_clean_candidate_clean unfolding eval_new_candidates_clean by auto
  have processed: "list_all mirror_free (postProcessCandidates ex_workspace pushed (fst versions))"
    if "list_all mirror_free pushed" for pushed and versions :: "(string \<times> string) list \<times> (string \<times> string) list"
    using that by (simp add: ex_workspace_def)
  have manifest:
    "\<not> under ''docs/docusaurus/versioned_docs/version-release'' (manifestPath ex_workspace)"
    "\<not> under ''examples/release'' (manifestPath ex_workspace)"
    by (simp_all add: under_def ex_workspace_def)
  have docs: "findFilesByGlobAndRef (github ex_workspace) ''**/*''
         ''docs/docusaurus/versioned_docs/version-release'' = Some (Inr [])"
    by (simp add: ex_workspace_def ex_platform_def returns_def)
  have examples: "findFilesByGlobAndRef (github ex_workspace) ''**/*'' ''examples/release''
       = Some (Inr [''a'', ''a/Cargo.toml''])"
    by (simp add: ex_workspace_def ex_platform_def returns_def)
  show ?thesis
    using run_keeps_distinct [OF inputs handed processed manifest,
            where result = "[ex_clean_candidate\<lparr> pullRequest_updates := ex_clean_run_p0 \<rparr>]"]
          run_keeps_distinct [OF inputs handed processed manifest,
            where result = "[ex_clean_candidate\<lparr> pullRequest_updates := ex_clean_run_sw \<rparr>]"]
          eval_run_p0_clean eval_run_sw_clean eval_new_candidates_clean inputs docs examples
          ex_clean_candidate_clean
    by simp
qed


section \<open>C10: a clause at the start of the text\<close>






end
